theory Spec2Isabelle
  imports Complex_Main "HOL-Library.AList" "HOL-Library.Sublist"
begin

section \<open>Model backend adapters (models/handlers.py)\<close>

subsection \<open>The hosted-API adapter \<open>generate_response_groq\<close>\<close>

text \<open>
  The network client is outside the repository. It is a parameter: a record of the three
  operations the adapter uses, acting on an arbitrary world state \<open>'w\<close>.
  \<^item> \<open>new_client\<close> is the constructor \<^verbatim>\<open>Groq()\<close>: \<open>Some e\<close> when it raises \<open>e\<close>;
  \<^item> \<open>chat_create\<close> is the body of the inner \<^verbatim>\<open>try\<close>, the call
    \<^verbatim>\<open>client.chat.completions.create(...)\<close> followed by
    \<^verbatim>\<open>.choices[0].message.content\<close>: \<open>Inl e\<close> when anything in it raises an
    \<^verbatim>\<open>Exception\<close> \<open>e\<close>, \<open>Inr text\<close> otherwise;
  \<^item> \<open>time_sleep\<close> is \<^verbatim>\<open>time.sleep\<close>.
  An answer is a text. The API may also deliver an answer without content (\<^verbatim>\<open>None\<close>);
  the adapter passes it on with status ok, and the judge parser treats it as it treats a
  text without braces, since the search raises \<^verbatim>\<open>TypeError\<close> inside the \<^verbatim>\<open>try\<close> block.
  The model leaves this value out. The calls to \<^verbatim>\<open>logging\<close> are left out. What the adapter does to the outside is
  returned as a trace: \<open>Call a\<close> for the request of attempt \<open>a\<close>, \<open>Sleep n\<close> for
  \<^verbatim>\<open>time.sleep(n)\<close>.
\<close>

record 'w groq_api =
  new_client :: "'w \<Rightarrow> string option"
  chat_create :: "string \<Rightarrow> string \<Rightarrow> string \<Rightarrow> real \<Rightarrow> 'w \<Rightarrow> (string + string) \<times> 'w"
  time_sleep :: "nat \<Rightarrow> 'w \<Rightarrow> 'w"

datatype adapter_event = Call nat | Sleep nat

text \<open>The loop \<^verbatim>\<open>for attempt in range(max_retries)\<close>, on the attempts still to make.\<close>

fun retry_loop ::
  "'w groq_api \<Rightarrow> string \<Rightarrow> string \<Rightarrow> string \<Rightarrow> real \<Rightarrow> nat list \<Rightarrow> adapter_event list \<Rightarrow> 'w
    \<Rightarrow> ((string \<times> string) \<times> adapter_event list) \<times> 'w"
where
  "retry_loop api model_name system_prompt user_prompt temperature [] tr w =
     (((''MODEL_FAIL'', ''fail''), tr), w)"
| "retry_loop api model_name system_prompt user_prompt temperature (attempt # rest) tr w =
     (case chat_create api model_name system_prompt user_prompt temperature w of
        (Inr response_text, w') \<Rightarrow> (((response_text, ''ok''), tr @ [Call attempt]), w')
      | (Inl e, w') \<Rightarrow>
          (let wait_time = 2 ^ attempt in
           retry_loop api model_name system_prompt user_prompt temperature rest
             (tr @ [Call attempt, Sleep wait_time]) (time_sleep api wait_time w')))"

definition generate_response_groq ::
  "'w groq_api \<Rightarrow> string \<Rightarrow> string \<Rightarrow> string \<Rightarrow> real \<Rightarrow> int \<Rightarrow> 'w
    \<Rightarrow> ((string \<times> string) \<times> adapter_event list) \<times> 'w"
where
  "generate_response_groq api model_name system_prompt user_prompt temperature max_retries w =
     (case new_client api w of
        Some e \<Rightarrow> (((''MODEL_FAIL'', ''fail''), []), w)
      | None \<Rightarrow>
          retry_loop api model_name system_prompt user_prompt temperature
            [0 ..< nat max_retries] [] w)"

text \<open>
  A client stub whose world is the script of the answers still to come: each request takes
  the next one, and an empty script raises.
\<close>

definition scripted_api :: "((string + string) list) groq_api" where
  "scripted_api =
     \<lparr> new_client = (\<lambda>w. None),
       chat_create = (\<lambda>model_name system_prompt user_prompt temperature w.
          case w of [] \<Rightarrow> (Inl ''script exhausted'', []) | r # rs \<Rightarrow> (r, rs)),
       time_sleep = (\<lambda>n w. w) \<rparr>"

subsection \<open>The local-hosted adapter \<open>HuggingFaceModelHandler\<close>\<close>

text \<open>
  The model library is outside the repository and is a parameter as well:
  \<^item> \<open>tokenizer_from_pretrained\<close> and \<open>model_from_pretrained\<close> are
    \<^verbatim>\<open>AutoTokenizer.from_pretrained\<close> and
    \<^verbatim>\<open>AutoModelForCausalLM.from_pretrained\<close>: \<open>Inl e\<close> when they raise \<open>e\<close>;
  \<^item> \<open>model_generate\<close> is the body of the \<^verbatim>\<open>try\<close> of
    \<^verbatim>\<open>generate_response\<close> (chat template, generation, decoding) on the combined
    prompt and the temperature: \<open>Inl e\<close> when it raises, \<open>Inr text\<close> otherwise.
  A handler object is the record of its three attributes. The quantization
  configuration, built before the \<^verbatim>\<open>try\<close> block of \<^verbatim>\<open>_load_model\<close>, is left out: an
  exception there leaves the constructor in the same way as one of a load.
\<close>

record ('t, 'm, 'w) transformers =
  tokenizer_from_pretrained :: "string \<Rightarrow> string + 't"
  model_from_pretrained :: "string \<Rightarrow> string + 'm"
  model_generate :: "'t \<Rightarrow> 'm \<Rightarrow> string \<Rightarrow> real \<Rightarrow> 'w \<Rightarrow> (string + string) \<times> 'w"

record ('t, 'm) HuggingFaceModelHandler =
  model :: "'m option"
  tokenizer :: "'t option"
  self_model_id :: string

text \<open>
  \<^verbatim>\<open>_load_model\<close>: an exception of either load is logged and raised again.
\<close>

definition load_model ::
  "('t, 'm, 'w) transformers \<Rightarrow> ('t, 'm) HuggingFaceModelHandler
    \<Rightarrow> string + ('t, 'm) HuggingFaceModelHandler"
where
  "load_model lib self =
     (case tokenizer_from_pretrained lib (self_model_id self) of
        Inl e \<Rightarrow> Inl e
      | Inr t \<Rightarrow>
          (case model_from_pretrained lib (self_model_id self) of
             Inl e \<Rightarrow> Inl e
           | Inr m \<Rightarrow> Inr (self\<lparr> tokenizer := Some t, model := Some m \<rparr>)))"

text \<open>The constructor \<^verbatim>\<open>__init__\<close>.\<close>

definition new_handler ::
  "('t, 'm, 'w) transformers \<Rightarrow> string \<Rightarrow> string + ('t, 'm) HuggingFaceModelHandler"
where
  "new_handler lib model_id =
     load_model lib \<lparr> model = None, tokenizer = None, self_model_id = model_id \<rparr>"

definition nl :: string where "nl = [CHR 0x0A]"
definition dq :: string where "dq = [CHR 0x22]"
definition sq :: string where "sq = [CHR 0x27]"
definition bt :: string where "bt = [CHR 0x60]"

definition generate_response ::
  "('t, 'm, 'w) transformers \<Rightarrow> ('t, 'm) HuggingFaceModelHandler \<Rightarrow> string \<Rightarrow> string \<Rightarrow> real \<Rightarrow> 'w
    \<Rightarrow> (string \<times> string) \<times> 'w"
where
  "generate_response lib self system_prompt user_prompt temperature w =
     (case (model self, tokenizer self) of
        (Some m, Some t) \<Rightarrow>
          (let full_prompt = system_prompt @ nl @ nl @ user_prompt in
           case model_generate lib t m full_prompt (max temperature 0.01) w of
             (Inr response_text, w') \<Rightarrow> ((response_text, ''ok''), w')
           | (Inl e, w') \<Rightarrow> ((''GENERATION_FAIL'', ''fail''), w'))
      | _ \<Rightarrow> ((''MODEL_NOT_LOADED'', ''fail''), w))"

section \<open>The JSON decoder used by the judge response parser\<close>

text \<open>
  The judge parser hands the text between the braces to \<^verbatim>\<open>json.loads\<close> of the Python
  standard library. The functions of this section are a model of that decoder with its
  default settings: the grammar it accepts, and the value it builds. The decoder raises
  (\<^verbatim>\<open>JSONDecodeError\<close>, a \<^verbatim>\<open>ValueError\<close>) exactly where the model returns \<open>None\<close>.

  Texts of the program are \<open>string\<close>s, lists of 8-bit characters. A decoded JSON string
  can hold any code point (through an escape \<^verbatim>\<open>\uXXXX\<close>), so the strings inside a JSON
  value are lists of code points; \<open>ustr\<close> turns a text into one. A JSON number with a
  fraction or an exponent becomes a Python float: the model keeps its lexeme and does not
  compute with it. Python's \<^verbatim>\<open>None\<close> is \<open>JNull\<close>, a \<^verbatim>\<open>dict\<close> is an association list with
  distinct keys in insertion order.

  The decoder also raises \<^verbatim>\<open>RecursionError\<close> on a text nested deeper than the
  interpreter's stack allows at the time of the call; the judge parser catches it like
  every other exception. The model has no such bound.
\<close>

type_synonym ustring = "nat list"

definition ustr :: "string \<Rightarrow> ustring" where
  "ustr s = map of_char s"

datatype json =
    JNull
  | JBool bool
  | JInt int
  | JFloat string
  | JString ustring
  | JArray "json list"
  | JObject "(ustring \<times> json) list"

text \<open>The decoder's whitespace: space, tab, line feed, carriage return.\<close>

definition is_ws :: "char \<Rightarrow> bool" where
  "is_ws c = (c = CHR '' '' \<or> c = CHR 0x09 \<or> c = CHR 0x0A \<or> c = CHR 0x0D)"

definition py_ord :: "char \<Rightarrow> nat" where
  "py_ord c = of_char c"

definition is_digit :: "char \<Rightarrow> bool" where
  "is_digit c = (py_ord CHR ''0'' \<le> py_ord c \<and> py_ord c \<le> py_ord CHR ''9'')"

definition digit_val :: "char \<Rightarrow> nat" where
  "digit_val c = py_ord c - py_ord CHR ''0''"

definition hex_val :: "char \<Rightarrow> nat option" where
  "hex_val c =
     (if py_ord CHR ''0'' \<le> py_ord c \<and> py_ord c \<le> py_ord CHR ''9'' then Some (py_ord c - py_ord CHR ''0'')
      else if py_ord CHR ''a'' \<le> py_ord c \<and> py_ord c \<le> py_ord CHR ''f'' then Some (py_ord c - py_ord CHR ''a'' + 10)
      else if py_ord CHR ''A'' \<le> py_ord c \<and> py_ord c \<le> py_ord CHR ''F'' then Some (py_ord c - py_ord CHR ''A'' + 10)
      else None)"

subsection \<open>Strings\<close>

text \<open>
  \<open>scanstring s chunks\<close> reads a string whose opening quote has been consumed and returns
  its content and the text after the closing quote. As the decoder in strict mode: a
  control character below 0x20 is refused, a backslash is followed by one of
  \<^verbatim>\<open>" \ / b f n r t\<close> or by \<^verbatim>\<open>u\<close> and four hexadecimal digits, and a high surrogate
  followed by an escaped low surrogate makes one code point.
\<close>

fun decode_uXXXX :: "string \<Rightarrow> nat option" where
  "decode_uXXXX (a # b # c # d # rest) =
     (case (hex_val a, hex_val b, hex_val c, hex_val d) of
        (Some x, Some y, Some z, Some u) \<Rightarrow> Some (((x * 16 + y) * 16 + z) * 16 + u)
      | _ \<Rightarrow> None)"
| "decode_uXXXX _ = None"

definition backslash :: "char \<Rightarrow> nat option" where
  "backslash e =
     (if e = CHR 0x22 then Some 0x22
      else if e = CHR 0x5C then Some 0x5C
      else if e = CHR ''/'' then Some 0x2F
      else if e = CHR ''b'' then Some 0x08
      else if e = CHR ''f'' then Some 0x0C
      else if e = CHR ''n'' then Some 0x0A
      else if e = CHR ''r'' then Some 0x0D
      else if e = CHR ''t'' then Some 0x09
      else None)"

fun scanstring :: "string \<Rightarrow> ustring \<Rightarrow> (ustring \<times> string) option" where
  "scanstring [] chunks = None"
| "scanstring (c # cs) chunks =
     (if c = CHR 0x22 then Some (chunks, cs)
      else if c = CHR 0x5C then
        (case cs of
           [] \<Rightarrow> None
         | esc # cs' \<Rightarrow>
             if esc = CHR ''u'' then
               (case decode_uXXXX cs' of
                  None \<Rightarrow> None
                | Some uni \<Rightarrow>
                    let end = drop 4 cs' in
                    if 0xD800 \<le> uni \<and> uni \<le> 0xDBFF \<and> take 2 end = [CHR 0x5C, CHR ''u''] then
                      (case decode_uXXXX (drop 2 end) of
                         None \<Rightarrow> None
                       | Some uni2 \<Rightarrow>
                           if 0xDC00 \<le> uni2 \<and> uni2 \<le> 0xDFFF then
                             scanstring (drop 6 end)
                               (chunks @ [0x10000 + ((uni - 0xD800) * 1024 + (uni2 - 0xDC00))])
                           else scanstring end (chunks @ [uni]))
                    else scanstring end (chunks @ [uni]))
             else
               (case backslash esc of
                  None \<Rightarrow> None
                | Some ch \<Rightarrow> scanstring cs' (chunks @ [ch])))
      else if py_ord c < 0x20 then None
      else scanstring cs (chunks @ [py_ord c]))"



subsection \<open>Numbers\<close>

text \<open>
  The decoder's number pattern is an optional minus sign, then \<^verbatim>\<open>0\<close> or a digit sequence
  that does not start with \<^verbatim>\<open>0\<close>, then an optional fraction and an optional exponent,
  each taken only when at least one digit follows. \<open>match_number\<close> returns the three
  groups and the text after them. An integer longer than the interpreter's limit for
  conversion from a string (4300 digits by default) raises \<^verbatim>\<open>ValueError\<close>.
\<close>

fun int_of_digits :: "string \<Rightarrow> nat \<Rightarrow> nat" where
  "int_of_digits [] n = n"
| "int_of_digits (c # cs) n = int_of_digits cs (10 * n + digit_val c)"

definition match_integer :: "string \<Rightarrow> (string \<times> string) option" where
  "match_integer s =
     (let (sign, t) = (case s of c # cs \<Rightarrow> if c = CHR ''-'' then ([c], cs) else ([], s) | [] \<Rightarrow> ([], s)) in
      case t of
        [] \<Rightarrow> None
      | d # ds \<Rightarrow>
          if d = CHR ''0'' then Some (sign @ [d], ds)
          else if is_digit d then Some (sign @ d # takeWhile is_digit ds, dropWhile is_digit ds)
          else None)"

definition match_frac :: "string \<Rightarrow> (string \<times> string) option" where
  "match_frac s =
     (case s of
        c # cs \<Rightarrow>
          if c = CHR ''.'' \<and> takeWhile is_digit cs \<noteq> [] then
            Some (c # takeWhile is_digit cs, dropWhile is_digit cs)
          else None
      | [] \<Rightarrow> None)"

definition match_exp :: "string \<Rightarrow> (string \<times> string) option" where
  "match_exp s =
     (case s of
        c # cs \<Rightarrow>
          if c = CHR ''e'' \<or> c = CHR ''E'' then
            (let (sign, t) = (case cs of x # xs \<Rightarrow>
                                if x = CHR ''-'' \<or> x = CHR ''+'' then ([x], xs) else ([], cs)
                              | [] \<Rightarrow> ([], cs)) in
             if takeWhile is_digit t \<noteq> [] then
               Some (c # sign @ takeWhile is_digit t, dropWhile is_digit t)
             else None)
          else None
      | [] \<Rightarrow> None)"

definition int_max_str_digits :: nat where
  "int_max_str_digits = 4300"

definition py_int :: "string \<Rightarrow> int option" where
  "py_int integer =
     (case integer of
        c # cs \<Rightarrow>
          if c = CHR ''-'' then
            (if length cs > int_max_str_digits then None else Some (- int (int_of_digits cs 0)))
          else (if length integer > int_max_str_digits then None
                else Some (int (int_of_digits integer 0)))
      | [] \<Rightarrow> None)"

definition match_number :: "string \<Rightarrow> (string \<times> string option \<times> string option \<times> string) option" where
  "match_number s =
     (case match_integer s of
        None \<Rightarrow> None
      | Some (integer, r1) \<Rightarrow>
          (case match_frac r1 of
             None \<Rightarrow>
               (case match_exp r1 of
                  None \<Rightarrow> Some (integer, None, None, r1)
                | Some (ex, r3) \<Rightarrow> Some (integer, None, Some ex, r3))
           | Some (fr, r2) \<Rightarrow>
               (case match_exp r2 of
                  None \<Rightarrow> Some (integer, Some fr, None, r2)
                | Some (ex, r3) \<Rightarrow> Some (integer, Some fr, Some ex, r3))))"


subsection \<open>Tokens\<close>

text \<open>
  \<open>next_token\<close> skips whitespace and reads one token in the order the decoder tries them:
  a string, a bracket or a separator, the literals \<^verbatim>\<open>null\<close>, \<^verbatim>\<open>true\<close>,
  \<^verbatim>\<open>false\<close>, a number, then \<^verbatim>\<open>NaN\<close>, \<^verbatim>\<open>Infinity\<close> and \<^verbatim>\<open>-Infinity\<close>.
\<close>

datatype token = TLBrace | TRBrace | TLBrack | TRBrack | TColon | TComma | TValue json

datatype lexres = LexEnd | LexError | LexTok token string

definition startswith :: "string \<Rightarrow> string \<Rightarrow> bool" where
  "startswith s p = (take (length p) s = p)"

definition number_token :: "string \<Rightarrow> string option \<Rightarrow> string option \<Rightarrow> string \<Rightarrow> lexres" where
  "number_token integer fr ex rest =
     (if fr = None \<and> ex = None then
        (case py_int integer of
           None \<Rightarrow> LexError
         | Some n \<Rightarrow> LexTok (TValue (JInt n)) rest)
      else LexTok (TValue (JFloat (integer @ (case fr of None \<Rightarrow> [] | Some f \<Rightarrow> f)
                                     @ (case ex of None \<Rightarrow> [] | Some e \<Rightarrow> e)))) rest)"

definition next_token :: "string \<Rightarrow> lexres" where
  "next_token s =
     (case dropWhile is_ws s of
        [] \<Rightarrow> LexEnd
      | nextchar # rest \<Rightarrow>
          if nextchar = CHR 0x22 then
            (case scanstring rest [] of
               None \<Rightarrow> LexError
             | Some (u, rest') \<Rightarrow> LexTok (TValue (JString u)) rest')
          else if nextchar = CHR ''{'' then LexTok TLBrace rest
          else if nextchar = CHR ''}'' then LexTok TRBrace rest
          else if nextchar = CHR ''['' then LexTok TLBrack rest
          else if nextchar = CHR '']'' then LexTok TRBrack rest
          else if nextchar = CHR '':'' then LexTok TColon rest
          else if nextchar = CHR '','' then LexTok TComma rest
          else if startswith (nextchar # rest) ''null'' then LexTok (TValue JNull) (drop 3 rest)
          else if startswith (nextchar # rest) ''true'' then LexTok (TValue (JBool True)) (drop 3 rest)
          else if startswith (nextchar # rest) ''false'' then LexTok (TValue (JBool False)) (drop 4 rest)
          else
            (case match_number (nextchar # rest) of
               Some (integer, fr, ex, rest') \<Rightarrow> number_token integer fr ex rest'
             | None \<Rightarrow>
                 if startswith (nextchar # rest) ''NaN'' then
                   LexTok (TValue (JFloat ''NaN'')) (drop 2 rest)
                 else if startswith (nextchar # rest) ''Infinity'' then
                   LexTok (TValue (JFloat ''Infinity'')) (drop 7 rest)
                 else if startswith (nextchar # rest) ''-Infinity'' then
                   LexTok (TValue (JFloat ''-Infinity'')) (drop 8 rest)
                 else LexError))"

subsection \<open>Values\<close>

text \<open>
  The decoder descends recursively into arrays and objects. The model reads the tokens
  from left to right and keeps the open containers on a stack instead, each with what it
  has collected and what it expects next; it accepts the same texts and builds the same
  values. An array is \<^verbatim>\<open>[\<close>, values separated by commas, \<^verbatim>\<open>]\<close>; an object is
  \<^verbatim>\<open>{\<close>, pairs of a string key, a colon and a value, separated by commas, \<^verbatim>\<open>}\<close>; no
  comma may come before the closing bracket. A key that occurs again keeps its place and
  takes the later value, as \<^verbatim>\<open>dict(pairs)\<close> does.
\<close>

datatype array_mode = ArrayOpen | ArrayValue | ArrayComma

datatype object_mode = ObjectOpen | ObjectKey ustring | ObjectColon ustring | ObjectValue | ObjectComma

datatype frame =
    ArrayFrame "json list" array_mode
  | ObjectFrame "(ustring \<times> json) list" object_mode

datatype pstate = Parsing "frame list" | Done json

definition dict :: "(ustring \<times> json) list \<Rightarrow> (ustring \<times> json) list" where
  "dict pairs = foldl (\<lambda>d (k, v). AList.update k v d) [] pairs"

fun expects_value :: "frame list \<Rightarrow> bool" where
  "expects_value [] = True"
| "expects_value (ArrayFrame vs m # st) = (m = ArrayOpen \<or> m = ArrayComma)"
| "expects_value (ObjectFrame ps m # st) = (case m of ObjectColon k \<Rightarrow> True | _ \<Rightarrow> False)"

fun put_value :: "json \<Rightarrow> frame list \<Rightarrow> pstate option" where
  "put_value v [] = Some (Done v)"
| "put_value v (ArrayFrame vs m # st) =
     (if m = ArrayOpen \<or> m = ArrayComma then Some (Parsing (ArrayFrame (vs @ [v]) ArrayValue # st))
      else None)"
| "put_value v (ObjectFrame ps m # st) =
     (case m of
        ObjectColon k \<Rightarrow> Some (Parsing (ObjectFrame (ps @ [(k, v)]) ObjectValue # st))
      | _ \<Rightarrow> None)"

fun scalar :: "json \<Rightarrow> frame list \<Rightarrow> pstate option" where
  "scalar v (ObjectFrame ps m # st) =
     (if m = ObjectOpen \<or> m = ObjectComma then
        (case v of JString k \<Rightarrow> Some (Parsing (ObjectFrame ps (ObjectKey k) # st)) | _ \<Rightarrow> None)
      else put_value v (ObjectFrame ps m # st))"
| "scalar v st = put_value v st"

fun close_array :: "frame list \<Rightarrow> pstate option" where
  "close_array (ArrayFrame vs m # st) =
     (if m = ArrayOpen \<or> m = ArrayValue then put_value (JArray vs) st else None)"
| "close_array st = None"

fun close_object :: "frame list \<Rightarrow> pstate option" where
  "close_object (ObjectFrame ps m # st) =
     (if m = ObjectOpen \<or> m = ObjectValue then put_value (JObject (dict ps)) st else None)"
| "close_object st = None"

fun comma :: "frame list \<Rightarrow> pstate option" where
  "comma (ArrayFrame vs m # st) =
     (if m = ArrayValue then Some (Parsing (ArrayFrame vs ArrayComma # st)) else None)"
| "comma (ObjectFrame ps m # st) =
     (if m = ObjectValue then Some (Parsing (ObjectFrame ps ObjectComma # st)) else None)"
| "comma [] = None"

fun colon :: "frame list \<Rightarrow> pstate option" where
  "colon (ObjectFrame ps m # st) =
     (case m of ObjectKey k \<Rightarrow> Some (Parsing (ObjectFrame ps (ObjectColon k) # st)) | _ \<Rightarrow> None)"
| "colon st = None"

fun step :: "token \<Rightarrow> pstate \<Rightarrow> pstate option" where
  "step t (Done v) = None"
| "step (TValue v) (Parsing st) = scalar v st"
| "step TLBrack (Parsing st) =
     (if expects_value st then Some (Parsing (ArrayFrame [] ArrayOpen # st)) else None)"
| "step TLBrace (Parsing st) =
     (if expects_value st then Some (Parsing (ObjectFrame [] ObjectOpen # st)) else None)"
| "step TRBrack (Parsing st) = close_array st"
| "step TRBrace (Parsing st) = close_object st"
| "step TComma (Parsing st) = comma st"
| "step TColon (Parsing st) = colon st"

subsection \<open>The decoder\<close>

text \<open>Every token consumes at least one character, so the decoder terminates.\<close>

lemma scanstring_shorter: "scanstring s chunks = Some (u, rest) \<Longrightarrow> length rest < length s"
proof (induction s chunks rule: scanstring.induct)
  case (1 chunks)
  then show ?case by simp
next
  case (2 c cs chunks)
  show ?case
  proof (cases "c = CHR 0x22")
    case True
    with "2.prems" show ?thesis by simp
  next
    case nq: False
    show ?thesis
    proof (cases "c = CHR 0x5C")
      case False
      with nq "2.prems" have "py_ord c \<ge> 0x20" and "scanstring cs (chunks @ [py_ord c]) = Some (u, rest)"
        by (auto split: if_splits)
      with "2.IH"(5)[OF nq False] show ?thesis by fastforce
    next
      case bs: True
      with nq "2.prems" obtain esc cs' where cs: "cs = esc # cs'"
        by (cases cs) auto
      show ?thesis
      proof (cases "esc = CHR ''u''")
        case False
        with nq bs cs "2.prems" obtain ch where b: "backslash esc = Some ch"
          and r: "scanstring cs' (chunks @ [ch]) = Some (u, rest)"
          by (auto split: option.splits)
        from "2.IH"(4)[OF nq bs cs False b r] cs show ?thesis by simp
      next
        case u: True
        with nq bs cs "2.prems" obtain uni where d: "decode_uXXXX cs' = Some uni"
          by (auto split: option.splits)
        let ?end = "drop 4 cs'"
        show ?thesis
        proof (cases "0xD800 \<le> uni \<and> uni \<le> 0xDBFF \<and> take 2 ?end = [CHR 0x5C, CHR ''u'']")
          case False
          with nq bs cs u d "2.prems" have r: "scanstring ?end (chunks @ [uni]) = Some (u, rest)"
            by (auto simp: Let_def)
          from "2.IH"(3)[OF nq bs cs u d refl False r] cs show ?thesis by simp
        next
          case sur: True
          with nq bs cs u d "2.prems" obtain uni2 where d2: "decode_uXXXX (drop 2 ?end) = Some uni2"
            by (auto simp: Let_def split: option.splits)
          show ?thesis
          proof (cases "0xDC00 \<le> uni2 \<and> uni2 \<le> 0xDFFF")
            case True
            with nq bs cs u d sur d2 "2.prems"
            have r: "scanstring (drop 6 ?end) (chunks @ [0x10000 + ((uni - 0xD800) * 1024 + (uni2 - 0xDC00))]) = Some (u, rest)"
              by (auto simp: Let_def)
            from "2.IH"(1)[OF nq bs cs u d refl sur d2 True r] cs show ?thesis by simp
          next
            case False
            with nq bs cs u d sur d2 "2.prems"
            have r: "scanstring ?end (chunks @ [uni]) = Some (u, rest)"
              by (auto simp: Let_def)
            from "2.IH"(2)[OF nq bs cs u d refl sur d2 False r] cs show ?thesis by simp
          qed
        qed
      qed
    qed
  qed
qed

lemma match_integer_shorter: "match_integer s = Some (i, rest) \<Longrightarrow> length rest < length s"
  by (auto simp: match_integer_def Let_def split: list.splits if_splits prod.splits
      intro: le_imp_less_Suc length_dropWhile_le less_SucI)

lemma match_frac_shorter: "match_frac s = Some (i, rest) \<Longrightarrow> length rest < length s"
  by (auto simp: match_frac_def split: list.splits if_splits
      intro: le_imp_less_Suc length_dropWhile_le)

lemma match_exp_shorter: "match_exp s = Some (i, rest) \<Longrightarrow> length rest < length s"
  by (auto simp: match_exp_def Let_def split: list.splits if_splits prod.splits
      intro: le_imp_less_Suc length_dropWhile_le less_SucI)

lemma match_number_shorter:
  "match_number s = Some (i, fr, ex, rest) \<Longrightarrow> length rest < length s"
  by (auto simp: match_number_def split: option.splits
      dest!: match_integer_shorter match_frac_shorter match_exp_shorter)

lemma number_token_rest: "number_token i fr ex r = LexTok t rest \<Longrightarrow> rest = r"
  by (auto simp: number_token_def split: if_splits option.splits)

lemma next_token_shorter: "next_token s = LexTok t rest \<Longrightarrow> length rest < length s"
proof -
  assume a: "next_token s = LexTok t rest"
  have le: "length (dropWhile is_ws s) \<le> length s" by (rule length_dropWhile_le)
  from a obtain c cs where d: "dropWhile is_ws s = c # cs"
    by (cases "dropWhile is_ws s") (auto simp: next_token_def)
  from a d have "length rest \<le> length cs"
    by (auto simp: next_token_def split: if_splits option.splits prod.splits
        dest!: scanstring_shorter match_number_shorter number_token_rest)
  with le d show ?thesis by simp
qed

function decode :: "string \<Rightarrow> pstate \<Rightarrow> json option" where
  "decode s ps =
     (case next_token s of
        LexError \<Rightarrow> None
      | LexEnd \<Rightarrow> (case ps of Done v \<Rightarrow> Some v | Parsing st \<Rightarrow> None)
      | LexTok t rest \<Rightarrow>
          (case step t ps of
             None \<Rightarrow> None
           | Some ps' \<Rightarrow> decode rest ps'))"
  by pat_completeness auto
termination
  by (relation "measure (\<lambda>(s, ps). length s)") (auto dest: next_token_shorter)

text \<open>\<^verbatim>\<open>json.loads\<close>: exactly one value, with whitespace allowed around it.\<close>

definition json_loads :: "string \<Rightarrow> json option" where
  "json_loads s = decode s (Parsing [])"

declare decode.simps [simp del]

section \<open>Experiment engine (core/experiments.py)\<close>

subsection \<open>Exceptions the engine can raise\<close>

text \<open>
  \<^item> \<open>KeyError k\<close>: a subscript \<^verbatim>\<open>d[k]\<close> on a dictionary without the key \<open>k\<close>;
  \<^item> \<open>UnboundLocalError v\<close>: the local variable \<open>v\<close> is read before any assignment;
  \<^item> \<open>IndexError\<close>: \<^verbatim>\<open>s[0]\<close> on an empty string;
  \<^item> \<open>AttributeError\<close>: \<^verbatim>\<open>.get\<close> on a value that is not a dictionary.
\<close>

datatype error = KeyError string | UnboundLocalError string | IndexError | AttributeError

subsection \<open>The judge response parser\<close>

text \<open>
  \<^verbatim>\<open>re.search(r'\{.*\}', judge_response_raw, re.DOTALL)\<close> followed by
  \<^verbatim>\<open>match.group(0)\<close>. The search takes the leftmost match, the dot matches every
  character and the star is greedy: the match starts at the first \<^verbatim>\<open>{\<close> and ends at the
  last \<^verbatim>\<open>}\<close> after it; there is none when no \<^verbatim>\<open>}\<close> comes after the first \<^verbatim>\<open>{\<close>.
\<close>

definition re_search_braces :: "string \<Rightarrow> string option" where
  "re_search_braces judge_response_raw =
     (case dropWhile (\<lambda>c. c \<noteq> CHR ''{'') judge_response_raw of
        [] \<Rightarrow> None
      | c # rest \<Rightarrow>
          if CHR ''}'' \<in> set rest then
            Some (c # rev (dropWhile (\<lambda>c. c \<noteq> CHR ''}'') (rev rest)))
          else None)"

text \<open>The dictionary assigned in the \<^verbatim>\<open>except\<close> branch.\<close>

definition JSON_PARSE_ERROR :: json where
  "JSON_PARSE_ERROR =
     JObject [(ustr ''score'', JNull), (ustr ''clues'', JNull),
              (ustr ''reasoning'', JString (ustr ''JSON PARSE ERROR'')),
              (ustr ''decision type'', JNull)]"

text \<open>
  The \<^verbatim>\<open>try\<close> block: no match raises \<^verbatim>\<open>ValueError\<close>, \<^verbatim>\<open>json.loads\<close> may raise, and
  every exception ends in the \<^verbatim>\<open>except\<close> branch.
\<close>

definition parse_judge_response :: "string \<Rightarrow> json" where
  "parse_judge_response judge_response_raw =
     (case re_search_braces judge_response_raw of
        None \<Rightarrow> JSON_PARSE_ERROR
      | Some json_string \<Rightarrow>
          (case json_loads json_string of
             None \<Rightarrow> JSON_PARSE_ERROR
           | Some judge_result \<Rightarrow> judge_result))"

text \<open>
  \<^verbatim>\<open>judge_result.get(key)\<close>, outside the \<^verbatim>\<open>try\<close>: the value of the key, \<^verbatim>\<open>None\<close> for
  an absent key, and \<^verbatim>\<open>AttributeError\<close> when \<^verbatim>\<open>judge_result\<close> is not a dictionary.
\<close>

fun dict_get :: "json \<Rightarrow> string \<Rightarrow> error + json" where
  "dict_get (JObject d) key = Inr (case map_of d (ustr key) of None \<Rightarrow> JNull | Some v \<Rightarrow> v)"
| "dict_get v key = Inl AttributeError"

record judge_verdict =
  score :: json
  clues :: json
  reasoning :: json
  decision_type :: json

definition verdict_of :: "json \<Rightarrow> error + judge_verdict" where
  "verdict_of judge_result =
     (case dict_get judge_result ''score'' of
        Inl e \<Rightarrow> Inl e
      | Inr s \<Rightarrow>
     (case dict_get judge_result ''clues'' of
        Inl e \<Rightarrow> Inl e
      | Inr c \<Rightarrow>
     (case dict_get judge_result ''reasoning'' of
        Inl e \<Rightarrow> Inl e
      | Inr r \<Rightarrow>
     (case dict_get judge_result ''decision type'' of
        Inl e \<Rightarrow> Inl e
      | Inr d \<Rightarrow> Inr \<lparr> score = s, clues = c, reasoning = r, decision_type = d \<rparr>))))"

text \<open>The parser as a whole: from the judge's text to the four judge fields of a row.\<close>

definition judge_parser :: "string \<Rightarrow> error + judge_verdict" where
  "judge_parser judge_response_raw = verdict_of (parse_judge_response judge_response_raw)"

subsection \<open>Configuration data (config/settings.py, config/prompts.py)\<close>

text \<open>
  A dictionary that the engine iterates over is an association list in insertion order
  (Python's dictionaries keep it), with distinct keys. The dictionaries of fixed shape
  (a model entry, a trait entry, a questionnaire item) are records of their keys;
  \<open>definition_text\<close> is the key \<^verbatim>\<open>definition\<close>, which only the classification entries
  have and which the engine reads with \<^verbatim>\<open>.get('definition', '')\<close>.
\<close>

record model_info =
  handler :: string
  model_id :: string

record trait_info =
  name :: string
  low :: string
  high :: string
  definition_text :: "string option"

record traits_definitions =
  generation :: "(string \<times> trait_info) list"
  classification :: "(string \<times> trait_info) list"

record question_set =
  q_num :: int
  q_statement :: string
  q_type :: string

definition TRAITS_DEFINITIONS :: traits_definitions where
  "TRAITS_DEFINITIONS =
     \<lparr> generation =
         [(''O'',
           \<lparr> name = ''Openness'',
              low = ''A person with a low score is practical and prefers routine.'',
              high = ''A person with a high score is imaginative, curious, and open to new experiences.'',
              definition_text = None \<rparr>),
          (''C'',
           \<lparr> name = ''Conscientiousness'',
              low = ''A person with a low score is disorganized and careless.'',
              high = ''A person with a high score is disciplined, organized, and achievement-oriented.'',
              definition_text = None \<rparr>),
          (''E'',
           \<lparr> name = ''Extraversion'',
              low = ''A person with a low score is reserved and solitary.'',
              high = ''A person with a high score is outgoing, sociable, and energetic.'',
              definition_text = None \<rparr>),
          (''A'',
           \<lparr> name = ''Agreeableness'',
              low = ''A person with a low score is critical and uncooperative.'',
              high = ''A person with a high score is compassionate, cooperative, and trusting.'',
              definition_text = None \<rparr>),
          (''N'',
           \<lparr> name = ''Neuroticism'',
              low = ''A person with a low score is calm, secure, and emotionally stable.'',
              high = ''A person with a high score is anxious, insecure, and prone to negative '' @
                  ''emotions.'',
              definition_text = None \<rparr>)],
       classification =
         [(''O'',
           \<lparr> name = ''Openness'',
              low = ''A person with a low score is practical, conventional, and prefers routine '' @
                  ''over new experiences.'',
              high = ''A person with a high score is imaginative, adventurous, and receptive '' @
                  ''to a wide range of ideas and emotions.'',
              definition_text = Some (''Openness to experience describes a person'' @ sq @
                  ''s tendency to be open to new ideas, creative, curious, and appreciative '' @
                  ''of art and beauty.'') \<rparr>),
          (''C'',
           \<lparr> name = ''Conscientiousness'',
              low = ''A person with a low score is impulsive, disorganized, and less focused '' @
                  ''on long-term goals.'',
              high = ''A person with a high score is disciplined, detail-oriented, and reliable '' @
                  ''in their commitments.'',
              definition_text = Some (''Conscientiousness refers to the tendency to be organized, responsible, '' @
                  ''and dependable.'') \<rparr>),
          (''E'',
           \<lparr> name = ''Extraversion'',
              low = ''A person with a low score is reserved, reflective, and prefers solitary '' @
                  ''activities or small groups.'',
              high = ''A person with a high score is outgoing, energetic, and thrives in social '' @
                  ''situations.'',
              definition_text = Some (''Extraversion reflects a person'' @ sq @
                  ''s level of sociability, assertiveness, and emotional expression.'') \<rparr>),
          (''A'',
           \<lparr> name = ''Agreeableness'',
              low = ''A person with a low score is competitive, critical, and may be seen as '' @
                  ''untrusting or suspicious.'',
              high = ''A person with a high score is friendly, helpful, and empathetic towards '' @
                  ''others.'',
              definition_text = Some (''Agreeableness indicates a person'' @ sq @
                  ''s tendency to be compassionate, cooperative, and considerate of others.'') \<rparr>),
          (''N'',
           \<lparr> name = ''Neuroticism'',
              low = ''A person with a low score is calm, secure, and resilient to stress.'',
              high = ''A person with a high score is emotionally reactive, prone to stress, and '' @
                  ''may experience frequent mood swings.'',
              definition_text = Some (''Neuroticism, often referred to as emotional stability, describes the tendency '' @
                  ''to experience negative emotions like anxiety, anger, and sadness.'') \<rparr>)] \<rparr>"

definition QUESTIONS :: "string list" where
  "QUESTIONS =
     [''What is your dream career?'',
      ''What quality do you appreciate the most in a friend?'',
      ''If you had enough money to retire tomorrow, what would you do for the '' @
          ''rest of your life?'',
      ''What can we learn from children?'',
      ''If you could play the main character in any movie, what movie would it '' @
          ''be?'',
      ''What does the world need more of?'']"

definition BFI44_SCORES_DICT :: "(string \<times> int) list" where
  "BFI44_SCORES_DICT =
     [(''disagree strongly with the statement'', 1),
      (''disagree a little with the statement'', 2),
      (''agree nor disagree with the statement'', 3),
      (''agree a little with the statement'', 4),
      (''agree strongly with the statement'', 5)]"

definition BFI44_QUESTIONS :: "(string \<times> question_set list) list" where
  "BFI44_QUESTIONS =
     [(''openness'',
        [\<lparr> q_num = 5, q_statement = ''I see myself as someone who Is original, comes up with new ideas'',
           q_type = ''direct'' \<rparr>,
         \<lparr> q_num = 10, q_statement = ''I see myself as someone who Is curious about many different things'',
           q_type = ''direct'' \<rparr>,
         \<lparr> q_num = 15, q_statement = ''I see myself as someone who Is ingenious, a deep thinker'',
           q_type = ''direct'' \<rparr>,
         \<lparr> q_num = 20, q_statement = ''I see myself as someone who Has an active imagination'',
           q_type = ''direct'' \<rparr>,
         \<lparr> q_num = 25, q_statement = ''I see myself as someone who Is inventive'',
           q_type = ''direct'' \<rparr>,
         \<lparr> q_num = 30, q_statement = ''I see myself as someone who Values artistic, aesthetic experiences'',
           q_type = ''direct'' \<rparr>,
         \<lparr> q_num = 35, q_statement = ''I see myself as someone who Prefers work that is routine'',
           q_type = ''inverted'' \<rparr>,
         \<lparr> q_num = 40, q_statement = ''I see myself as someone who Likes to reflect, play with ideas'',
           q_type = ''direct'' \<rparr>,
         \<lparr> q_num = 41, q_statement = ''I see myself as someone who Has few artistic interests'',
           q_type = ''inverted'' \<rparr>,
         \<lparr> q_num = 44, q_statement = ''I see myself as someone who Is sophisticated in art, music, or literature'',
           q_type = ''direct'' \<rparr>]),
      (''conscientiousness'',
        [\<lparr> q_num = 3, q_statement = ''I see myself as someone who Does a thorough job'',
           q_type = ''direct'' \<rparr>,
         \<lparr> q_num = 8, q_statement = ''I see myself as someone who Can be somewhat careless'',
           q_type = ''inverted'' \<rparr>,
         \<lparr> q_num = 13, q_statement = ''I see myself as someone who Is a reliable worker'',
           q_type = ''direct'' \<rparr>,
         \<lparr> q_num = 18, q_statement = ''I see myself as someone who Tends to be disorganized'',
           q_type = ''inverted'' \<rparr>,
         \<lparr> q_num = 23, q_statement = ''I see myself as someone who Tends to be lazy'',
           q_type = ''inverted'' \<rparr>,
         \<lparr> q_num = 28, q_statement = ''I see myself as someone who Perseveres until the task is finished'',
           q_type = ''direct'' \<rparr>,
         \<lparr> q_num = 33, q_statement = ''I see myself as someone who Does things efficiently'',
           q_type = ''direct'' \<rparr>,
         \<lparr> q_num = 38, q_statement = ''I see myself as someone who Makes plans and follows through with them'',
           q_type = ''direct'' \<rparr>,
         \<lparr> q_num = 43, q_statement = ''I see myself as someone who Is easily distracted'',
           q_type = ''inverted'' \<rparr>]),
      (''extraversion'',
        [\<lparr> q_num = 1, q_statement = ''I see myself as someone who Is talkative'',
           q_type = ''direct'' \<rparr>,
         \<lparr> q_num = 6, q_statement = ''I see myself as someone who Is reserved'',
           q_type = ''inverted'' \<rparr>,
         \<lparr> q_num = 11, q_statement = ''I see myself as someone who Is full of energy'',
           q_type = ''direct'' \<rparr>,
         \<lparr> q_num = 16, q_statement = ''I see myself as someone who Generates a lot of enthusiasm'',
           q_type = ''direct'' \<rparr>,
         \<lparr> q_num = 21, q_statement = ''I see myself as someone who Tends to be quiet'',
           q_type = ''inverted'' \<rparr>,
         \<lparr> q_num = 26, q_statement = ''I see myself as someone who Has an assertive personality'',
           q_type = ''direct'' \<rparr>,
         \<lparr> q_num = 31, q_statement = ''I see myself as someone who Is sometimes shy, inhibited'',
           q_type = ''inverted'' \<rparr>,
         \<lparr> q_num = 36, q_statement = ''I see myself as someone who Is outgoing, sociable'',
           q_type = ''direct'' \<rparr>]),
      (''agreeableness'',
        [\<lparr> q_num = 2, q_statement = ''I see myself as someone who Tends to find fault with others'',
           q_type = ''inverted'' \<rparr>,
         \<lparr> q_num = 7, q_statement = ''I see myself as someone who Is helpful and unselfish with others'',
           q_type = ''direct'' \<rparr>,
         \<lparr> q_num = 12, q_statement = ''I see myself as someone who Starts quarrels with others'',
           q_type = ''inverted'' \<rparr>,
         \<lparr> q_num = 17, q_statement = ''I see myself as someone who Has a forgiving nature'',
           q_type = ''direct'' \<rparr>,
         \<lparr> q_num = 22, q_statement = ''I see myself as someone who Is generally trusting'',
           q_type = ''direct'' \<rparr>,
         \<lparr> q_num = 27, q_statement = ''I see myself as someone who Can be cold and aloof'',
           q_type = ''inverted'' \<rparr>,
         \<lparr> q_num = 32, q_statement = ''I see myself as someone who Is considerate and kind to almost everyone'',
           q_type = ''direct'' \<rparr>,
         \<lparr> q_num = 37, q_statement = ''I see myself as someone who Is sometimes rude to others'',
           q_type = ''inverted'' \<rparr>,
         \<lparr> q_num = 42, q_statement = ''I see myself as someone who Likes to cooperate with others'',
           q_type = ''direct'' \<rparr>]),
      (''neuroticism'',
        [\<lparr> q_num = 4, q_statement = ''I see myself as someone who Is depressed, blue'',
           q_type = ''direct'' \<rparr>,
         \<lparr> q_num = 9, q_statement = ''I see myself as someone who Is relaxed, handles stress well'',
           q_type = ''inverted'' \<rparr>,
         \<lparr> q_num = 14, q_statement = ''I see myself as someone who Can be tense'',
           q_type = ''direct'' \<rparr>,
         \<lparr> q_num = 19, q_statement = ''I see myself as someone who Worries a lot'',
           q_type = ''direct'' \<rparr>,
         \<lparr> q_num = 24, q_statement = ''I see myself as someone who Is emotionally stable, not easily upset'',
           q_type = ''inverted'' \<rparr>,
         \<lparr> q_num = 29, q_statement = ''I see myself as someone who Can be moody'',
           q_type = ''direct'' \<rparr>,
         \<lparr> q_num = 34, q_statement = ''I see myself as someone who Remains calm in tense situations'',
           q_type = ''inverted'' \<rparr>,
         \<lparr> q_num = 39, q_statement = ''I see myself as someone who Gets nervous easily'',
           q_type = ''direct'' \<rparr>])]"

definition MODELS_TO_TEST :: "(string \<times> model_info) list" where
  "MODELS_TO_TEST =
     [(''Gemma-7B (Hugging Face)'', \<lparr> handler = ''hf'', model_id = ''google/gemma-7b-it'' \<rparr>),
      (''Llama-3.1-8B (Groq)'', \<lparr> handler = ''groq'', model_id = ''llama-3.1-8b-instant'' \<rparr>)]"

definition JUDGE_MODEL_ID :: string where
  "JUDGE_MODEL_ID = ''llama3-70b-8192''"

subsection \<open>Prompt texts\<close>

text \<open>
  The prompts are f-strings. \<open>str_int\<close> is \<^verbatim>\<open>str\<close> on an integer. The engine passes
  three of them through \<^verbatim>\<open>textwrap.dedent\<close>, which leaves a text unchanged when its
  first line is not indented and no line consists of blanks only, as is the case with the
  configured data; the model takes it as the identity. \<open>repr_list\<close> is the text of a
  list of strings inside an f-string, for strings without quotes, backslashes and control
  characters, as the configured answer options are. No property below depends on the
  content of a prompt: the backends are arbitrary functions of it.
\<close>

fun str_nat :: "nat \<Rightarrow> string" where
  "str_nat n = (if n < 10 then [char_of (48 + n)] else str_nat (n div 10) @ [char_of (48 + n mod 10)])"

definition str_int :: "int \<Rightarrow> string" where
  "str_int i = (if i < 0 then ''-'' @ str_nat (nat (- i)) else str_nat (nat i))"

fun join :: "string \<Rightarrow> string list \<Rightarrow> string" where
  "join sep [] = []"
| "join sep [x] = x"
| "join sep (x # y # ys) = x @ sep @ join sep (y # ys)"

definition repr_list :: "string list \<Rightarrow> string" where
  "repr_list xs = ''['' @ join '', '' (map (\<lambda>x. sq @ x @ sq) xs) @ '']''"

definition system_prompt_generate :: "string \<Rightarrow> int \<Rightarrow> trait_info \<Rightarrow> string" where
  "system_prompt_generate trait_name trait_score_num trait_gen_info =
     ''TASK: Answer the QUESTION according to your PERSONALITY. Use INSTRUCTION. '' @
       ''Use at most 5 sentences. Do not mention your personality traits in the '' @
       ''text. Type only the answer, without the information about your personality '' @
       ''score. PERSONALITY: - Your personality trait '' @ dq @ trait_name @ dq @
       '' is rated as '' @ str_int trait_score_num @
       ''. INSTRUCTION: - The personality trait is rated from 1 to 5. 1 is the '' @
       ''lowest score and 5 is the highest score. - '' @ low trait_gen_info @ '' - '' @
       high trait_gen_info"

definition user_prompt_generate :: "string \<Rightarrow> string" where
  "user_prompt_generate question = ''QUESTION:'' @ nl @ bt @ bt @ bt @ nl @ question @ nl @ bt @ bt @ bt"

definition system_prompt_judge :: "string \<Rightarrow> trait_info \<Rightarrow> string" where
  "system_prompt_judge trait_name trait_class_info =
     ''You will be provided with answers to questions. Detect the score of '' @
       trait_name @
       '' for the author of the INPUT from the list [-2, -1, 0, 1, 2] or Nondistinguishable. '' @
       ''Use INSTRUCTION. TASK: 1. First, list CLUES (i.e., keywords, phrases, '' @
       ''contextual information, semantic relations, semantic meaning, tones, references) '' @
       ''that support the score determination of '' @ trait_name @
       '' of INPUT. 2. Second, deduce the diagnostic REASONING process from premises '' @
       ''(i.e., clues, input) that supports the INPUT score determination (Limit '' @
       ''the number of words to 130). 3. Third, based on clues, reasoning and input, '' @
       ''determine the score of '' @ trait_name @
       '' for the author of INPUT from the list [-2, -1, 0, 1, 2] or Nondistinguishable. '' @
       ''4. Mark what made you choose this score as decision type: Explicit signs, '' @
       ''Implicit signs, Intuition, Nondistinguishable. 5. Provide your output '' @
       ''in JSON format with the keys: score, clues, reasoning, decision type. '' @
       ''PROVIDE ONLY JSON. INSTRUCTION: - Definition: '' @
       (case definition_text trait_class_info of None \<Rightarrow> [] | Some d \<Rightarrow> d) @
       '' - High score of '' @ trait_name @ '' (maximum 2): '' @ sq @
       high trait_class_info @ sq @ '' - Low score of '' @ trait_name @
       '' (minimum -2): '' @ sq @ low trait_class_info @ sq @
       '' - Explicit signs: The person mentions obvious facts that are connected '' @
       ''with this trait score. - Implicit signs: The person mentions facts that '' @
       ''may imply them having this trait score. - Intuition: My intuition tells '' @
       ''that the person has this trait score. - Nondistinguishable: I can'' @ sq @
       ''t tell what trait score the person has. - If the text does not contain '' @
       ''substantial, significant, and convincing indicators of the trait score, '' @
       ''then use Nondistinguishable. - Choose something other than Nondistinguishable '' @
       ''if you have a high degree of confidence in the answer.''"

definition user_prompt_judge :: "string \<Rightarrow> string \<Rightarrow> string" where
  "user_prompt_judge question generated_text =
     ''Question: '' @ question @ '' INPUT: '' @ generated_text"

definition questionnaire_system_prompt :: "string \<Rightarrow> string \<Rightarrow> trait_info \<Rightarrow> (string \<times> int) list \<Rightarrow> string" where
  "questionnaire_system_prompt level trait_name trait_info bfi44_scores_dict =
     (let trait_prompt = ''Act as a person with a '' @ level @ '' score in '' @ trait_name @ ''. '' @
            (if level = ''high'' then high trait_info else low trait_info);
          provided_options = join nl (map (\<lambda>option. ''- '' @ option) (map fst bfi44_scores_dict));
          constant_list = map fst bfi44_scores_dict
      in
     ''TASK: Indicate your level of agreement or disagreement with the statement '' @
       ''in the CHARACTERISTICS according to your PERSONALITY. Use only the PROVIDED '' @
       ''OPTIONS. PERSONALITY: '' @ bt @ bt @ bt @ '' '' @ trait_prompt @ '' '' @ bt @ bt @
       bt @ '' PROVIDED OPTIONS: '' @ provided_options @
       '' Provide your output only from the constant list '' @ repr_list constant_list @
       '' without explanation.'')"

definition questionnaire_user_prompt :: "question_set \<Rightarrow> string" where
  "questionnaire_user_prompt question_set =
     ''CHARACTERISTICS:'' @ nl @ bt @ bt @ bt @ nl @ q_statement question_set @ nl @ bt @ bt @ bt"

declare str_nat.simps [simp del]

subsection \<open>Backends as the engine sees them\<close>

text \<open>
  The engine receives the hosted adapter as the function \<^verbatim>\<open>groq_generate_func\<close>
  (model id, system prompt, user prompt, and the keyword \<^verbatim>\<open>temperature\<close>, \<open>None\<close> when
  the call leaves it out) and the local handlers as a dictionary from model key to an
  object with the method \<^verbatim>\<open>generate_response(system_prompt, user_prompt)\<close>. Both
  return a text and a status and may change the world \<open>'w\<close>.
\<close>

type_synonym 'w groq_generate_func =
  "string \<Rightarrow> string \<Rightarrow> string \<Rightarrow> real option \<Rightarrow> 'w \<Rightarrow> (string \<times> string) \<times> 'w"

type_synonym 'w hf_handler = "string \<Rightarrow> string \<Rightarrow> 'w \<Rightarrow> (string \<times> string) \<times> 'w"

subsection \<open>Rows and loop state\<close>

record generation_record =
  gen_model_key :: string
  gen_model_id :: string
  gen_prompted_trait :: string
  gen_prompted_score :: int
  gen_question :: string
  gen_generated_text :: string
  gen_judge_score :: json
  gen_judge_clues :: json
  gen_judge_reasoning :: json
  gen_judge_decision_type :: json

record questionnaire_record =
  ans_model_key :: string
  ans_trait :: string
  ans_prompted_level :: string
  ans_Q_type :: string
  ans_Answer :: string

text \<open>The two calls \<^verbatim>\<open>logging.warning\<close> of the generation sweep.\<close>

datatype warning = FailedToGenerate string string | JudgeFailed string

text \<open>
  What a sweep carries from one iteration to the next:
  \<^item> \<open>rows\<close>: \<^verbatim>\<open>results_list\<close>, or \<^verbatim>\<open>questionnaire_results_list\<close>;
  \<^item> \<open>bound\<close>: the local variables \<^verbatim>\<open>generated_text, status\<close> (or \<^verbatim>\<open>answer, status\<close>),
    assigned together by one tuple assignment: \<open>None\<close> while they are unassigned;
  \<^item> \<open>warnings\<close>: the warnings logged so far (other logging and the prints are left out);
  \<^item> \<open>world\<close>: the state of the outside world that the backends act on.
\<close>

record ('r, 'w) sweep_state =
  rows :: "'r list"
  bound :: "(string \<times> string) option"
  warnings :: "warning list"
  world :: 'w

text \<open>A \<^verbatim>\<open>for\<close> loop whose body may raise: the exception leaves the loop.\<close>

fun for_each :: "('a \<Rightarrow> 's \<Rightarrow> error + 's) \<Rightarrow> 'a list \<Rightarrow> 's \<Rightarrow> error + 's" where
  "for_each body [] s = Inr s"
| "for_each body (x # xs) s =
     (case body x s of Inl e \<Rightarrow> Inl e | Inr s' \<Rightarrow> for_each body xs s')"

text \<open>
  The dispatch on the handler kind, an \<^verbatim>\<open>if\<close> with an \<^verbatim>\<open>elif\<close> and no \<^verbatim>\<open>else\<close>:
  \<^verbatim>\<open>
  if model_info["handler"] == "groq": text, status = groq_generate_func(model_info["model_id"], ...)
  elif model_info["handler"] == "hf": handler = hf_handlers[model_key]; text, status = handler.generate_response(...)
  \<close>
  With any other kind nothing is called and the variables keep what they had.
\<close>

definition dispatch ::
  "'w groq_generate_func \<Rightarrow> (string \<rightharpoonup> 'w hf_handler) \<Rightarrow> string \<Rightarrow> model_info \<Rightarrow> string \<Rightarrow> string
    \<Rightarrow> real option \<Rightarrow> ('r, 'w) sweep_state \<Rightarrow> error + ('r, 'w) sweep_state"
where
  "dispatch groq_generate_func hf_handlers model_key model_info system_prompt user_prompt temperature s =
     (if handler model_info = ''groq'' then
        (case groq_generate_func (model_id model_info) system_prompt user_prompt temperature (world s) of
           (r, w') \<Rightarrow> Inr (s\<lparr> bound := Some r, world := w' \<rparr>))
      else if handler model_info = ''hf'' then
        (case hf_handlers model_key of
           None \<Rightarrow> Inl (KeyError model_key)
         | Some h \<Rightarrow>
             (case h system_prompt user_prompt (world s) of
                (r, w') \<Rightarrow> Inr (s\<lparr> bound := Some r, world := w' \<rparr>)))
      else Inr s)"

subsection \<open>\<open>run_text_generation_experiment\<close>\<close>

text \<open>The body of the innermost loop (lines 56 to 80).\<close>

definition generation_iteration ::
  "'w groq_generate_func \<Rightarrow> (string \<rightharpoonup> 'w hf_handler) \<Rightarrow> string \<Rightarrow> traits_definitions
    \<Rightarrow> string \<Rightarrow> model_info \<Rightarrow> string \<Rightarrow> trait_info \<Rightarrow> int \<Rightarrow> string
    \<Rightarrow> (generation_record, 'w) sweep_state \<Rightarrow> error + (generation_record, 'w) sweep_state"
where
  "generation_iteration groq_generate_func hf_handlers judge_model_id traits_definitions
      model_key model_info trait_key trait_gen_info trait_score_num question s =
     (let trait_name = name trait_gen_info in
      case dispatch groq_generate_func hf_handlers model_key model_info
             (system_prompt_generate trait_name trait_score_num trait_gen_info)
             (user_prompt_generate question) None s of
        Inl e \<Rightarrow> Inl e
      | Inr s1 \<Rightarrow>
     (case bound s1 of
        None \<Rightarrow> Inl (UnboundLocalError ''status'')
      | Some (generated_text, status) \<Rightarrow>
          if status = ''fail'' then
            Inr (s1\<lparr> warnings := warnings s1 @ [FailedToGenerate model_key question] \<rparr>)
          else
     (case map_of (classification traits_definitions) trait_key of
        None \<Rightarrow> Inl (KeyError trait_key)
      | Some trait_class_info \<Rightarrow>
     (case groq_generate_func judge_model_id (system_prompt_judge trait_name trait_class_info)
             (user_prompt_judge question generated_text) (Some 0.0) (world s1) of
        ((judge_response_raw, judge_status), w2) \<Rightarrow>
          if judge_status = ''fail'' then
            Inr (s1\<lparr> warnings := warnings s1 @ [JudgeFailed model_key], world := w2 \<rparr>)
          else
     (case judge_parser judge_response_raw of
        Inl e \<Rightarrow> Inl e
      | Inr judge_result \<Rightarrow>
          Inr (s1\<lparr> rows := rows s1 @
                [\<lparr> gen_model_key = model_key, gen_model_id = model_id model_info,
                   gen_prompted_trait = trait_name, gen_prompted_score = trait_score_num,
                   gen_question = question, gen_generated_text = generated_text,
                   gen_judge_score = score judge_result, gen_judge_clues = clues judge_result,
                   gen_judge_reasoning = reasoning judge_result,
                   gen_judge_decision_type = decision_type judge_result \<rparr>],
               world := w2 \<rparr>))))))"

text \<open>The four nested loops, and the table built from \<^verbatim>\<open>results_list\<close>.\<close>

definition run_text_generation_experiment ::
  "(string \<times> model_info) list \<Rightarrow> (string \<rightharpoonup> 'w hf_handler) \<Rightarrow> 'w groq_generate_func \<Rightarrow> string
    \<Rightarrow> traits_definitions \<Rightarrow> string list \<Rightarrow> 'w \<Rightarrow> error + (generation_record, 'w) sweep_state"
where
  "run_text_generation_experiment models_to_test hf_handlers groq_generate_func judge_model_id
      traits_definitions questions w =
     for_each (\<lambda>(model_key, model_info).
       for_each (\<lambda>(trait_key, trait_gen_info).
         for_each (\<lambda>trait_score_num.
           for_each (\<lambda>question.
             generation_iteration groq_generate_func hf_handlers judge_model_id traits_definitions
               model_key model_info trait_key trait_gen_info trait_score_num question)
           questions)
         [1 .. 5])
       (generation traits_definitions))
     models_to_test
     \<lparr> rows = [], bound = None, warnings = [], world = w \<rparr>"

subsection \<open>\<open>run_questionnaire_experiment\<close>\<close>

text \<open>
  \<^verbatim>\<open>trait_key_long[0].upper()\<close>, for keys that start with an ASCII character (the
  configured keys are English words).
\<close>

definition upper_char :: "char \<Rightarrow> char" where
  "upper_char c = (if 97 \<le> py_ord c \<and> py_ord c \<le> 122 then char_of (py_ord c - 32) else c)"

text \<open>The body of the innermost loop (lines 128 to 131).\<close>

definition questionnaire_iteration ::
  "'w groq_generate_func \<Rightarrow> (string \<rightharpoonup> 'w hf_handler) \<Rightarrow> string \<Rightarrow> model_info \<Rightarrow> string \<Rightarrow> string
    \<Rightarrow> string \<Rightarrow> question_set
    \<Rightarrow> (questionnaire_record, 'w) sweep_state \<Rightarrow> error + (questionnaire_record, 'w) sweep_state"
where
  "questionnaire_iteration groq_generate_func hf_handlers model_key model_info trait_name level
      system_prompt question_set s =
     (case dispatch groq_generate_func hf_handlers model_key model_info
             system_prompt (questionnaire_user_prompt question_set) (Some 0.7) s of
        Inl e \<Rightarrow> Inl e
      | Inr s1 \<Rightarrow>
     (case bound s1 of
        None \<Rightarrow> Inl (UnboundLocalError ''status'')
      | Some (answer, status) \<Rightarrow>
          if status = ''ok'' then
            Inr (s1\<lparr> rows := rows s1 @
                  [\<lparr> ans_model_key = model_key, ans_trait = trait_name, ans_prompted_level = level,
                     ans_Q_type = q_type question_set, ans_Answer = answer \<rparr>] \<rparr>)
          else Inr s1))"

definition run_questionnaire_experiment ::
  "(string \<times> model_info) list \<Rightarrow> (string \<rightharpoonup> 'w hf_handler) \<Rightarrow> 'w groq_generate_func
    \<Rightarrow> (string \<times> question_set list) list \<Rightarrow> (string \<times> int) list \<Rightarrow> traits_definitions \<Rightarrow> 'w
    \<Rightarrow> error + (questionnaire_record, 'w) sweep_state"
where
  "run_questionnaire_experiment models_to_test hf_handlers groq_generate_func bfi44_questions
      bfi44_scores_dict traits_definitions w =
     for_each (\<lambda>(model_key, model_info).
       for_each (\<lambda>(trait_key_long, questions) s.
         case trait_key_long of
           [] \<Rightarrow> Inl IndexError
         | c # cs \<Rightarrow>
             (let trait_key_short = [upper_char c] in
              case map_of (generation traits_definitions) trait_key_short of
                None \<Rightarrow> Inl (KeyError trait_key_short)
              | Some trait_info \<Rightarrow>
                  (let trait_name = name trait_info in
                   for_each (\<lambda>level.
                     for_each (\<lambda>question_set.
                       questionnaire_iteration groq_generate_func hf_handlers model_key model_info
                         trait_name level
                         (questionnaire_system_prompt level trait_name trait_info bfi44_scores_dict)
                         question_set)
                     questions)
                   [''high'', ''low''] s)))
       bfi44_questions)
     models_to_test
     \<lparr> rows = [], bound = None, warnings = [], world = w \<rparr>"

section \<open>The entry point (main.py)\<close>

text \<open>
  \<^verbatim>\<open>main\<close> loads a handler for every model of kind \<^verbatim>\<open>hf\<close>, in roster order, and
  returns at the first one whose constructor raises. Then it runs the two sweeps, the
  second in the world the first has left. Saving the tables and the analysis that follow
  are left out; the outcome of a run is the pair of tables, or that the run was aborted at
  a model key, or the exception a sweep raised.
\<close>

fun preload ::
  "('t, 'm, 'w) transformers \<Rightarrow> (string \<times> model_info) list
    \<Rightarrow> (string \<rightharpoonup> ('t, 'm) HuggingFaceModelHandler)
    \<Rightarrow> string + (string \<rightharpoonup> ('t, 'm) HuggingFaceModelHandler)"
where
  "preload lib [] hf_handlers = Inr hf_handlers"
| "preload lib ((model_key, model_info) # rest) hf_handlers =
     (if handler model_info = ''hf'' then
        (case new_handler lib (model_id model_info) of
           Inl e \<Rightarrow> Inl model_key
         | Inr h \<Rightarrow> preload lib rest (hf_handlers(model_key \<mapsto> h)))
      else preload lib rest hf_handlers)"

datatype outcome =
    Aborted string
  | Raised error
  | Completed "generation_record list" "questionnaire_record list"

text \<open>
  The function passed as \<^verbatim>\<open>groq_generate_func\<close>: the adapter with its defaults, a
  temperature of 0.7 when the call names none and 3 attempts.
\<close>

definition groq_backend :: "'w groq_api \<Rightarrow> 'w groq_generate_func" where
  "groq_backend api model_name system_prompt user_prompt temperature w =
     (case generate_response_groq api model_name system_prompt user_prompt
             (case temperature of None \<Rightarrow> 0.7 | Some t \<Rightarrow> t) 3 w of
        ((r, tr), w') \<Rightarrow> (r, w'))"

text \<open>The method of a loaded handler, called with its default temperature.\<close>

definition hf_backend :: "('t, 'm, 'w) transformers \<Rightarrow> ('t, 'm) HuggingFaceModelHandler \<Rightarrow> 'w hf_handler" where
  "hf_backend lib h system_prompt user_prompt w = generate_response lib h system_prompt user_prompt 0.7 w"

definition main ::
  "'w groq_api \<Rightarrow> ('t, 'm, 'w) transformers \<Rightarrow> (string \<times> model_info) list \<Rightarrow> string
    \<Rightarrow> traits_definitions \<Rightarrow> string list \<Rightarrow> (string \<times> question_set list) list
    \<Rightarrow> (string \<times> int) list \<Rightarrow> 'w \<Rightarrow> outcome"
where
  "main api lib models_to_test judge_model_id traits_definitions questions bfi44_questions
      bfi44_scores_dict w =
     (case preload lib models_to_test Map.empty of
        Inl model_key \<Rightarrow> Aborted model_key
      | Inr loaded \<Rightarrow>
          (let hf_handlers = (\<lambda>model_key. map_option (hf_backend lib) (loaded model_key)) in
           case run_text_generation_experiment models_to_test hf_handlers (groq_backend api)
                  judge_model_id traits_definitions questions w of
             Inl e \<Rightarrow> Raised e
           | Inr s1 \<Rightarrow>
               (case run_questionnaire_experiment models_to_test hf_handlers (groq_backend api)
                       bfi44_questions bfi44_scores_dict traits_definitions (world s1) of
                  Inl e \<Rightarrow> Raised e
                | Inr s2 \<Rightarrow> Completed (rows s1) (rows s2))))"

section \<open>The similarity matrix (analysis/similarity.py)\<close>

subsection \<open>Tables\<close>

text \<open>
  A table (a pandas \<^verbatim>\<open>DataFrame\<close>) is the list of its column labels and the list of its
  rows, numbered from 0 after \<^verbatim>\<open>reset_index\<close>. Only the columns \<^verbatim>\<open>generated_text\<close> and
  \<^verbatim>\<open>prompted_score\<close> are read here; a row keeps the shape of a generation record, and
  what it holds for a column the table lacks is never looked at. \<^verbatim>\<open>df[label]\<close> raises
  \<^verbatim>\<open>KeyError\<close> for a label that is not a column.

  \<^verbatim>\<open>pd.DataFrame(results_list)\<close>, at the end of the generation sweep, takes the column
  labels from the keys of the rows: the table of an empty list has no column at all.
\<close>

record 'r dataframe =
  columns :: "string list"
  records :: "'r list"

definition DataFrame :: "generation_record list \<Rightarrow> generation_record dataframe" where
  "DataFrame results_list =
     \<lparr> columns = (if results_list = [] then []
                  else [''model_key'', ''model_id'', ''prompted_trait'', ''prompted_score'',
                        ''question'', ''generated_text'', ''judge_score'', ''judge_clues'',
                        ''judge_reasoning'', ''judge_decision_type'']),
       records = results_list \<rparr>"

subsection \<open>The vectorizer\<close>

text \<open>
  \<^verbatim>\<open>TfidfVectorizer(stop_words='english', min_df=2).fit_transform(texts)\<close> belongs to
  scikit-learn. What decides whether it raises is modelled here after the library; the
  stop word list and the numbers are parameters.
  \<^item> The analyzer turns a text into its terms: the text in lower case, cut into the matches
    of the token pattern \<^verbatim>\<open>(?u)\b\w\w+\b\<close>, which are the maximal runs of two or more word
    characters, less the stop words. Letters are taken to be ASCII here: the letters,
    digits and the underscore are the word characters.
  \<^item> The vocabulary is the set of terms of all texts. Without any term the vectorizer
    raises \<^verbatim>\<open>ValueError\<close> (empty vocabulary).
  \<^item> \<^verbatim>\<open>max_df\<close> is 1.0, all of the documents, and \<^verbatim>\<open>min_df\<close> is 2 documents: with fewer than
    two texts the bounds cross and the vectorizer raises \<^verbatim>\<open>ValueError\<close>.
  \<^item> A term is kept when at least two of the texts have it. When no term is kept the
    vectorizer raises \<^verbatim>\<open>ValueError\<close> (no terms remain after pruning).
  \<^item> Otherwise it returns the matrix of TF-IDF weights of the kept terms, which
    \<open>tfidf_weights\<close> stands for.
  \<open>mean_rows m indices\<close> is \<^verbatim>\<open>m[indices].mean(axis=0)\<close>, \<open>zero_row m\<close> is
  \<^verbatim>\<open>np.zeros((1, m.shape[1]))\<close>, and \<open>cosine_similarity\<close> stands for stacking the five
  vectors and comparing them.
\<close>

record ('m, 'v) sklearn =
  ENGLISH_STOP_WORDS :: "string list"
  tfidf_weights :: "string list list \<Rightarrow> string list \<Rightarrow> 'm"
  mean_rows :: "'m \<Rightarrow> nat list \<Rightarrow> 'v"
  zero_row :: "'m \<Rightarrow> 'v"
  cosine_similarity :: "'v list \<Rightarrow> real list list"

datatype value_error = EmptyVocabulary | MaxDfBelowMinDf | NoTermsRemain

definition is_word_char :: "char \<Rightarrow> bool" where
  "is_word_char c =
     ((48 \<le> py_ord c \<and> py_ord c \<le> 57) \<or> (65 \<le> py_ord c \<and> py_ord c \<le> 90)
      \<or> py_ord c = 95 \<or> (97 \<le> py_ord c \<and> py_ord c \<le> 122))"

definition lower_char :: "char \<Rightarrow> char" where
  "lower_char c = (if 65 \<le> py_ord c \<and> py_ord c \<le> 90 then char_of (py_ord c + 32) else c)"

text \<open>\<open>findall_words run doc\<close>: the tokens of \<open>doc\<close>, after the word characters \<open>run\<close>.\<close>

fun findall_words :: "string \<Rightarrow> string \<Rightarrow> string list" where
  "findall_words run [] = (if 2 \<le> length run then [run] else [])"
| "findall_words run (c # cs) =
     (if is_word_char c then findall_words (run @ [c]) cs
      else (if 2 \<le> length run then [run] else []) @ findall_words [] cs)"

definition analyze :: "string list \<Rightarrow> string \<Rightarrow> string list" where
  "analyze stop_words doc =
     filter (\<lambda>token. token \<notin> set stop_words) (findall_words [] (map lower_char doc))"

definition document_frequency :: "string list list \<Rightarrow> string \<Rightarrow> nat" where
  "document_frequency docs term = length (filter (\<lambda>terms. term \<in> set terms) docs)"

definition fit_transform :: "('m, 'v) sklearn \<Rightarrow> string list \<Rightarrow> value_error + 'm" where
  "fit_transform lib raw_documents =
     (let docs = map (analyze (ENGLISH_STOP_WORDS lib)) raw_documents;
          vocabulary = remdups (concat docs)
      in if vocabulary = [] then Inl EmptyVocabulary
         else if length raw_documents < 2 then Inl MaxDfBelowMinDf
         else (let kept = filter (\<lambda>term. 2 \<le> document_frequency docs term) vocabulary
               in if kept = [] then Inl NoTermsRemain
                  else Inr (tfidf_weights lib docs kept)))"

subsection \<open>\<open>_calculate_similarity_matrix\<close>\<close>

text \<open>
  The \<^verbatim>\<open>try\<close> block holds \<^verbatim>\<open>vectorizer.fit_transform(df['generated_text'])\<close> and catches
  \<^verbatim>\<open>ValueError\<close> only: a missing column raises \<^verbatim>\<open>KeyError\<close> through it. The loop over the
  scores 1 to 5 reads \<^verbatim>\<open>df['prompted_score']\<close>.
\<close>

definition calculate_similarity_matrix ::
  "('m, 'v) sklearn \<Rightarrow> generation_record dataframe \<Rightarrow> error + real list list"
where
  "calculate_similarity_matrix lib df =
     (if ''generated_text'' \<notin> set (columns df) then Inl (KeyError ''generated_text'')
      else
     (case fit_transform lib (map gen_generated_text (records df)) of
        Inl value_error \<Rightarrow> Inr (replicate 5 (replicate 5 0))
      | Inr tfidf_matrix \<Rightarrow>
          if ''prompted_score'' \<notin> set (columns df) then Inl (KeyError ''prompted_score'')
          else
          (let score_vectors =
                 map (\<lambda>score.
                        let indices = filter (\<lambda>i. gen_prompted_score (records df ! i) = score)
                                        [0 ..< length (records df)] in
                        if indices \<noteq> [] then mean_rows lib tfidf_matrix indices
                        else zero_row lib tfidf_matrix)
                     [1 .. 5]
           in Inr (cosine_similarity lib score_vectors))))"

section \<open>Small inputs for concrete runs\<close>

text \<open>
  One trait, one hosted model and the scripted client of the first section are enough to
  run an iteration or a whole sweep on concrete data.
\<close>

definition demo_trait :: trait_info where
  "demo_trait = \<lparr> name = ''Openness'', low = ''practical'', high = ''curious'', definition_text = None \<rparr>"

definition demo_traits :: traits_definitions where
  "demo_traits = \<lparr> generation = [(''O'', demo_trait)], classification = [(''O'', demo_trait)] \<rparr>"

definition demo_model :: model_info where
  "demo_model = \<lparr> handler = ''groq'', model_id = ''llama-3.1-8b-instant'' \<rparr>"

text \<open>
  Two backends that ignore the world. \<open>judge_says text\<close> answers every generation request
  with a fixed sentence and every request to the model named \<open>judge\<close> with \<open>text\<close>;
  \<open>failing_for model_name\<close> fails for that model and answers every other one.
\<close>

definition judge_says :: "string \<Rightarrow> unit groq_generate_func" where
  "judge_says text model_name system_prompt user_prompt temperature w =
     ((if model_name = ''judge'' then text else ''An answer.'', ''ok''), w)"

definition failing_for :: "string \<Rightarrow> unit groq_generate_func" where
  "failing_for failing model_name system_prompt user_prompt temperature w =
     (if model_name = failing then ((''MODEL_FAIL'', ''fail''), w) else ((''An answer.'', ''ok''), w))"

definition local_stub :: "unit hf_handler" where
  "local_stub system_prompt user_prompt w = ((''A local answer.'', ''ok''), w)"

text \<open>A roster entry of a kind the engine does not know, and one questionnaire item.\<close>

definition mystery_model :: model_info where
  "mystery_model = \<lparr> handler = ''openai'', model_id = ''gpt'' \<rparr>"

definition demo_item :: question_set where
  "demo_item = \<lparr> q_num = 25, q_statement = ''I see myself as someone who Is inventive'', q_type = ''direct'' \<rparr>"

text \<open>
  A model library whose weights fail to load, and a client that always answers.
\<close>

definition broken_lib :: "(unit, unit, unit) transformers" where
  "broken_lib =
     \<lparr> tokenizer_from_pretrained = (\<lambda>name_or_path. Inr ()),
       model_from_pretrained = (\<lambda>name_or_path. Inl ''CUDA out of memory''),
       model_generate = (\<lambda>t m full_prompt temperature w. (Inr ''A local answer.'', w)) \<rparr>"

definition silent_api :: "unit groq_api" where
  "silent_api =
     \<lparr> new_client = (\<lambda>w. None),
       chat_create = (\<lambda>model_name system_prompt user_prompt temperature w. (Inr ''An answer.'', w)),
       time_sleep = (\<lambda>n w. w) \<rparr>"

text \<open>
  A vectorizer library with a few of the English stop words and no numbers, and three
  rows of a table: their texts have the terms sea and calm, paint and mountains, music
  and dance, and share the stop words only.
\<close>

definition toy_sklearn :: "(unit, unit) sklearn" where
  "toy_sklearn =
     \<lparr> ENGLISH_STOP_WORDS = [''the'', ''and'', ''is'', ''of'', ''to''],
       tfidf_weights = (\<lambda>docs vocabulary. ()),
       mean_rows = (\<lambda>m indices. ()),
       zero_row = (\<lambda>m. ()),
       cosine_similarity = (\<lambda>vs. []) \<rparr>"

definition demo_row :: "int \<Rightarrow> string \<Rightarrow> generation_record" where
  "demo_row prompted_score generated_text =
     \<lparr> gen_model_key = ''Llama'', gen_model_id = ''llama-3.1-8b-instant'',
       gen_prompted_trait = ''Openness'', gen_prompted_score = prompted_score,
       gen_question = ''What is your dream career?'', gen_generated_text = generated_text,
       gen_judge_score = JInt 1, gen_judge_clues = JNull, gen_judge_reasoning = JNull,
       gen_judge_decision_type = JNull \<rparr>"

definition three_texts :: "generation_record dataframe" where
  "three_texts =
     DataFrame [demo_row 1 ''The sea is calm.'', demo_row 3 ''I paint the mountains'',
                demo_row 5 ''Music and dance, the two of them'']"

text \<open>
  Backends that always give the same answer and count their calls: the world is the
  number of calls so far.
\<close>

definition counting_backend :: "string \<Rightarrow> nat groq_generate_func" where
  "counting_backend answer model_name system_prompt user_prompt temperature w =
     ((answer, ''ok''), Suc w)"

definition counting_handler :: "string \<Rightarrow> nat hf_handler" where
  "counting_handler answer system_prompt user_prompt w = ((answer, ''ok''), Suc w)"

section \<open>The hosted-API adapter: retry and backoff\<close>

lemma range_3: "[0 ..< nat 3] = [0, Suc 0, Suc (Suc 0)]"
  by (simp add: numeral_3_eq_3 upt_rec)

text \<open>
  C5. The hosted-API adapter always returns a pair of text and status, whatever the client
  does: every exception of an attempt leads to the next attempt, there are at most 3
  requests, the waits after failed attempts are 1, 2 and 4, and when the client cannot be
  built or all 3 attempts fail the result is the text MODEL_FAIL with status fail. With a
  client that raises twice and then answers, the result is that answer with status ok,
  after the requests 0, 1 and 2 with waits of 1 and 2 between them.
\<close>

theorem groq_adapter_retry:
  "(case fst (generate_response_groq api model_name system_prompt user_prompt temperature 3 w) of
      ((text, status), tr) \<Rightarrow>
        (status = ''ok'' \<and>
           tr \<in> {[Call 0], [Call 0, Sleep 1, Call 1],
                  [Call 0, Sleep 1, Call 1, Sleep 2, Call 2]})
        \<or> ((text, status) = (''MODEL_FAIL'', ''fail'') \<and>
            tr \<in> {[], [Call 0, Sleep 1, Call 1, Sleep 2, Call 2, Sleep 4]}))
   \<and> generate_response_groq scripted_api model_name system_prompt user_prompt temperature 3
        [Inl e1, Inl e2, Inr answer]
      = (((answer, ''ok''), [Call 0, Sleep 1, Call 1, Sleep 2, Call 2]), [])"
proof
  show "case fst (generate_response_groq api model_name system_prompt user_prompt temperature 3 w) of
      ((text, status), tr) \<Rightarrow>
        (status = ''ok'' \<and>
           tr \<in> {[Call 0], [Call 0, Sleep 1, Call 1],
                  [Call 0, Sleep 1, Call 1, Sleep 2, Call 2]})
        \<or> ((text, status) = (''MODEL_FAIL'', ''fail'') \<and>
            tr \<in> {[], [Call 0, Sleep 1, Call 1, Sleep 2, Call 2, Sleep 4]})"
    unfolding generate_response_groq_def range_3
    by (simp split: option.split prod.split sum.split add: Let_def)
  show "generate_response_groq scripted_api model_name system_prompt user_prompt temperature 3
        [Inl e1, Inl e2, Inr answer]
      = (((answer, ''ok''), [Call 0, Sleep 1, Call 1, Sleep 2, Call 2]), [])"
    unfolding generate_response_groq_def range_3
    by (simp add: scripted_api_def)
qed

text \<open>The adapter on the scripted client: the next answer, or failure after three errors.\<close>

lemma groq_backend_scripted_ok:
  "groq_backend scripted_api model_name sp up t (Inr text # rest) = ((text, ''ok''), rest)"
  unfolding groq_backend_def generate_response_groq_def range_3
  by (simp add: scripted_api_def)

lemma groq_backend_scripted_fail:
  "groq_backend scripted_api model_name sp up t [Inl e1, Inl e2, Inl e3] = ((''MODEL_FAIL'', ''fail''), [])"
  unfolding groq_backend_def generate_response_groq_def range_3
  by (simp add: scripted_api_def)

section \<open>The judge response parser: totality and extraction\<close>

text \<open>
  A decoder state is rooted in an object when the outermost open container is an object,
  or the finished value is one. Every token keeps this, so a text whose first character
  is an opening brace decodes to a dictionary.
\<close>

fun is_object_frame :: "frame \<Rightarrow> bool" where
  "is_object_frame (ObjectFrame ps m) = True"
| "is_object_frame (ArrayFrame vs m) = False"

fun object_rooted :: "pstate \<Rightarrow> bool" where
  "object_rooted (Parsing st) = (st \<noteq> [] \<and> is_object_frame (last st))"
| "object_rooted (Done v) = (case v of JObject d \<Rightarrow> True | _ \<Rightarrow> False)"

lemma put_value_rooted:
  "st \<noteq> [] \<Longrightarrow> is_object_frame (last st) \<Longrightarrow> put_value v st = Some ps' \<Longrightarrow> object_rooted ps'"
  by (cases "(v, st)" rule: put_value.cases) (auto split: if_splits object_mode.splits)

lemma put_object_rooted:
  "st = [] \<or> is_object_frame (last st) \<Longrightarrow> put_value (JObject d) st = Some ps' \<Longrightarrow> object_rooted ps'"
  by (cases st) (auto dest: put_value_rooted[rotated 2])

lemma step_rooted: "object_rooted ps \<Longrightarrow> step t ps = Some ps' \<Longrightarrow> object_rooted ps'"
proof (cases ps)
  case (Done v)
  then show "step t ps = Some ps' \<Longrightarrow> object_rooted ps'" by simp
next
  case (Parsing st)
  assume r: "object_rooted ps" and s: "step t ps = Some ps'"
  from r Parsing obtain f st' where st: "st = f # st'" and l: "is_object_frame (last (f # st'))"
    by (cases st) auto
  show "object_rooted ps'"
  proof (cases t)
    case (TValue v)
    with s Parsing st l show ?thesis
      by (cases f) (auto split: if_splits json.splits object_mode.splits dest: put_value_rooted[rotated 2])
  next
    case TLBrace
    with s Parsing st l show ?thesis by (auto split: if_splits)
  next
    case TLBrack
    with s Parsing st l show ?thesis by (auto split: if_splits)
  next
    case TRBrace
    with s Parsing st l show ?thesis
      by (cases f) (auto split: if_splits dest: put_object_rooted[rotated])
  next
    case TRBrack
    with s Parsing st l show ?thesis
      by (cases f) (auto split: if_splits dest: put_value_rooted[rotated 2])
  next
    case TComma
    with s Parsing st l show ?thesis by (cases f) (auto split: if_splits)
  next
    case TColon
    with s Parsing st l show ?thesis by (cases f) (auto split: if_splits object_mode.splits)
  qed
qed

lemma decode_rooted: "object_rooted ps \<Longrightarrow> decode s ps = Some v \<Longrightarrow> \<exists>d. v = JObject d"
proof (induction s ps rule: decode.induct)
  case (1 s ps)
  show ?case
  proof (cases "next_token s")
    case LexEnd
    with "1.prems" show ?thesis
      by (cases ps) (auto simp: decode.simps split: json.splits)
  next
    case LexError
    with "1.prems" show ?thesis by (simp add: decode.simps)
  next
    case (LexTok t rest)
    with "1.prems" obtain ps' where st: "step t ps = Some ps'" and d: "decode rest ps' = Some v"
      by (auto simp: decode.simps[of s] split: option.splits)
    from step_rooted[OF "1.prems"(1) st] "1.IH"[OF LexTok st _ d] show ?thesis by simp
  qed
qed


lemma next_token_brace: "next_token (CHR ''{'' # rest) = LexTok TLBrace rest"
  by (simp add: next_token_def is_ws_def)

lemma json_loads_object:
  assumes "json_loads (CHR ''{'' # rest) = Some v"
  shows "\<exists>d. v = JObject d"
proof -
  from assms have "decode rest (Parsing [ObjectFrame [] ObjectOpen]) = Some v"
    by (simp add: json_loads_def decode.simps[of "CHR ''{'' # rest"] next_token_brace)
  moreover have "object_rooted (Parsing [ObjectFrame [] ObjectOpen])" by simp
  ultimately show ?thesis by (rule decode_rooted[rotated])
qed

lemma re_search_braces_shape:
  assumes "re_search_braces s = Some m"
  shows "\<exists>pre mid post. s = pre @ m @ post \<and> m = CHR ''{'' # mid @ [CHR ''}'']
           \<and> CHR ''{'' \<notin> set pre \<and> CHR ''}'' \<notin> set post"
proof -
  let ?pre = "takeWhile (\<lambda>c. c \<noteq> CHR ''{'') s"
  let ?t = "dropWhile (\<lambda>c. c \<noteq> CHR ''{'') s"
  from assms obtain c rest where t: "?t = c # rest" and cl: "CHR ''}'' \<in> set rest"
    and m: "m = c # rev (dropWhile (\<lambda>c. c \<noteq> CHR ''}'') (rev rest))"
    by (auto simp: re_search_braces_def split: list.splits if_splits)
  from t have c: "c = CHR ''{''" using hd_dropWhile[of "\<lambda>c. c \<noteq> CHR ''{''" s] by force
  let ?post = "rev (takeWhile (\<lambda>c. c \<noteq> CHR ''}'') (rev rest))"
  let ?body = "rev (dropWhile (\<lambda>c. c \<noteq> CHR ''}'') (rev rest))"
  have rest: "rest = ?body @ ?post"
    by (metis rev_append rev_rev_ident takeWhile_dropWhile_id)
  from cl have "dropWhile (\<lambda>c. c \<noteq> CHR ''}'') (rev rest) \<noteq> []" by (simp add: dropWhile_eq_Nil_conv) 
  then obtain x xs where dw: "dropWhile (\<lambda>c. c \<noteq> CHR ''}'') (rev rest) = x # xs"
    by (cases "dropWhile (\<lambda>c. c \<noteq> CHR ''}'') (rev rest)") auto
  then have x: "x = CHR ''}''" using hd_dropWhile[of "\<lambda>c. c \<noteq> CHR ''}''" "rev rest"] by force
  from dw x have body: "?body = rev xs @ [CHR ''}'']" by simp
  have s: "s = ?pre @ ?t" by simp
  have "s = ?pre @ m @ ?post" using s t m rest by (metis append_Cons)
  moreover have "m = CHR ''{'' # rev xs @ [CHR ''}'']" using m c body by simp
  moreover have "CHR ''{'' \<notin> set ?pre" by (auto dest: set_takeWhileD)
  moreover have "CHR ''}'' \<notin> set ?post" by (auto dest: set_takeWhileD)
  ultimately show ?thesis by blast
qed


lemma verdict_of_object:
  "\<exists>v. verdict_of (JObject d) = Inr v"
  by (simp add: verdict_of_def)

lemma parse_judge_response_object: "\<exists>d. parse_judge_response s = JObject d"
proof (cases "re_search_braces s")
  case None
  then show ?thesis by (simp add: parse_judge_response_def JSON_PARSE_ERROR_def)
next
  case (Some m)
  from re_search_braces_shape[OF Some] obtain mid where m: "m = CHR ''{'' # mid @ [CHR ''}'']"
    by blast
  show ?thesis
  proof (cases "json_loads m")
    case None
    with Some show ?thesis by (simp add: parse_judge_response_def JSON_PARSE_ERROR_def)
  next
    case (Some v)
    with m json_loads_object[of "mid @ [CHR ''}'']" v] obtain d where "v = JObject d" by auto
    with Some \<open>re_search_braces s = Some m\<close> show ?thesis by (simp add: parse_judge_response_def)
  qed
qed

lemma verdict_of_error:
  "verdict_of JSON_PARSE_ERROR =
     Inr \<lparr> score = JNull, clues = JNull, reasoning = JString (ustr ''JSON PARSE ERROR''),
           decision_type = JNull \<rparr>"
  by (simp add: verdict_of_def JSON_PARSE_ERROR_def ustr_def)

text \<open>
  C2. On every judge text the parser returns the four judge fields and raises nothing:
  the only exception outside the \<^verbatim>\<open>try\<close> block, \<^verbatim>\<open>.get\<close> on a value that is not a
  dictionary, cannot occur, since a text that starts with a brace decodes to a dictionary
  or not at all. When the text has no brace-delimited part, or that part is not valid
  JSON, the fields are null, null, "JSON PARSE ERROR" (the reasoning) and null.
\<close>

theorem judge_parser_total:
  "(\<exists>v. judge_parser s = Inr v) \<and>
   (re_search_braces s = None \<or> (\<exists>json_string. re_search_braces s = Some json_string \<and> json_loads json_string = None)
      \<longrightarrow> judge_parser s =
          Inr \<lparr> score = JNull, clues = JNull, reasoning = JString (ustr ''JSON PARSE ERROR''),
                decision_type = JNull \<rparr>)"
proof
  from parse_judge_response_object[of s] verdict_of_object
  show "\<exists>v. judge_parser s = Inr v" by (auto simp: judge_parser_def)
  show "re_search_braces s = None \<or> (\<exists>json_string. re_search_braces s = Some json_string \<and> json_loads json_string = None)
      \<longrightarrow> judge_parser s =
          Inr \<lparr> score = JNull, clues = JNull, reasoning = JString (ustr ''JSON PARSE ERROR''),
                decision_type = JNull \<rparr>"
    by (auto simp: judge_parser_def parse_judge_response_def verdict_of_error)
qed

text \<open>The text "no json here" has no brace-delimited part and gives the sentinel fields.\<close>

theorem judge_parser_total_witness:
  "re_search_braces ''no json here'' = None \<and>
   judge_parser ''no json here'' =
     Inr \<lparr> score = JNull, clues = JNull, reasoning = JString (ustr ''JSON PARSE ERROR''),
           decision_type = JNull \<rparr>"
proof -
  have "re_search_braces ''no json here'' = None"
    by (simp add: re_search_braces_def)
  with judge_parser_total[of "''no json here''"] show ?thesis by simp
qed

text \<open>
  The converse of \<open>re_search_braces_shape\<close>: a text cut at its first opening brace and
  at its last closing brace has the part between them, braces included, as its match,
  whatever that part contains.
\<close>

lemma re_search_braces_complete:
  assumes "CHR ''{'' \<notin> set pre" "CHR ''}'' \<notin> set post"
  shows "re_search_braces (pre @ CHR ''{'' # mid @ CHR ''}'' # post)
           = Some (CHR ''{'' # mid @ [CHR ''}''])"
proof -
  have a: "dropWhile (\<lambda>c. c \<noteq> CHR ''{'') (pre @ CHR ''{'' # mid @ CHR ''}'' # post)
             = CHR ''{'' # mid @ CHR ''}'' # post"
    using assms(1) by (simp add: dropWhile_append)
  have b: "dropWhile (\<lambda>c. c \<noteq> CHR ''}'') (rev post @ CHR ''}'' # rev mid) = CHR ''}'' # rev mid"
    using assms(2) by (simp add: dropWhile_append)
  show ?thesis
    unfolding re_search_braces_def a using b by simp
qed

text \<open>There is a match exactly when some opening brace is followed by a closing brace.\<close>

lemma re_search_braces_exists:
  "(\<exists>m. re_search_braces s = Some m) \<longleftrightarrow> (\<exists>a b c. s = a @ CHR ''{'' # b @ CHR ''}'' # c)"
proof
  assume "\<exists>m. re_search_braces s = Some m"
  then obtain m where m: "re_search_braces s = Some m" ..
  from re_search_braces_shape[OF m] obtain pre mid post where
    "s = pre @ m @ post" "m = CHR ''{'' # mid @ [CHR ''}'']" by blast
  then have "s = pre @ CHR ''{'' # mid @ CHR ''}'' # post" by simp
  then show "\<exists>a b c. s = a @ CHR ''{'' # b @ CHR ''}'' # c" by blast
next
  assume "\<exists>a b c. s = a @ CHR ''{'' # b @ CHR ''}'' # c"
  then obtain a b c where s: "s = a @ CHR ''{'' # b @ CHR ''}'' # c" by blast
  have "\<exists>rest. dropWhile (\<lambda>c. c \<noteq> CHR ''{'') s = CHR ''{'' # rest \<and> CHR ''}'' \<in> set rest"
  proof (cases "CHR ''{'' \<in> set a")
    case False
    then show ?thesis unfolding s by (simp add: dropWhile_append)
  next
    case True
    then have "dropWhile (\<lambda>c. c \<noteq> CHR ''{'') a \<noteq> []" by (simp add: dropWhile_eq_Nil_conv)
    then obtain x xs where x: "dropWhile (\<lambda>c. c \<noteq> CHR ''{'') a = x # xs"
      by (cases "dropWhile (\<lambda>c. c \<noteq> CHR ''{'') a") auto
    then have "x = CHR ''{''" using hd_dropWhile[of "\<lambda>c. c \<noteq> CHR ''{''" a] by auto
    with x True show ?thesis unfolding s by (auto simp: dropWhile_append)
  qed
  then show "\<exists>m. re_search_braces s = Some m"
    by (auto simp: re_search_braces_def)
qed

lemma judge_parser_fields:
  assumes "parse_judge_response s = JObject d"
  shows "judge_parser s =
     Inr \<lparr> score = (case map_of d (ustr ''score'') of None \<Rightarrow> JNull | Some x \<Rightarrow> x),
           clues = (case map_of d (ustr ''clues'') of None \<Rightarrow> JNull | Some x \<Rightarrow> x),
           reasoning = (case map_of d (ustr ''reasoning'') of None \<Rightarrow> JNull | Some x \<Rightarrow> x),
           decision_type = (case map_of d (ustr ''decision type'') of None \<Rightarrow> JNull | Some x \<Rightarrow> x) \<rparr>"
  using assms by (simp add: judge_parser_def verdict_of_def)

text \<open>
  C3. The judge text has a part for the JSON decoder exactly when one of its opening
  braces is followed by a closing brace. The part then starts at the first opening brace
  of the text and ends at the last closing brace, and conversely a text cut at its first
  opening and last closing brace has this part, whatever stands between the two (line
  breaks and further braces included). The parser's dictionary is the decoded part, or
  the dictionary of the \<^verbatim>\<open>except\<close> branch when there is no part; each of the four fields is
  the value of its key in the dictionary, null for a key the dictionary lacks. The
  example of the specification gives the fields 1, "x", "y" and "Explicit signs"; an
  object written over several lines after a line of prose, with braces inside a string,
  is read in full; two objects side by side, taken as one part, give the sentinel fields.
\<close>

theorem judge_parser_extraction:
  \<open>(re_search_braces s = Some m \<longleftrightarrow>
      (\<exists>pre mid post. s = pre @ m @ post \<and> m = CHR ''{'' # mid @ [CHR ''}'']
          \<and> CHR ''{'' \<notin> set pre \<and> CHR ''}'' \<notin> set post))
   \<and> ((\<exists>json_string. re_search_braces s = Some json_string)
        \<longleftrightarrow> (\<exists>a b c. s = a @ CHR ''{'' # b @ CHR ''}'' # c))
   \<and> (re_search_braces s = Some m \<longrightarrow>
        parse_judge_response s =
           (case json_loads m of None \<Rightarrow> JSON_PARSE_ERROR | Some judge_result \<Rightarrow> judge_result))
   \<and> (re_search_braces s = None \<longrightarrow> parse_judge_response s = JSON_PARSE_ERROR)
   \<and> (parse_judge_response s = JObject judge_result \<longrightarrow>
        judge_parser s =
          Inr \<lparr> score = (case map_of judge_result (ustr ''score'') of None \<Rightarrow> JNull | Some x \<Rightarrow> x),
                clues = (case map_of judge_result (ustr ''clues'') of None \<Rightarrow> JNull | Some x \<Rightarrow> x),
                reasoning =
                  (case map_of judge_result (ustr ''reasoning'') of None \<Rightarrow> JNull | Some x \<Rightarrow> x),
                decision_type =
                  (case map_of judge_result (ustr ''decision type'') of None \<Rightarrow> JNull | Some x \<Rightarrow> x) \<rparr>)
   \<and> (map_of d (ustr key) = None \<longrightarrow> dict_get (JObject d) key = Inr JNull)
   \<and> judge_parser
        ''prefix {"score": 1, "clues": "x", "reasoning": "y", "decision type": "Explicit signs"} suffix''
      = Inr \<lparr> score = JInt 1, clues = JString (ustr ''x''), reasoning = JString (ustr ''y''),
              decision_type = JString (ustr ''Explicit signs'') \<rparr>
   \<and> judge_parser
        (''My verdict:'' @ [CHR 0x0A] @ ''{'' @ [CHR 0x0A] @ ''  "score": -2,'' @ [CHR 0x0A]
         @ ''  "clues": "{braces}"'' @ [CHR 0x0A] @ ''}'' @ [CHR 0x0A] @ ''Goodbye.'')
      = Inr \<lparr> score = JInt (- 2), clues = JString (ustr ''{braces}''), reasoning = JNull,
              decision_type = JNull \<rparr>
   \<and> judge_parser ''{"score": 1} and {"score": 2}''
      = Inr \<lparr> score = JNull, clues = JNull, reasoning = JString (ustr ''JSON PARSE ERROR''),
              decision_type = JNull \<rparr>\<close>
proof (intro conjI impI)
  show "re_search_braces s = Some m \<longleftrightarrow>
      (\<exists>pre mid post. s = pre @ m @ post \<and> m = CHR ''{'' # mid @ [CHR ''}'']
          \<and> CHR ''{'' \<notin> set pre \<and> CHR ''}'' \<notin> set post)"
  proof
    assume "re_search_braces s = Some m"
    then show "\<exists>pre mid post. s = pre @ m @ post \<and> m = CHR ''{'' # mid @ [CHR ''}'']
          \<and> CHR ''{'' \<notin> set pre \<and> CHR ''}'' \<notin> set post"
      by (rule re_search_braces_shape)
  next
    assume "\<exists>pre mid post. s = pre @ m @ post \<and> m = CHR ''{'' # mid @ [CHR ''}'']
          \<and> CHR ''{'' \<notin> set pre \<and> CHR ''}'' \<notin> set post"
    then obtain pre mid post where s: "s = pre @ m @ post" and m: "m = CHR ''{'' # mid @ [CHR ''}'']"
      and pre: "CHR ''{'' \<notin> set pre" and post: "CHR ''}'' \<notin> set post" by blast
    from s m have "s = pre @ CHR ''{'' # mid @ CHR ''}'' # post" by simp
    with re_search_braces_complete[OF pre post, of mid] m show "re_search_braces s = Some m"
      by simp
  qed
next
  show "(\<exists>json_string. re_search_braces s = Some json_string)
        \<longleftrightarrow> (\<exists>a b c. s = a @ CHR ''{'' # b @ CHR ''}'' # c)"
    by (rule re_search_braces_exists)
next
  assume "re_search_braces s = Some m"
  then show "parse_judge_response s =
           (case json_loads m of None \<Rightarrow> JSON_PARSE_ERROR | Some judge_result \<Rightarrow> judge_result)"
    by (simp add: parse_judge_response_def)
next
  assume "re_search_braces s = None"
  then show "parse_judge_response s = JSON_PARSE_ERROR"
    by (simp add: parse_judge_response_def)
next
  assume "parse_judge_response s = JObject judge_result"
  then show "judge_parser s =
          Inr \<lparr> score = (case map_of judge_result (ustr ''score'') of None \<Rightarrow> JNull | Some x \<Rightarrow> x),
                clues = (case map_of judge_result (ustr ''clues'') of None \<Rightarrow> JNull | Some x \<Rightarrow> x),
                reasoning =
                  (case map_of judge_result (ustr ''reasoning'') of None \<Rightarrow> JNull | Some x \<Rightarrow> x),
                decision_type =
                  (case map_of judge_result (ustr ''decision type'') of None \<Rightarrow> JNull | Some x \<Rightarrow> x) \<rparr>"
    by (rule judge_parser_fields)
next
  assume "map_of d (ustr key) = None"
  then show "dict_get (JObject d) key = Inr JNull" by simp
next
  show \<open>judge_parser
        ''prefix {"score": 1, "clues": "x", "reasoning": "y", "decision type": "Explicit signs"} suffix''
      = Inr \<lparr> score = JInt 1, clues = JString (ustr ''x''), reasoning = JString (ustr ''y''),
              decision_type = JString (ustr ''Explicit signs'') \<rparr>\<close>
    by code_simp
next
  show \<open>judge_parser
        (''My verdict:'' @ [CHR 0x0A] @ ''{'' @ [CHR 0x0A] @ ''  "score": -2,'' @ [CHR 0x0A]
         @ ''  "clues": "{braces}"'' @ [CHR 0x0A] @ ''}'' @ [CHR 0x0A] @ ''Goodbye.'')
      = Inr \<lparr> score = JInt (- 2), clues = JString (ustr ''{braces}''), reasoning = JNull,
              decision_type = JNull \<rparr>\<close>
    by code_simp
next
  show \<open>judge_parser ''{"score": 1} and {"score": 2}''
      = Inr \<lparr> score = JNull, clues = JNull, reasoning = JString (ustr ''JSON PARSE ERROR''),
              decision_type = JNull \<rparr>\<close>
    by code_simp
qed

text \<open>
  The text "a{b", a line feed, "}c}d" is cut at its first opening and last closing brace
  into "a", the part "{b", line feed, "}c}" and "d": the part is the match, across the
  line feed and the inner closing brace. It is not valid JSON, so the dictionary is that
  of the \<^verbatim>\<open>except\<close> branch. The empty dictionary has no key "score".
\<close>

theorem judge_parser_extraction_witness:
  "re_search_braces (''a{b'' @ [CHR 0x0A] @ ''}c}d'') = Some (''{b'' @ [CHR 0x0A] @ ''}c}'')
   \<and> parse_judge_response (''a{b'' @ [CHR 0x0A] @ ''}c}d'') = JSON_PARSE_ERROR
   \<and> judge_parser (''a{b'' @ [CHR 0x0A] @ ''}c}d'') =
        Inr \<lparr> score = JNull, clues = JNull, reasoning = JString (ustr ''JSON PARSE ERROR''),
              decision_type = JNull \<rparr>
   \<and> map_of [] (ustr ''score'') = (None :: json option)
   \<and> dict_get (JObject []) ''score'' = Inr JNull"
proof -
  let ?s = "''a{b'' @ [CHR 0x0A] @ ''}c}d''"
  let ?m = "''{b'' @ [CHR 0x0A] @ ''}c}''"
  let ?e = "[(ustr ''score'', JNull), (ustr ''clues'', JNull),
             (ustr ''reasoning'', JString (ustr ''JSON PARSE ERROR'')),
             (ustr ''decision type'', JNull)]"
  note t = judge_parser_extraction[of ?s ?m ?e "[]" "''score''"]
  have cut: "\<exists>pre mid post. ?s = pre @ ?m @ post \<and> ?m = CHR ''{'' # mid @ [CHR ''}'']
          \<and> CHR ''{'' \<notin> set pre \<and> CHR ''}'' \<notin> set post"
    by (rule exI[of _ "''a''"], rule exI[of _ "''b'' @ [CHR 0x0A] @ ''}c''"],
        rule exI[of _ "''d''"]) simp
  with t have m: "re_search_braces ?s = Some ?m" by blast
  have j: "json_loads ?m = None"
    by code_simp
  from t m j have p: "parse_judge_response ?s = JSON_PARSE_ERROR" by simp
  then have "parse_judge_response ?s = JObject ?e" by (simp add: JSON_PARSE_ERROR_def)
  with t have "judge_parser ?s =
        Inr \<lparr> score = JNull, clues = JNull, reasoning = JString (ustr ''JSON PARSE ERROR''),
              decision_type = JNull \<rparr>"
    by (simp add: ustr_def)
  with t m p show ?thesis by simp
qed

section \<open>Rows and backend statuses\<close>

lemma judge_parser_Inr: "\<exists>v. judge_parser judge_response_raw = Inr v"
  using parse_judge_response_object[of judge_response_raw] verdict_of_object
  by (auto simp: judge_parser_def)

text \<open>Both adapters of the repository return the status ok or the status fail.\<close>

lemma groq_backend_status:
  "snd (fst (groq_backend api model_name system_prompt user_prompt temperature w)) \<in> {''ok'', ''fail''}"
  unfolding groq_backend_def generate_response_groq_def range_3
  by (simp split: option.split prod.split sum.split add: Let_def)

lemma hf_backend_status:
  "snd (fst (hf_backend lib h system_prompt user_prompt w)) \<in> {''ok'', ''fail''}"
  by (simp add: hf_backend_def generate_response_def Let_def
      split: option.split prod.split sum.split)

lemma generation_iteration_recognised:
  assumes sel: "handler model_info = ''groq''
                  \<and> call = (\<lambda>sp up. groq_generate_func (model_id model_info) sp up None)
                \<or> handler model_info = ''hf'' \<and> hf_handlers model_key = Some call"
    and gen: "call (system_prompt_generate (name trait_gen_info) trait_score_num trait_gen_info)
                (user_prompt_generate question) (world s) = ((generated_text, status), wg)"
    and cls: "map_of (classification traits_definitions) trait_key = Some trait_class_info"
    and judge: "groq_generate_func judge_model_id
                  (system_prompt_judge (name trait_gen_info) trait_class_info)
                  (user_prompt_judge question generated_text) (Some 0.0) wg
                = ((judge_response_raw, judge_status), wj)"
    and st: "status = ''ok'' \<or> status = ''fail''"
    and jst: "judge_status = ''ok'' \<or> judge_status = ''fail''"
  shows "\<exists>s' judge_result.
           generation_iteration groq_generate_func hf_handlers judge_model_id traits_definitions
             model_key model_info trait_key trait_gen_info trait_score_num question s = Inr s'
         \<and> judge_parser judge_response_raw = Inr judge_result
         \<and> rows s' =
             (if status = ''ok'' \<and> judge_status = ''ok'' then
                rows s @
                [\<lparr> gen_model_key = model_key, gen_model_id = model_id model_info,
                   gen_prompted_trait = name trait_gen_info, gen_prompted_score = trait_score_num,
                   gen_question = question, gen_generated_text = generated_text,
                   gen_judge_score = score judge_result, gen_judge_clues = clues judge_result,
                   gen_judge_reasoning = reasoning judge_result,
                   gen_judge_decision_type = decision_type judge_result \<rparr>]
              else rows s)"
proof -
  obtain v where v: "judge_parser judge_response_raw = Inr v"
    using judge_parser_Inr by blast
  have d: "dispatch groq_generate_func hf_handlers model_key model_info
             (system_prompt_generate (name trait_gen_info) trait_score_num trait_gen_info)
             (user_prompt_generate question) None s
           = Inr (s\<lparr> bound := Some (generated_text, status), world := wg \<rparr>)"
    using sel gen by (auto simp: dispatch_def)
  show ?thesis
    using st jst v cls judge
    by (auto simp: generation_iteration_def d Let_def)
qed

lemma questionnaire_iteration_recognised:
  assumes sel: "handler model_info = ''groq''
                  \<and> call = (\<lambda>sp up. groq_generate_func (model_id model_info) sp up (Some 0.7))
                \<or> handler model_info = ''hf'' \<and> hf_handlers model_key = Some call"
    and gen: "call system_prompt (questionnaire_user_prompt question_set) (world s)
                = ((answer, status), wg)"
  shows "questionnaire_iteration groq_generate_func hf_handlers model_key model_info trait_name
           level system_prompt question_set s =
         Inr (s\<lparr> bound := Some (answer, status), world := wg,
                 rows := (if status = ''ok'' then
                     rows s @
                     [\<lparr> ans_model_key = model_key, ans_trait = trait_name,
                        ans_prompted_level = level, ans_Q_type = q_type question_set,
                        ans_Answer = answer \<rparr>]
                   else rows s) \<rparr>)"
proof -
  have d: "dispatch groq_generate_func hf_handlers model_key model_info
             system_prompt (questionnaire_user_prompt question_set) (Some 0.7) s
           = Inr (s\<lparr> bound := Some (answer, status), world := wg \<rparr>)"
    using sel gen by (auto simp: dispatch_def)
  show ?thesis by (simp add: questionnaire_iteration_def d)
qed

text \<open>
  C1. Take an iteration of the generation sweep for a model of kind \<open>groq\<close> or \<open>hf\<close>
  (with its handler loaded), whose backend call returns \<open>(generated_text, status)\<close> and
  after which the judge call would return \<open>(judge_response_raw, judge_status)\<close>, both
  statuses being ok or fail. The iteration raises nothing, and the table is the old one
  with one complete row added when both statuses are ok, whatever the judge's text is,
  and the old one otherwise. An iteration of the questionnaire sweep adds one complete
  row when the status of its backend call is ok, and leaves the table as it is otherwise.
  The two adapters of the repository return no status other than ok and fail.
\<close>

theorem row_iff_status_ok:
  assumes "handler model_info = ''groq''
             \<and> call = (\<lambda>sp up. groq_generate_func (model_id model_info) sp up None)
           \<or> handler model_info = ''hf'' \<and> hf_handlers model_key = Some call"
    and "call (system_prompt_generate (name trait_gen_info) trait_score_num trait_gen_info)
           (user_prompt_generate question) (world s) = ((generated_text, status), wg)"
    and "map_of (classification traits_definitions) trait_key = Some trait_class_info"
    and "groq_generate_func judge_model_id
           (system_prompt_judge (name trait_gen_info) trait_class_info)
           (user_prompt_judge question generated_text) (Some 0.0) wg
         = ((judge_response_raw, judge_status), wj)"
    and "status = ''ok'' \<or> status = ''fail''"
    and "judge_status = ''ok'' \<or> judge_status = ''fail''"
    and "handler model_info = ''groq''
             \<and> qcall = (\<lambda>sp up. groq_generate_func (model_id model_info) sp up (Some 0.7))
           \<or> handler model_info = ''hf'' \<and> hf_handlers model_key = Some qcall"
    and "qcall system_prompt (questionnaire_user_prompt question_set) (world q)
           = ((answer, qstatus), qg)"
  shows "(\<exists>s' judge_result.
           generation_iteration groq_generate_func hf_handlers judge_model_id traits_definitions
             model_key model_info trait_key trait_gen_info trait_score_num question s = Inr s'
         \<and> judge_parser judge_response_raw = Inr judge_result
         \<and> rows s' =
             (if status = ''ok'' \<and> judge_status = ''ok'' then
                rows s @
                [\<lparr> gen_model_key = model_key, gen_model_id = model_id model_info,
                   gen_prompted_trait = name trait_gen_info, gen_prompted_score = trait_score_num,
                   gen_question = question, gen_generated_text = generated_text,
                   gen_judge_score = score judge_result, gen_judge_clues = clues judge_result,
                   gen_judge_reasoning = reasoning judge_result,
                   gen_judge_decision_type = decision_type judge_result \<rparr>]
              else rows s))
       \<and> questionnaire_iteration groq_generate_func hf_handlers model_key model_info trait_name
           level system_prompt question_set q =
         Inr (q\<lparr> bound := Some (answer, qstatus), world := qg,
                 rows := (if qstatus = ''ok'' then
                     rows q @
                     [\<lparr> ans_model_key = model_key, ans_trait = trait_name,
                        ans_prompted_level = level, ans_Q_type = q_type question_set,
                        ans_Answer = answer \<rparr>]
                   else rows q) \<rparr>)
       \<and> snd (fst (groq_backend api model_name any_system_prompt any_user_prompt any_temperature w))
            \<in> {''ok'', ''fail''}
       \<and> snd (fst (hf_backend lib h any_system_prompt any_user_prompt w')) \<in> {''ok'', ''fail''}"
proof (intro conjI)
  show "\<exists>s' judge_result.
           generation_iteration groq_generate_func hf_handlers judge_model_id traits_definitions
             model_key model_info trait_key trait_gen_info trait_score_num question s = Inr s'
         \<and> judge_parser judge_response_raw = Inr judge_result
         \<and> rows s' =
             (if status = ''ok'' \<and> judge_status = ''ok'' then
                rows s @
                [\<lparr> gen_model_key = model_key, gen_model_id = model_id model_info,
                   gen_prompted_trait = name trait_gen_info, gen_prompted_score = trait_score_num,
                   gen_question = question, gen_generated_text = generated_text,
                   gen_judge_score = score judge_result, gen_judge_clues = clues judge_result,
                   gen_judge_reasoning = reasoning judge_result,
                   gen_judge_decision_type = decision_type judge_result \<rparr>]
              else rows s)"
    by (rule generation_iteration_recognised[where call=call and wg=wg and wj=wj
          and trait_class_info=trait_class_info]; fact)
  show "questionnaire_iteration groq_generate_func hf_handlers model_key model_info trait_name
           level system_prompt question_set q =
         Inr (q\<lparr> bound := Some (answer, qstatus), world := qg,
                 rows := (if qstatus = ''ok'' then
                     rows q @
                     [\<lparr> ans_model_key = model_key, ans_trait = trait_name,
                        ans_prompted_level = level, ans_Q_type = q_type question_set,
                        ans_Answer = answer \<rparr>]
                   else rows q) \<rparr>)"
    by (rule questionnaire_iteration_recognised[where call=qcall]; fact)
qed (rule groq_backend_status hf_backend_status)+

text \<open>
  A generation whose judge answers "not json" gives a row with the sentinel fields; a
  questionnaire call whose three attempts all fail gives no row.
\<close>

theorem row_iff_status_ok_witness:
  "(\<exists>s'. generation_iteration (groq_backend scripted_api) Map.empty ''judge'' demo_traits
            ''Llama'' demo_model ''O'' demo_trait 3 ''What is your dream career?''
            \<lparr> rows = [], bound = None, warnings = [],
              world = [Inr ''I like new ideas.'', Inr ''not json''] \<rparr> = Inr s'
        \<and> rows s' =
            [\<lparr> gen_model_key = ''Llama'', gen_model_id = ''llama-3.1-8b-instant'',
               gen_prompted_trait = ''Openness'', gen_prompted_score = 3,
               gen_question = ''What is your dream career?'',
               gen_generated_text = ''I like new ideas.'',
               gen_judge_score = JNull, gen_judge_clues = JNull,
               gen_judge_reasoning = JString (ustr ''JSON PARSE ERROR''),
               gen_judge_decision_type = JNull \<rparr>])
   \<and> questionnaire_iteration (groq_backend scripted_api) Map.empty ''Llama'' demo_model
        ''Openness'' ''high'' ''Act as a person'' \<lparr> q_num = 5, q_statement = ''Is inventive'', q_type = ''direct'' \<rparr>
        \<lparr> rows = [], bound = None, warnings = [],
          world = [Inl ''timeout'', Inl ''timeout'', Inl ''timeout''] \<rparr>
      = Inr \<lparr> rows = [], bound = Some (''MODEL_FAIL'', ''fail''), warnings = [], world = [] \<rparr>"
proof -
  let ?s = "\<lparr> rows = [] :: generation_record list, bound = None, warnings = [],
              world = [Inr ''I like new ideas.'', Inr ''not json''] :: (string + string) list \<rparr>"
  let ?q = "\<lparr> rows = [] :: questionnaire_record list, bound = None, warnings = [],
              world = [Inl ''timeout'', Inl ''timeout'', Inl ''timeout''] :: (string + string) list \<rparr>"
  let ?call = "\<lambda>sp up. groq_backend scripted_api (model_id demo_model) sp up None"
  let ?qcall = "\<lambda>sp up. groq_backend scripted_api (model_id demo_model) sp up (Some 0.7)"
  have h1: "handler demo_model = ''groq'' \<and> ?call = (\<lambda>sp up. groq_backend scripted_api (model_id demo_model) sp up None)
           \<or> handler demo_model = ''hf'' \<and> Map.empty ''Llama'' = Some ?call"
    by (simp add: demo_model_def)
  have h2: "?call (system_prompt_generate (name demo_trait) 3 demo_trait)
           (user_prompt_generate ''What is your dream career?'') (world ?s)
           = ((''I like new ideas.'', ''ok''), [Inr ''not json''])"
    by (simp add: groq_backend_scripted_ok)
  have h3: "map_of (classification demo_traits) ''O'' = Some demo_trait"
    by (simp add: demo_traits_def)
  have h4: "groq_backend scripted_api ''judge''
           (system_prompt_judge (name demo_trait) demo_trait)
           (user_prompt_judge ''What is your dream career?'' ''I like new ideas.'') (Some 0.0) [Inr ''not json'']
         = ((''not json'', ''ok''), [])"
    by (simp add: groq_backend_scripted_ok)
  have h5: "''ok'' = ''ok'' \<or> ''ok'' = ''fail''" by simp
  have h7: "handler demo_model = ''groq'' \<and> ?qcall = (\<lambda>sp up. groq_backend scripted_api (model_id demo_model) sp up (Some 0.7))
           \<or> handler demo_model = ''hf'' \<and> Map.empty ''Llama'' = Some ?qcall"
    by (simp add: demo_model_def)
  have h8: "?qcall ''Act as a person'' (questionnaire_user_prompt \<lparr> q_num = 5, q_statement = ''Is inventive'', q_type = ''direct'' \<rparr>) (world ?q)
           = ((''MODEL_FAIL'', ''fail''), [])"
    by (simp add: groq_backend_scripted_fail)
  have p: "judge_parser ''not json'' = Inr \<lparr> score = JNull, clues = JNull,
             reasoning = JString (ustr ''JSON PARSE ERROR''), decision_type = JNull \<rparr>"
    by code_simp
  from row_iff_status_ok[where call="?call" and qcall="?qcall" and s="?s" and q="?q"
        and trait_name="''Openness''" and level="''high''" and model_key="''Llama''"
        and api=scripted_api and model_name="''judge''" and any_system_prompt="[]"
        and any_user_prompt="[]" and any_temperature=None and w="[]" and lib=broken_lib
        and h="\<lparr> model = None, tokenizer = None, self_model_id = ''google/gemma-7b-it'' \<rparr>"
        and w'="()", OF h1 h2 h3 h4 h5 h5 h7 h8] p
  show ?thesis
    by (auto simp: demo_model_def demo_trait_def)
qed

section \<open>The sweeps as a whole\<close>

subsection \<open>Loops\<close>


lemma for_each_count:
  fixes f :: "'s \<Rightarrow> nat"
  assumes "for_each body xs s = Inr s'"
    and "\<And>x t t'. x \<in> set xs \<Longrightarrow> body x t = Inr t' \<Longrightarrow> f t' = f t + k"
  shows "f s' = f s + k * length xs"
  using assms
proof (induction xs arbitrary: s)
  case Nil
  then show ?case by simp
next
  case (Cons x xs)
  from Cons.prems(1) obtain t where t: "body x s = Inr t" and r: "for_each body xs t = Inr s'"
    by (auto split: sum.splits)
  from Cons.prems(2)[OF _ t] have "f t = f s + k" by simp
  moreover have "\<And>y u u'. y \<in> set xs \<Longrightarrow> body y u = Inr u' \<Longrightarrow> f u' = f u + k"
    using Cons.prems(2) by (meson list.set_intros(2))
  from Cons.IH[OF r this] have "f s' = f t + k * length xs" .
  ultimately show ?case by simp
qed

lemma for_each_subseq:
  assumes "for_each body xs s = Inr s'"
    and "\<And>x t t'. x \<in> set xs \<Longrightarrow> body x t = Inr t'
            \<Longrightarrow> \<exists>r. rows t' = rows t @ r \<and> subseq (map c r) (g x)"
  shows "\<exists>r. rows s' = rows s @ r \<and> subseq (map c r) (concat (map g xs))"
  using assms
proof (induction xs arbitrary: s)
  case Nil
  then show ?case by simp
next
  case (Cons x xs)
  from Cons.prems(1) obtain t where t: "body x s = Inr t" and r: "for_each body xs t = Inr s'"
    by (auto split: sum.splits)
  from Cons.prems(2)[OF _ t] obtain r1 where r1: "rows t = rows s @ r1" "subseq (map c r1) (g x)"
    by auto
  have "\<And>y u u'. y \<in> set xs \<Longrightarrow> body y u = Inr u'
            \<Longrightarrow> \<exists>r. rows u' = rows u @ r \<and> subseq (map c r) (g y)"
    using Cons.prems(2) by (meson list.set_intros(2))
  from Cons.IH[OF r this] obtain r2 where
    r2: "rows s' = rows t @ r2" "subseq (map c r2) (concat (map g xs))" by auto
  from r1 r2 have "rows s' = rows s @ (r1 @ r2)" by simp
  moreover from r1 r2 have "subseq (map c (r1 @ r2)) (concat (map g (x # xs)))"
    by (simp add: list_emb_append_mono)
  ultimately show ?case by blast
qed

subsection \<open>One iteration of the generation sweep\<close>

lemma dispatch_keeps:
  "dispatch groq hf model_key model_info sp up t s = Inr s1
    \<Longrightarrow> rows s1 = rows s \<and> warnings s1 = warnings s"
  by (auto simp: dispatch_def split: if_splits option.splits prod.splits)

text \<open>
  A row is judged by the judge backend when its four judge fields are what the parser
  returns on a text that the backend gave, with a status other than \<open>fail\<close>, to the judge
  prompts built from the row's own trait name, question and generated text and from a
  classification entry of the trait definitions, at temperature 0.
\<close>

definition judged_by ::
  "'w groq_generate_func \<Rightarrow> string \<Rightarrow> traits_definitions \<Rightarrow> generation_record \<Rightarrow> bool" where
  "judged_by groq_generate_func judge_model_id traits_definitions row =
     (\<exists>trait_key trait_class_info w judge_response_raw judge_status w'.
        map_of (classification traits_definitions) trait_key = Some trait_class_info
      \<and> groq_generate_func judge_model_id
            (system_prompt_judge (gen_prompted_trait row) trait_class_info)
            (user_prompt_judge (gen_question row) (gen_generated_text row)) (Some 0) w
          = ((judge_response_raw, judge_status), w')
      \<and> judge_status \<noteq> ''fail''
      \<and> judge_parser judge_response_raw =
          Inr \<lparr> score = gen_judge_score row, clues = gen_judge_clues row,
                reasoning = gen_judge_reasoning row,
                decision_type = gen_judge_decision_type row \<rparr>)"

lemma generation_iteration_cases:
  assumes "generation_iteration groq hf judge_model_id traits_definitions
             model_key model_info trait_key trait_gen_info trait_score_num question s = Inr s'"
  shows "(rows s' = rows s \<and> (\<exists>wn. warnings s' = warnings s @ [wn]))
       \<or> (warnings s' = warnings s \<and>
            (\<exists>row. rows s' = rows s @ [row] \<and> gen_model_key row = model_key
               \<and> gen_prompted_trait row = name trait_gen_info
               \<and> gen_prompted_score row = trait_score_num \<and> gen_question row = question
               \<and> judged_by groq judge_model_id traits_definitions row))"
proof -
  from assms obtain s1 where d: "dispatch groq hf model_key model_info
             (system_prompt_generate (name trait_gen_info) trait_score_num trait_gen_info)
             (user_prompt_generate question) None s = Inr s1"
    by (auto simp: generation_iteration_def Let_def split: sum.splits)
  note k = dispatch_keeps[OF d]
  from assms d obtain generated_text status where b: "bound s1 = Some (generated_text, status)"
    by (auto simp: generation_iteration_def Let_def split: option.splits)
  show ?thesis
  proof (cases "status = ''fail''")
    case True
    with assms d b k show ?thesis
      by (auto simp: generation_iteration_def Let_def)
  next
    case False
    with assms d b obtain trait_class_info where
      c: "map_of (classification traits_definitions) trait_key = Some trait_class_info"
      by (auto simp: generation_iteration_def Let_def split: option.splits)
    obtain judge_response_raw judge_status w2 where
      j: "groq judge_model_id (system_prompt_judge (name trait_gen_info) trait_class_info)
            (user_prompt_judge question generated_text) (Some 0) (world s1)
          = ((judge_response_raw, judge_status), w2)"
      by (metis prod.exhaust)
    show ?thesis
    proof (cases "judge_status = ''fail''")
      case True
      with assms d b k c j \<open>status \<noteq> ''fail''\<close> show ?thesis
        by (auto simp: generation_iteration_def Let_def)
    next
      case jok: False
      with assms d b c j \<open>status \<noteq> ''fail''\<close> obtain v where
        v: "judge_parser judge_response_raw = Inr v"
        by (auto simp: generation_iteration_def Let_def split: sum.splits)
      let ?row = "\<lparr> gen_model_key = model_key, gen_model_id = model_id model_info,
                   gen_prompted_trait = name trait_gen_info, gen_prompted_score = trait_score_num,
                   gen_question = question, gen_generated_text = generated_text,
                   gen_judge_score = score v, gen_judge_clues = clues v,
                   gen_judge_reasoning = reasoning v,
                   gen_judge_decision_type = decision_type v \<rparr>"
      from assms d b c j v jok \<open>status \<noteq> ''fail''\<close>
      have s': "s' = s1\<lparr> rows := rows s1 @ [?row], world := w2 \<rparr>"
        by (simp add: generation_iteration_def Let_def)
      from v have vv: "judge_parser judge_response_raw =
          Inr \<lparr> score = score v, clues = clues v, reasoning = reasoning v,
                decision_type = decision_type v \<rparr>"
        by simp
      have "map_of (classification traits_definitions) trait_key = Some trait_class_info
          \<and> groq judge_model_id
                (system_prompt_judge (gen_prompted_trait ?row) trait_class_info)
                (user_prompt_judge (gen_question ?row) (gen_generated_text ?row)) (Some 0) (world s1)
              = ((judge_response_raw, judge_status), w2)
          \<and> judge_status \<noteq> ''fail''
          \<and> judge_parser judge_response_raw =
              Inr \<lparr> score = gen_judge_score ?row, clues = gen_judge_clues ?row,
                    reasoning = gen_judge_reasoning ?row,
                    decision_type = gen_judge_decision_type ?row \<rparr>"
        using c j jok vv by simp
      then have "judged_by groq judge_model_id traits_definitions ?row"
        unfolding judged_by_def by blast
      with s' k show ?thesis by simp
    qed
  qed
qed


subsection \<open>Coordinates\<close>

text \<open>
  The coordinate of a row is its model key, trait name, prompted score and question.
  \<open>coordinates\<close> lists the coordinates of all iterations of a sweep in the order of its
  four loops.
\<close>

definition coordinate :: "generation_record \<Rightarrow> string \<times> string \<times> int \<times> string" where
  "coordinate row = (gen_model_key row, gen_prompted_trait row, gen_prompted_score row, gen_question row)"

definition coordinates ::
  "(string \<times> model_info) list \<Rightarrow> (string \<times> trait_info) list \<Rightarrow> string list
    \<Rightarrow> (string \<times> string \<times> int \<times> string) list" where
  "coordinates models_to_test traits questions =
     concat (map (\<lambda>(model_key, model_info).
       concat (map (\<lambda>(trait_key, trait_gen_info).
         concat (map (\<lambda>trait_score_num.
           concat (map (\<lambda>question. [(model_key, name trait_gen_info, trait_score_num, question)])
             questions))
           [1 .. 5]))
         traits))
       models_to_test)"

lemma generation_iteration_subseq:
  assumes "generation_iteration groq hf judge_model_id traits_definitions
             model_key model_info trait_key trait_gen_info trait_score_num question s = Inr s'"
  shows "\<exists>r. rows s' = rows s @ r
           \<and> subseq (map coordinate r) [(model_key, name trait_gen_info, trait_score_num, question)]"
  using generation_iteration_cases[OF assms]
  by (auto simp: coordinate_def)

lemma generation_iteration_count:
  assumes "generation_iteration groq hf judge_model_id traits_definitions
             model_key model_info trait_key trait_gen_info trait_score_num question s = Inr s'"
  shows "length (rows s') + length (warnings s') = length (rows s) + length (warnings s) + 1"
  using generation_iteration_cases[OF assms] by auto

subsection \<open>The generation sweep\<close>

lemma sweep_subseq:
  assumes "run_text_generation_experiment models_to_test hf groq judge_model_id
             traits_definitions questions w = Inr s'"
  shows "subseq (map coordinate (rows s'))
           (coordinates models_to_test (generation traits_definitions) questions)"
proof -
  have "\<exists>r. rows s' = rows \<lparr> rows = [], bound = None, warnings = [], world = w \<rparr> @ r
          \<and> subseq (map coordinate r)
               (coordinates models_to_test (generation traits_definitions) questions)"
    unfolding coordinates_def
    apply (rule for_each_subseq[OF assms[unfolded run_text_generation_experiment_def]])
    apply (clarsimp simp del: concat_map_singleton)
    apply (erule for_each_subseq)
    apply (clarsimp simp del: concat_map_singleton)
    apply (erule for_each_subseq)
    apply (erule for_each_subseq)
    apply (erule generation_iteration_subseq)
    done
  then show ?thesis by simp
qed

lemma sweep_count:
  assumes "run_text_generation_experiment models_to_test hf groq judge_model_id
             traits_definitions questions w = Inr s'"
  shows "length (rows s') + length (warnings s')
           = length models_to_test * length (generation traits_definitions) * 5 * length questions"
proof -
  let ?f = "\<lambda>s :: (generation_record, 'a) sweep_state. length (rows s) + length (warnings s)"
  have "?f s' = ?f \<lparr> rows = [], bound = None, warnings = [], world = w \<rparr>
          + (length (generation traits_definitions) * (5 * length questions)) * length models_to_test"
    apply (rule for_each_count[where f="?f", OF assms[unfolded run_text_generation_experiment_def]])
    apply (clarsimp simp del: concat_map_singleton)
    apply (drule for_each_count[where f="?f" and k="5 * length questions"])
     apply (clarsimp simp del: concat_map_singleton)
     apply (drule for_each_count[where f="?f" and k="length questions"])
      apply (drule for_each_count[where f="?f" and k="1"])
       apply (erule generation_iteration_count)
      apply simp
     apply simp
    apply (simp add: mult.commute)
    done
  then show ?thesis by (simp add: mult.commute mult.left_commute)
qed


lemma distinct_concat_map:
  assumes "distinct (map k xs)"
    and "\<And>x. x \<in> set xs \<Longrightarrow> distinct (g x)"
    and "\<And>x y. x \<in> set xs \<Longrightarrow> y \<in> set (g x) \<Longrightarrow> p y = k x"
  shows "distinct (concat (map g xs))"
  using assms
proof (induction xs)
  case Nil
  then show ?case by simp
next
  case (Cons x xs)
  have d: "distinct (concat (map g xs))"
    using Cons.prems by (intro Cons.IH) auto
  have "set (g x) \<inter> set (concat (map g xs)) = {}"
  proof (rule ccontr)
    assume "set (g x) \<inter> set (concat (map g xs)) \<noteq> {}"
    then obtain y x' where y: "y \<in> set (g x)" and x': "x' \<in> set xs" and y': "y \<in> set (g x')"
      by auto
    from Cons.prems(3)[of x y] y have "p y = k x" by simp
    moreover from Cons.prems(3)[of x' y] x' y' have "p y = k x'" by simp
    ultimately have "k x = k x'" by simp
    with x' have "k x \<in> k ` set xs" by (rule_tac image_eqI)
    with Cons.prems(1) show False by simp
  qed
  with d Cons.prems(2)[of x] show ?case by simp
qed

lemma distinct_coordinates:
  assumes m: "distinct (map fst models_to_test)"
    and t: "distinct (map (\<lambda>(trait_key, trait_gen_info). name trait_gen_info) traits)"
    and q: "distinct questions"
  shows "distinct (coordinates models_to_test traits questions)"
  unfolding coordinates_def
proof (rule distinct_concat_map[where k = fst and p = fst, OF m], goal_cases)
  case (1 x)
  obtain model_key model_info where x: "x = (model_key, model_info)" by (cases x)
  show ?case unfolding x prod.case
  proof (rule distinct_concat_map[where p = "\<lambda>y. fst (snd y)", OF t], goal_cases)
    case (1 y)
    obtain trait_key trait_gen_info where y: "y = (trait_key, trait_gen_info)" by (cases y)
    show ?case unfolding y prod.case
    proof (rule distinct_concat_map[where k = id and p = "\<lambda>y. fst (snd (snd y))"], goal_cases)
      case 1
      show ?case by simp
    next
      case (2 n)
      show ?case
        by (rule distinct_concat_map[where k = id and p = "\<lambda>y. snd (snd (snd y))"])
           (use q in auto)
    next
      case (3 n z)
      then show ?case by auto
    qed
  next
    case (2 y z)
    then show ?case by auto
  qed
next
  case (2 x y)
  then show ?case by auto
qed

lemma subseq_distinct: "subseq xs ys \<Longrightarrow> distinct ys \<Longrightarrow> distinct xs"
  by (auto simp: subseq_conv_nths)

lemma traits_5:
  "length (generation TRAITS_DEFINITIONS) = 5"
  "distinct (map (\<lambda>(trait_key, trait_gen_info). name trait_gen_info) (generation TRAITS_DEFINITIONS))"
  by (simp_all add: TRAITS_DEFINITIONS_def)

subsection \<open>Totality\<close>

text \<open>
  A model is servable when its kind is \<open>groq\<close>, or \<open>hf\<close> with a handler under its key.
\<close>

lemma for_each_total:
  assumes "\<And>x t. x \<in> set xs \<Longrightarrow> \<exists>t'. body x t = Inr t'"
  shows "\<exists>s'. for_each body xs s = Inr s'"
  using assms
proof (induction xs arbitrary: s)
  case Nil
  then show ?case by simp
next
  case (Cons x xs)
  from Cons.prems[of x s] obtain t where t: "body x s = Inr t" by auto
  have "\<exists>s'. for_each body xs t = Inr s'"
    by (rule Cons.IH) (use Cons.prems in auto)
  with t show ?case by simp
qed

definition servable :: "(string \<rightharpoonup> 'h) \<Rightarrow> string \<Rightarrow> model_info \<Rightarrow> bool" where
  "servable hf_handlers model_key model_info =
     (handler model_info = ''groq'' \<or> handler model_info = ''hf'' \<and> hf_handlers model_key \<noteq> None)"

lemma judge_parser_not_Inl: "judge_parser judge_response_raw = Inl e \<Longrightarrow> False"
  using judge_parser_Inr[of judge_response_raw] by auto

lemma dispatch_total:
  assumes "servable hf_handlers model_key model_info"
  shows "\<exists>s1 r. dispatch groq hf_handlers model_key model_info sp up t s = Inr s1 \<and> bound s1 = Some r"
  using assms by (auto simp: dispatch_def servable_def split: prod.splits)

lemma generation_iteration_total:
  assumes k: "servable hf_handlers model_key model_info"
    and c: "map_of (classification traits_definitions) trait_key \<noteq> None"
  shows "\<exists>s'. generation_iteration groq hf_handlers judge_model_id traits_definitions
             model_key model_info trait_key trait_gen_info trait_score_num question s = Inr s'"
proof -
  from dispatch_total[OF k] obtain s1 r where
    d: "dispatch groq hf_handlers model_key model_info
             (system_prompt_generate (name trait_gen_info) trait_score_num trait_gen_info)
             (user_prompt_generate question) None s = Inr s1" and b: "bound s1 = Some r"
    by blast
  from c obtain ci where ci: "map_of (classification traits_definitions) trait_key = Some ci" by auto
  show ?thesis
    by (auto simp: generation_iteration_def Let_def d b ci split: prod.splits sum.splits
        dest: judge_parser_not_Inl)
qed

lemma questionnaire_iteration_total:
  assumes k: "servable hf_handlers model_key model_info"
  shows "\<exists>s'. questionnaire_iteration groq hf_handlers model_key model_info trait_name level
           system_prompt question_set s = Inr s'"
proof -
  from dispatch_total[OF k] obtain s1 r where
    d: "dispatch groq hf_handlers model_key model_info
             system_prompt (questionnaire_user_prompt question_set) (Some 0.7) s = Inr s1" and b: "bound s1 = Some r"
    by blast
  show ?thesis
    by (auto simp: questionnaire_iteration_def d b split: prod.splits)
qed

lemma generation_sweep_total:
  assumes k: "\<forall>(model_key, model_info) \<in> set models_to_test.
               servable hf_handlers model_key model_info"
    and c: "\<forall>(trait_key, trait_gen_info) \<in> set (generation traits_definitions).
               map_of (classification traits_definitions) trait_key \<noteq> None"
  shows "\<exists>s'. run_text_generation_experiment models_to_test hf_handlers groq judge_model_id
             traits_definitions questions w = Inr s'"
  unfolding run_text_generation_experiment_def
  apply (rule for_each_total)
  apply (clarsimp)
  apply (rule for_each_total)
  apply (clarsimp)
  apply (rule for_each_total)
  apply (rule for_each_total)
  apply (rule generation_iteration_total)
  using k c apply auto
  done

lemma questionnaire_trait_total:
  assumes k: "servable hf_handlers model_key model_info"
    and c: "trait_key_long \<noteq> [] \<and> map_of (generation traits_definitions) [upper_char (hd trait_key_long)] \<noteq> None"
  shows "\<exists>t'. (case trait_key_long of
           [] \<Rightarrow> Inl IndexError
         | c # cs \<Rightarrow>
             (let trait_key_short = [upper_char c] in
              case map_of (generation traits_definitions) trait_key_short of
                None \<Rightarrow> Inl (KeyError trait_key_short)
              | Some trait_info \<Rightarrow>
                  (let trait_name = name trait_info in
                   for_each (\<lambda>level.
                     for_each (\<lambda>question_set.
                       questionnaire_iteration groq hf_handlers model_key model_info
                         trait_name level
                         (questionnaire_system_prompt level trait_name trait_info bfi44_scores_dict)
                         question_set)
                     questions)
                   [''high'', ''low''] t))) = Inr t'"
proof -
  from c obtain ch cs ti where tk: "trait_key_long = ch # cs"
    and ti: "map_of (generation traits_definitions) [upper_char ch] = Some ti"
    by (cases trait_key_long) auto
  have "\<exists>t'. for_each (\<lambda>level.
                     for_each (\<lambda>question_set.
                       questionnaire_iteration groq hf_handlers model_key model_info
                         (name ti) level
                         (questionnaire_system_prompt level (name ti) ti bfi44_scores_dict)
                         question_set)
                     questions)
                   [''high'', ''low''] t = Inr t'"
    by (intro for_each_total questionnaire_iteration_total k)
  then show ?thesis by (simp add: tk ti Let_def)
qed

lemma questionnaire_sweep_total:
  assumes k: "\<forall>(model_key, model_info) \<in> set models_to_test.
               servable hf_handlers model_key model_info"
    and c: "\<forall>(trait_key_long, questions) \<in> set bfi44_questions.
               trait_key_long \<noteq> [] \<and> map_of (generation traits_definitions) [upper_char (hd trait_key_long)] \<noteq> None"
  shows "\<exists>s'. run_questionnaire_experiment models_to_test hf_handlers groq bfi44_questions
             bfi44_scores_dict traits_definitions w = Inr s'"
  unfolding run_questionnaire_experiment_def
proof (rule for_each_total, goal_cases)
  case (1 x t)
  obtain model_key model_info where x: "x = (model_key, model_info)" by (cases x)
  with 1 k have kk: "servable hf_handlers model_key model_info"
    by auto
  show ?case unfolding x prod.case
  proof (rule for_each_total, goal_cases)
    case (1 y u)
    obtain trait_key_long questions where y: "y = (trait_key_long, questions)" by (cases y)
    with 1 c have cc: "trait_key_long \<noteq> [] \<and> map_of (generation traits_definitions) [upper_char (hd trait_key_long)] \<noteq> None"
      by auto
    show ?case unfolding y prod.case
      by (rule questionnaire_trait_total[OF kk cc])
  qed
qed

subsection \<open>Recording what the backends return\<close>

text \<open>
  To see which calls a sweep makes and what comes back, a backend is wrapped so that the
  world carries, beside the backend's own world, the list of the statuses returned so
  far, one for every call, in the order of the calls. The wrapped backend returns what
  the backend returns.
\<close>

definition recorded :: "'w groq_generate_func \<Rightarrow> (string list \<times> 'w) groq_generate_func" where
  "recorded groq_generate_func model_name system_prompt user_prompt temperature lw =
     (case groq_generate_func model_name system_prompt user_prompt temperature (snd lw) of
        ((text, status), w') \<Rightarrow> ((text, status), (fst lw @ [status], w')))"

definition recorded_handler :: "'w hf_handler \<Rightarrow> (string list \<times> 'w) hf_handler" where
  "recorded_handler h system_prompt user_prompt lw =
     (case h system_prompt user_prompt (snd lw) of
        ((text, status), w') \<Rightarrow> ((text, status), (fst lw @ [status], w')))"

text \<open>
  A state of the sweep with recording backends follows a state of the sweep with the
  backends themselves: same table, same variables, same warnings, same backend world.
\<close>

definition recording :: "('r, 'w) sweep_state \<Rightarrow> ('r, string list \<times> 'w) sweep_state \<Rightarrow> bool" where
  "recording s c =
     (rows c = rows s \<and> bound c = bound s \<and> warnings c = warnings s \<and> snd (world c) = world s)"

text \<open>
  A hosted backend that fails whenever it is asked the first configured question, and
  fails as judge on its own answer to the fourth one; it answers everything else.
\<close>

definition flaky :: "unit groq_generate_func" where
  "flaky model_name system_prompt user_prompt temperature w =
     (if user_prompt = user_prompt_generate ''What is your dream career?''
         \<or> user_prompt = user_prompt_judge ''What can we learn from children?'' ''An answer.''
      then ((''MODEL_FAIL'', ''fail''), w) else ((''An answer.'', ''ok''), w))"

lemma questions_distinct: "distinct QUESTIONS"
  by (simp add: QUESTIONS_def)

lemma for_each_bound:
  fixes f :: "'s \<Rightarrow> nat"
  assumes "for_each body xs s = Inr s'"
    and "\<And>x t t'. x \<in> set xs \<Longrightarrow> body x t = Inr t' \<Longrightarrow> f t' \<le> f t + k"
  shows "f s' \<le> f s + k * length xs"
  using assms
proof (induction xs arbitrary: s)
  case Nil
  then show ?case by simp
next
  case (Cons x xs)
  from Cons.prems(1) obtain t where t: "body x s = Inr t" and r: "for_each body xs t = Inr s'"
    by (auto split: sum.splits)
  from Cons.prems(2)[OF _ t] have "f t \<le> f s + k" by simp
  moreover have "\<And>y u u'. y \<in> set xs \<Longrightarrow> body y u = Inr u' \<Longrightarrow> f u' \<le> f u + k"
    using Cons.prems(2) by (meson list.set_intros(2))
  from Cons.IH[OF r this] have "f s' \<le> f t + k * length xs" .
  ultimately show ?case by simp
qed

lemma for_each_sim:
  assumes "\<And>x t u. x \<in> set xs \<Longrightarrow> R t u \<Longrightarrow> rel_sum (=) R (body x t) (body' x u)"
    and "R s c"
  shows "rel_sum (=) R (for_each body xs s) (for_each body' xs c)"
  using assms
proof (induction xs arbitrary: s c)
  case Nil
  then show ?case by simp
next
  case (Cons x xs)
  from Cons.prems(1)[of x s c] Cons.prems(2)
  have r: "rel_sum (=) R (body x s) (body' x c)" by simp
  show ?case
  proof (cases "body x s")
    case (Inl e)
    with r show ?thesis by (cases "body' x c") auto
  next
    case (Inr t)
    with r obtain u where u: "body' x c = Inr u" and tu: "R t u"
      by (cases "body' x c") auto
    have "rel_sum (=) R (for_each body xs t) (for_each body' xs u)"
      by (rule Cons.IH[OF _ tu]) (use Cons.prems(1) in auto)
    with Inr u show ?thesis by simp
  qed
qed

subsection \<open>The recording sweep follows the sweep\<close>

lemma dispatch_sim:
  assumes "recording s c"
  shows "rel_sum (=) recording
           (dispatch groq hf_handlers model_key model_info sp up temperature s)
           (dispatch (recorded groq) (map_option recorded_handler \<circ> hf_handlers) model_key model_info
              sp up temperature c)"
  using assms
  by (auto simp: dispatch_def recording_def recorded_def recorded_handler_def
      split: prod.splits option.splits)

lemma generation_iteration_sim:
  assumes "recording s c"
  shows "rel_sum (=) recording
           (generation_iteration groq hf_handlers judge_model_id traits_definitions
              model_key model_info trait_key trait_gen_info trait_score_num question s)
           (generation_iteration (recorded groq) (map_option recorded_handler \<circ> hf_handlers)
              judge_model_id traits_definitions
              model_key model_info trait_key trait_gen_info trait_score_num question c)"
proof -
  let ?sp = "system_prompt_generate (name trait_gen_info) trait_score_num trait_gen_info"
  let ?up = "user_prompt_generate question"
  note d = dispatch_sim[OF assms, of groq hf_handlers model_key model_info ?sp ?up None]
  show ?thesis
  proof (cases "dispatch groq hf_handlers model_key model_info ?sp ?up None s")
    case (Inl e)
    with d have "dispatch (recorded groq) (map_option recorded_handler \<circ> hf_handlers)
                   model_key model_info ?sp ?up None c = Inl e"
      by (auto simp: rel_sum.simps)
    with Inl show ?thesis by (simp add: generation_iteration_def Let_def)
  next
    case (Inr s1)
    with d obtain c1 where
      c1: "dispatch (recorded groq) (map_option recorded_handler \<circ> hf_handlers)
             model_key model_info ?sp ?up None c = Inr c1"
      and r1: "recording s1 c1"
      by (auto simp: rel_sum.simps)
    from r1 have b1: "bound c1 = bound s1" by (simp add: recording_def)
    show ?thesis
    proof (cases "bound s1")
      case None
      with Inr c1 b1 show ?thesis by (simp add: generation_iteration_def Let_def)
    next
      case (Some r)
      obtain generated_text status where r: "r = (generated_text, status)" by (cases r)
      note b = Some[unfolded r]
      show ?thesis
      proof (cases "status = ''fail''")
        case True
        with Inr c1 b1 b r1 show ?thesis
          by (simp add: generation_iteration_def Let_def recording_def)
      next
        case ok: False
        show ?thesis
        proof (cases "map_of (classification traits_definitions) trait_key")
          case None
          with Inr c1 b1 b ok show ?thesis
            by (simp add: generation_iteration_def Let_def)
        next
          case cl: (Some trait_class_info)
          obtain judge_response_raw judge_status w2 where
            j: "groq judge_model_id (system_prompt_judge (name trait_gen_info) trait_class_info)
                  (user_prompt_judge question generated_text) (Some 0) (world s1)
                = ((judge_response_raw, judge_status), w2)"
            by (metis prod.exhaust)
          with r1 have j': "recorded groq judge_model_id
                  (system_prompt_judge (name trait_gen_info) trait_class_info)
                  (user_prompt_judge question generated_text) (Some 0) (world c1)
                = ((judge_response_raw, judge_status), (fst (world c1) @ [judge_status], w2))"
            by (simp add: recorded_def recording_def)
          have g: "generation_iteration groq hf_handlers judge_model_id traits_definitions
              model_key model_info trait_key trait_gen_info trait_score_num question s =
              (if judge_status = ''fail'' then
                 Inr (s1\<lparr> warnings := warnings s1 @ [JudgeFailed model_key], world := w2 \<rparr>)
               else
                 (case judge_parser judge_response_raw of
                    Inl e \<Rightarrow> Inl e
                  | Inr judge_result \<Rightarrow>
                      Inr (s1\<lparr> rows := rows s1 @
                            [\<lparr> gen_model_key = model_key, gen_model_id = model_id model_info,
                               gen_prompted_trait = name trait_gen_info,
                               gen_prompted_score = trait_score_num,
                               gen_question = question, gen_generated_text = generated_text,
                               gen_judge_score = score judge_result,
                               gen_judge_clues = clues judge_result,
                               gen_judge_reasoning = reasoning judge_result,
                               gen_judge_decision_type = decision_type judge_result \<rparr>],
                           world := w2 \<rparr>)))"
            using Inr b ok cl j by (simp add: generation_iteration_def Let_def)
          have g': "generation_iteration (recorded groq) (map_option recorded_handler \<circ> hf_handlers)
              judge_model_id traits_definitions
              model_key model_info trait_key trait_gen_info trait_score_num question c =
              (if judge_status = ''fail'' then
                 Inr (c1\<lparr> warnings := warnings c1 @ [JudgeFailed model_key],
                          world := (fst (world c1) @ [judge_status], w2) \<rparr>)
               else
                 (case judge_parser judge_response_raw of
                    Inl e \<Rightarrow> Inl e
                  | Inr judge_result \<Rightarrow>
                      Inr (c1\<lparr> rows := rows c1 @
                            [\<lparr> gen_model_key = model_key, gen_model_id = model_id model_info,
                               gen_prompted_trait = name trait_gen_info,
                               gen_prompted_score = trait_score_num,
                               gen_question = question, gen_generated_text = generated_text,
                               gen_judge_score = score judge_result,
                               gen_judge_clues = clues judge_result,
                               gen_judge_reasoning = reasoning judge_result,
                               gen_judge_decision_type = decision_type judge_result \<rparr>],
                           world := (fst (world c1) @ [judge_status], w2) \<rparr>)))"
            using c1 b1 b ok cl j' by (simp add: generation_iteration_def Let_def)
          from r1 show ?thesis unfolding g g'
            by (cases "judge_parser judge_response_raw") (simp_all add: recording_def)
        qed
      qed
    qed
  qed
qed

lemma generation_sweep_sim:
  "rel_sum (=) recording
     (run_text_generation_experiment models_to_test hf_handlers groq judge_model_id
        traits_definitions questions w)
     (run_text_generation_experiment models_to_test (map_option recorded_handler \<circ> hf_handlers)
        (recorded groq) judge_model_id traits_definitions questions ([], w))"
  unfolding run_text_generation_experiment_def
proof (rule for_each_sim[where R = recording], goal_cases)
  case 2
  show ?case by (simp add: recording_def)
next
  case (1 x t u)
  obtain model_key model_info where x: "x = (model_key, model_info)" by (cases x)
  note outer = 1(2)
  show ?case unfolding x prod.case
  proof (rule for_each_sim[where R = recording], goal_cases)
    case 2
    show ?case by (rule outer)
  next
    case (1 y t u)
    obtain trait_key trait_gen_info where y: "y = (trait_key, trait_gen_info)" by (cases y)
    note outer = 1(2)
    show ?case unfolding y prod.case
    proof (rule for_each_sim[where R = recording], goal_cases)
      case 2
      show ?case by (rule outer)
    next
      case (1 n t u)
      note outer = 1(2)
      show ?case
      proof (rule for_each_sim[where R = recording], goal_cases)
        case 2
        show ?case by (rule outer)
      next
        case (1 q t u)
        then show ?case by (intro generation_iteration_sim)
      qed
    qed
  qed
qed

subsection \<open>Rows, failures and calls of the recording sweep\<close>

lemma dispatch_recorded:
  assumes "dispatch (recorded groq) (map_option recorded_handler \<circ> hf_handlers) model_key model_info
             sp up t s = Inr s1"
    and "servable hf_handlers model_key model_info"
  shows "\<exists>text status. bound s1 = Some (text, status)
           \<and> fst (world s1) = fst (world s) @ [status]
           \<and> rows s1 = rows s \<and> warnings s1 = warnings s"
  using assms
  by (auto simp: dispatch_def servable_def recorded_def recorded_handler_def
      split: if_splits option.splits prod.splits)

lemma dispatch_calls:
  assumes "dispatch (recorded groq) (map_option recorded_handler \<circ> hf_handlers) model_key model_info
             sp up t s = Inr s1"
  shows "length (fst (world s1)) \<le> length (fst (world s)) + 1"
  using assms
  by (auto simp: dispatch_def recorded_def recorded_handler_def
      split: if_splits option.splits prod.splits)

text \<open>
  An iteration for a servable model adds one to the number of rows and recorded \<open>fail\<close>
  statuses taken together: either it appends a row and records no failure, or it keeps
  the table and records exactly one.
\<close>

lemma generation_iteration_recorded:
  assumes "generation_iteration (recorded groq) (map_option recorded_handler \<circ> hf_handlers)
             judge_model_id traits_definitions
             model_key model_info trait_key trait_gen_info trait_score_num question s = Inr s'"
    and "servable hf_handlers model_key model_info"
  shows "length (rows s') + count_list (fst (world s')) ''fail''
           = length (rows s) + count_list (fst (world s)) ''fail'' + 1"
proof -
  from assms(1) obtain s1 where d: "dispatch (recorded groq) (map_option recorded_handler \<circ> hf_handlers)
             model_key model_info
             (system_prompt_generate (name trait_gen_info) trait_score_num trait_gen_info)
             (user_prompt_generate question) None s = Inr s1"
    by (auto simp: generation_iteration_def Let_def split: sum.splits)
  from dispatch_recorded[OF d assms(2)] obtain generated_text status where
    b: "bound s1 = Some (generated_text, status)"
    and l: "fst (world s1) = fst (world s) @ [status]"
    and r: "rows s1 = rows s" by blast
  show ?thesis
  proof (cases "status = ''fail''")
    case True
    with assms(1) d b have "s' = s1\<lparr> warnings := warnings s1 @ [FailedToGenerate model_key question] \<rparr>"
      by (simp add: generation_iteration_def Let_def)
    with l r True show ?thesis by simp
  next
    case ok: False
    with assms(1) d b obtain trait_class_info where
      cl: "map_of (classification traits_definitions) trait_key = Some trait_class_info"
      by (auto simp: generation_iteration_def Let_def split: option.splits)
    obtain judge_response_raw judge_status w2 where
      j: "recorded groq judge_model_id (system_prompt_judge (name trait_gen_info) trait_class_info)
            (user_prompt_judge question generated_text) (Some 0) (world s1)
          = ((judge_response_raw, judge_status), w2)"
      by (metis prod.exhaust)
    then have w2: "fst w2 = fst (world s1) @ [judge_status]"
      by (auto simp: recorded_def split: prod.splits)
    show ?thesis
    proof (cases "judge_status = ''fail''")
      case True
      with assms(1) d b ok cl j
      have "s' = s1\<lparr> warnings := warnings s1 @ [JudgeFailed model_key], world := w2 \<rparr>"
        by (simp add: generation_iteration_def Let_def)
      with l r w2 True ok show ?thesis by simp
    next
      case jok: False
      with assms(1) d b ok cl j obtain row where
        "s' = s1\<lparr> rows := rows s1 @ [row], world := w2 \<rparr>"
        by (auto simp: generation_iteration_def Let_def split: sum.splits)
      with l r w2 jok ok show ?thesis by simp
    qed
  qed
qed

lemma generation_iteration_calls:
  assumes "generation_iteration (recorded groq) (map_option recorded_handler \<circ> hf_handlers)
             judge_model_id traits_definitions
             model_key model_info trait_key trait_gen_info trait_score_num question s = Inr s'"
  shows "length (fst (world s')) \<le> length (fst (world s)) + 2"
proof -
  from assms obtain s1 where d: "dispatch (recorded groq) (map_option recorded_handler \<circ> hf_handlers)
             model_key model_info
             (system_prompt_generate (name trait_gen_info) trait_score_num trait_gen_info)
             (user_prompt_generate question) None s = Inr s1"
    by (auto simp: generation_iteration_def Let_def split: sum.splits)
  note k = dispatch_calls[OF d]
  from assms d k show ?thesis
    by (auto simp: generation_iteration_def Let_def recorded_def
        split: sum.splits option.splits prod.splits if_splits)
qed

lemma sweep_calls:
  assumes "run_text_generation_experiment models_to_test (map_option recorded_handler \<circ> hf_handlers)
             (recorded groq) judge_model_id traits_definitions questions ([], w) = Inr s'"
  shows "length (fst (world s'))
           \<le> 2 * (length models_to_test * length (generation traits_definitions) * 5 * length questions)"
proof -
  let ?f = "\<lambda>s :: (generation_record, string list \<times> 'a) sweep_state. length (fst (world s))"
  have "?f s' \<le> ?f \<lparr> rows = [], bound = None, warnings = [], world = ([], w) \<rparr>
          + (length (generation traits_definitions) * (5 * (length questions * 2))) * length models_to_test"
    apply (rule for_each_bound[where f="?f", OF assms[unfolded run_text_generation_experiment_def]])
    apply (clarsimp)
    apply (drule for_each_bound[where f="?f" and k="5 * (length questions * 2)"])
     apply (clarsimp)
     apply (drule for_each_bound[where f="?f" and k="length questions * 2"])
      apply (drule for_each_bound[where f="?f" and k="2"])
       apply (erule generation_iteration_calls)
      apply (simp add: mult.commute)
     apply simp
    apply (simp add: mult.commute)
    done
  then show ?thesis by (simp add: mult.commute mult.left_commute)
qed

lemma sweep_failures:
  assumes run: "run_text_generation_experiment models_to_test (map_option recorded_handler \<circ> hf_handlers)
             (recorded groq) judge_model_id traits_definitions questions ([], w) = Inr s'"
    and k: "\<forall>(model_key, model_info) \<in> set models_to_test.
               servable hf_handlers model_key model_info"
  shows "length (rows s') + count_list (fst (world s')) ''fail''
           = length models_to_test * length (generation traits_definitions) * 5 * length questions"
proof -
  let ?f = "\<lambda>s :: (generation_record, string list \<times> 'a) sweep_state.
              length (rows s) + count_list (fst (world s)) ''fail''"
  have "?f s' = ?f \<lparr> rows = [], bound = None, warnings = [], world = ([], w) \<rparr>
          + (length (generation traits_definitions) * (5 * length questions)) * length models_to_test"
  proof (rule for_each_count[where f = ?f, OF run[unfolded run_text_generation_experiment_def]],
      goal_cases)
    case (1 x t t')
    obtain model_key model_info where x: "x = (model_key, model_info)" by (cases x)
    with 1(1) k have sv: "servable hf_handlers model_key model_info" by auto
    from 1(2) have "for_each (\<lambda>(trait_key, trait_gen_info).
         for_each (\<lambda>trait_score_num.
           for_each (\<lambda>question.
             generation_iteration (recorded groq) (map_option recorded_handler \<circ> hf_handlers)
               judge_model_id traits_definitions
               model_key model_info trait_key trait_gen_info trait_score_num question)
           questions)
         [1 .. 5])
       (generation traits_definitions) t = Inr t'"
      by (simp add: x)
    then have "?f t' = ?f t + (5 * length questions) * length (generation traits_definitions)"
    proof (rule for_each_count[where f = ?f], goal_cases)
      case (1 y u u')
      obtain trait_key trait_gen_info where y: "y = (trait_key, trait_gen_info)" by (cases y)
      from 1(2) have "for_each (\<lambda>trait_score_num.
           for_each (\<lambda>question.
             generation_iteration (recorded groq) (map_option recorded_handler \<circ> hf_handlers)
               judge_model_id traits_definitions
               model_key model_info trait_key trait_gen_info trait_score_num question)
           questions)
         [1 .. 5] u = Inr u'"
        by (simp add: y)
      then have "?f u' = ?f u + length questions * length [1 .. 5 :: int]"
      proof (rule for_each_count[where f = ?f], goal_cases)
        case (1 n v v')
        from 1(2) have "?f v' = ?f v + 1 * length questions"
        proof (rule for_each_count[where f = ?f], goal_cases)
          case (1 q z z')
          from generation_iteration_recorded[OF 1(2) sv] show ?case .
        qed
        then show ?case by simp
      qed
      then show ?case by (simp add: mult.commute)
    qed
    then show ?case by (simp add: mult.commute)
  qed
  then show ?thesis by (simp add: mult.commute mult.left_commute)
qed

text \<open>
  C7. When the generation sweep over the configured traits ends, rows and logged
  warnings together are as many as the iterations, |models| * 5 * 5 * |questions|. The
  coordinates of the rows follow the iteration order with gaps, so the table has at most
  that many rows, and with distinct model keys (a dictionary has them) and distinct
  questions (the configured ones are) no coordinate occurs twice. The same sweep with recording backends ends
  with the same table, the same warnings and the same backend world, and its record
  shows what the backends returned: the sweep has made at most two calls for each
  iteration, one for the generation and one for the judge, so the engine repeats no
  call; and when every model of the roster is served by a backend, the number of rows
  is the number of iterations less the number of statuses \<open>fail\<close> that the backends
  returned, each of which was logged as one warning.
\<close>

theorem generation_table_bound:
  assumes "run_text_generation_experiment models_to_test hf_handlers groq_generate_func
             judge_model_id TRAITS_DEFINITIONS questions w = Inr s'"
  shows "length (rows s') + length (warnings s') = length models_to_test * 5 * 5 * length questions
       \<and> length (rows s') \<le> length models_to_test * 5 * 5 * length questions
       \<and> subseq (map coordinate (rows s'))
            (coordinates models_to_test (generation TRAITS_DEFINITIONS) questions)
       \<and> (distinct (map fst models_to_test) \<and> distinct questions
            \<longrightarrow> distinct (map coordinate (rows s')))
       \<and> (\<exists>c. run_text_generation_experiment models_to_test
                  (map_option recorded_handler \<circ> hf_handlers) (recorded groq_generate_func)
                  judge_model_id TRAITS_DEFINITIONS questions ([], w) = Inr c
              \<and> rows c = rows s' \<and> warnings c = warnings s' \<and> snd (world c) = world s'
              \<and> length (fst (world c)) \<le> 2 * (length models_to_test * 5 * 5 * length questions)
              \<and> ((\<forall>(model_key, model_info) \<in> set models_to_test.
                     servable hf_handlers model_key model_info)
                  \<longrightarrow> length (rows s') + count_list (fst (world c)) ''fail''
                        = length models_to_test * 5 * 5 * length questions
                      \<and> length (warnings s') = count_list (fst (world c)) ''fail''))"
proof -
  note c = sweep_count[OF assms, unfolded traits_5(1)]
  note sub = sweep_subseq[OF assms]
  have dist: "distinct (map coordinate (rows s'))"
    if "distinct (map fst models_to_test)" "distinct questions"
    using subseq_distinct[OF sub distinct_coordinates[OF that(1) traits_5(2) that(2)]] .
  from generation_sweep_sim[of models_to_test hf_handlers groq_generate_func judge_model_id
      TRAITS_DEFINITIONS questions w] assms
  obtain c where crun: "run_text_generation_experiment models_to_test
                  (map_option recorded_handler \<circ> hf_handlers) (recorded groq_generate_func)
                  judge_model_id TRAITS_DEFINITIONS questions ([], w) = Inr c"
    and rc: "recording s' c"
    by (auto simp: rel_sum.simps)
  note calls = sweep_calls[OF crun, unfolded traits_5(1)]
  have fails: "length (rows s') + count_list (fst (world c)) ''fail''
                 = length models_to_test * 5 * 5 * length questions
               \<and> length (warnings s') = count_list (fst (world c)) ''fail''"
    if "\<forall>(model_key, model_info) \<in> set models_to_test. servable hf_handlers model_key model_info"
  proof -
    from sweep_failures[OF crun that, unfolded traits_5(1)] rc
    have "length (rows s') + count_list (fst (world c)) ''fail''
                 = length models_to_test * 5 * 5 * length questions"
      by (simp add: recording_def)
    with c show ?thesis by simp
  qed
  from rc have "rows c = rows s' \<and> warnings c = warnings s' \<and> snd (world c) = world s'"
    by (simp add: recording_def)
  with crun calls fails have "\<exists>c. run_text_generation_experiment models_to_test
                  (map_option recorded_handler \<circ> hf_handlers) (recorded groq_generate_func)
                  judge_model_id TRAITS_DEFINITIONS questions ([], w) = Inr c
              \<and> rows c = rows s' \<and> warnings c = warnings s' \<and> snd (world c) = world s'
              \<and> length (fst (world c)) \<le> 2 * (length models_to_test * 5 * 5 * length questions)
              \<and> ((\<forall>(model_key, model_info) \<in> set models_to_test.
                     servable hf_handlers model_key model_info)
                  \<longrightarrow> length (rows s') + count_list (fst (world c)) ''fail''
                        = length models_to_test * 5 * 5 * length questions
                      \<and> length (warnings s') = count_list (fst (world c)) ''fail'')"
    by blast
  with c sub dist show ?thesis by simp
qed

text \<open>
  One hosted model, the configured traits and three of the configured questions, with
  the backend \<open>flaky\<close>: of the 75 iterations, the 25 that ask the first question fail at
  the generation and the 25 that ask about children fail at the judge. The sweep ends
  with 25 rows, no coordinate twice, and 50 warnings; the recording sweep has the same
  table, and its record holds 125 statuses (25 + 2 * 50 calls), 50 of them \<open>fail\<close>.
\<close>

theorem generation_table_bound_witness:
  "\<exists>s' c. run_text_generation_experiment [(''Llama'', demo_model)] Map.empty flaky
            JUDGE_MODEL_ID TRAITS_DEFINITIONS
            [''What is your dream career?'', ''What does the world need more of?'',
             ''What can we learn from children?''] () = Inr s'
        \<and> run_text_generation_experiment [(''Llama'', demo_model)]
            (map_option recorded_handler \<circ> Map.empty) (recorded flaky)
            JUDGE_MODEL_ID TRAITS_DEFINITIONS
            [''What is your dream career?'', ''What does the world need more of?'',
             ''What can we learn from children?''] ([], ()) = Inr c
        \<and> rows c = rows s'
        \<and> length (rows s') = 25
        \<and> length (warnings s') = 50
        \<and> distinct (map coordinate (rows s'))
        \<and> count_list (fst (world c)) ''fail'' = 50
        \<and> length (fst (world c)) = 125"
proof -
  let ?qs = "[''What is your dream career?'', ''What does the world need more of?'',
             ''What can we learn from children?'']"
  have a: "\<forall>(model_key, model_info) \<in> set [(''Llama'', demo_model)].
          servable (Map.empty :: string \<rightharpoonup> unit hf_handler) model_key model_info"
    by (simp add: servable_def demo_model_def)
  have b: "\<forall>(trait_key, trait_gen_info) \<in> set (generation TRAITS_DEFINITIONS).
          map_of (classification TRAITS_DEFINITIONS) trait_key \<noteq> None"
    by (simp add: TRAITS_DEFINITIONS_def)
  obtain s' where
    run: "run_text_generation_experiment [(''Llama'', demo_model)] Map.empty flaky
            JUDGE_MODEL_ID TRAITS_DEFINITIONS ?qs () = Inr s'"
    using generation_sweep_total[where groq = flaky
        and judge_model_id = JUDGE_MODEL_ID and questions = ?qs and w = "()", OF a b]
    by blast
  have d: "distinct (map fst [(''Llama'', demo_model)]) \<and> distinct ?qs"
    by simp
  from generation_table_bound[OF run] a d obtain c where
    crun: "run_text_generation_experiment [(''Llama'', demo_model)]
            (map_option recorded_handler \<circ> Map.empty) (recorded flaky)
            JUDGE_MODEL_ID TRAITS_DEFINITIONS ?qs ([], ()) = Inr c"
    and rc: "rows c = rows s'"
    and sum: "length (rows s') + count_list (fst (world c)) ''fail'' = 75"
    and wn: "length (warnings s') = count_list (fst (world c)) ''fail''"
    and di: "distinct (map coordinate (rows s'))"
    by auto
  have "map_sum id (\<lambda>c. (length (rows c), length (fst (world c))))
          (run_text_generation_experiment [(''Llama'', demo_model)]
            (map_option recorded_handler \<circ> Map.empty) (recorded flaky)
            JUDGE_MODEL_ID TRAITS_DEFINITIONS ?qs ([], ())) = Inr (25, 125)"
    by code_simp
  with crun have ev: "length (rows c) = 25" "length (fst (world c)) = 125"
    by simp_all
  with rc sum wn have "length (rows s') = 25" "count_list (fst (world c)) ''fail'' = 50"
    "length (warnings s') = 50"
    by simp_all
  with run crun rc di ev show ?thesis by blast
qed

section \<open>Score domains\<close>









section \<open>Handler kinds\<close>

lemma upto_1_5_list: "[1 .. 5] = [1, 2, 3, 4, 5 :: int]"
  by (simp add: upto_rec1)

lemma dispatch_unrecognised:
  assumes "handler model_info \<noteq> ''groq''" "handler model_info \<noteq> ''hf''"
  shows "dispatch groq hf_handlers model_key model_info sp up t s = Inr s"
  using assms by (simp add: dispatch_def)

lemma generation_iteration_unbound:
  assumes "handler model_info \<noteq> ''groq''" "handler model_info \<noteq> ''hf''" "bound s = None"
  shows "generation_iteration groq hf_handlers judge_model_id traits_definitions
             model_key model_info trait_key trait_gen_info trait_score_num question s
         = Inl (UnboundLocalError ''status'')"
  using assms by (simp add: generation_iteration_def dispatch_unrecognised Let_def)

lemma generation_iteration_stale:
  assumes "handler model_info \<noteq> ''groq''" "handler model_info \<noteq> ''hf''" "bound s = Some r"
  shows "generation_iteration groq hf_handlers judge_model_id traits_definitions
             model_key model_info trait_key trait_gen_info trait_score_num question s
         = generation_iteration groq (hf_handlers(model_key \<mapsto> (\<lambda>sp up w. (r, w)))) judge_model_id
             traits_definitions model_key (model_info\<lparr> handler := ''hf'' \<rparr>) trait_key trait_gen_info
             trait_score_num question s"
proof -
  have e: "s\<lparr> bound := Some r \<rparr> = s" using assms(3) by simp
  show ?thesis
    using assms
    by (simp add: generation_iteration_def dispatch_def Let_def e
        split: prod.splits option.splits sum.splits)
qed

lemma questionnaire_iteration_unrecognised:
  assumes "handler model_info \<noteq> ''groq''" "handler model_info \<noteq> ''hf''"
  shows "questionnaire_iteration groq hf_handlers model_key model_info trait_name level
           system_prompt question_set q =
         (case bound q of
            None \<Rightarrow> Inl (UnboundLocalError ''status'')
          | Some (answer, status) \<Rightarrow>
              Inr (if status = ''ok'' then
                     q\<lparr> rows := rows q @
                       [\<lparr> ans_model_key = model_key, ans_trait = trait_name,
                          ans_prompted_level = level, ans_Q_type = q_type question_set,
                          ans_Answer = answer \<rparr>] \<rparr>
                   else q))"
  using assms
  by (simp add: questionnaire_iteration_def dispatch_unrecognised split: option.splits)

lemma generation_sweep_unbound:
  assumes "handler model_info \<noteq> ''groq''" "handler model_info \<noteq> ''hf''"
    and "generation traits_definitions \<noteq> []" "questions \<noteq> []"
  shows "run_text_generation_experiment ((model_key, model_info) # rest) hf_handlers groq
           judge_model_id traits_definitions questions w = Inl (UnboundLocalError ''status'')"
proof -
  from assms(3) obtain tk ti ts where t: "generation traits_definitions = (tk, ti) # ts"
    by (cases "generation traits_definitions") auto
  from assms(4) obtain qn qs where q: "questions = qn # qs" by (cases questions) auto
  show ?thesis
    by (simp add: run_text_generation_experiment_def t q upto_1_5_list
        generation_iteration_unbound[OF assms(1,2)])
qed

lemma questionnaire_sweep_unbound:
  assumes "handler model_info \<noteq> ''groq''" "handler model_info \<noteq> ''hf''"
    and "bfi44_questions = (c # cs, question_set # questions) # others"
    and "map_of (generation traits_definitions) [upper_char c] = Some trait_info"
  shows "run_questionnaire_experiment ((model_key, model_info) # rest) hf_handlers groq
           bfi44_questions bfi44_scores_dict traits_definitions w = Inl (UnboundLocalError ''status'')"
  by (simp add: run_questionnaire_experiment_def assms(3,4) Let_def
        questionnaire_iteration_unrecognised[OF assms(1,2)])


text \<open>
  C10. With loaded handlers and resolvable trait keys, both sweeps end without an exception
  when every model of the roster has the kind \<open>groq\<close> or \<open>hf\<close>. For a model of any other
  kind the dispatch calls no backend and assigns nothing. An iteration for such a model
  is not skipped: it raises the error of an unassigned local variable when nothing has
  been assigned yet, and otherwise goes on with the text and status that the last
  backend call left behind, exactly as if a backend had returned them again. So a sweep
  whose first model has such a kind raises at its first iteration.
\<close>

theorem unrecognised_handler_kind:
  "((\<forall>(model_key, model_info) \<in> set models_to_test. servable hf_handlers model_key model_info)
      \<and> (\<forall>(trait_key, trait_gen_info) \<in> set (generation traits_definitions).
            map_of (classification traits_definitions) trait_key \<noteq> None)
      \<longrightarrow> (\<exists>s'. run_text_generation_experiment models_to_test hf_handlers groq_generate_func
                  judge_model_id traits_definitions questions w = Inr s'))
   \<and> ((\<forall>(model_key, model_info) \<in> set models_to_test. servable hf_handlers model_key model_info)
      \<and> (\<forall>(trait_key_long, items) \<in> set bfi44_questions.
            trait_key_long \<noteq> []
            \<and> map_of (generation traits_definitions) [upper_char (hd trait_key_long)] \<noteq> None)
      \<longrightarrow> (\<exists>s'. run_questionnaire_experiment models_to_test hf_handlers groq_generate_func
                  bfi44_questions bfi44_scores_dict traits_definitions w = Inr s'))
   \<and> (handler model_info \<noteq> ''groq'' \<and> handler model_info \<noteq> ''hf'' \<longrightarrow>
        dispatch groq_generate_func hf_handlers model_key model_info system_prompt user_prompt
           temperature s = Inr s
       \<and> (bound s = None \<longrightarrow>
            generation_iteration groq_generate_func hf_handlers judge_model_id traits_definitions
              model_key model_info trait_key trait_gen_info trait_score_num question s
            = Inl (UnboundLocalError ''status''))
       \<and> (bound s = Some r \<longrightarrow>
            generation_iteration groq_generate_func hf_handlers judge_model_id traits_definitions
              model_key model_info trait_key trait_gen_info trait_score_num question s
            = generation_iteration groq_generate_func
                (hf_handlers(model_key \<mapsto> (\<lambda>sp up w. (r, w)))) judge_model_id traits_definitions
                model_key (model_info\<lparr> handler := ''hf'' \<rparr>) trait_key trait_gen_info
                trait_score_num question s)
       \<and> questionnaire_iteration groq_generate_func hf_handlers model_key model_info trait_name
            level system_prompt question_set q =
           (case bound q of
              None \<Rightarrow> Inl (UnboundLocalError ''status'')
            | Some (answer, status) \<Rightarrow>
                Inr (if status = ''ok'' then
                       q\<lparr> rows := rows q @
                         [\<lparr> ans_model_key = model_key, ans_trait = trait_name,
                            ans_prompted_level = level, ans_Q_type = q_type question_set,
                            ans_Answer = answer \<rparr>] \<rparr>
                     else q))
       \<and> (generation traits_definitions \<noteq> [] \<and> questions \<noteq> [] \<longrightarrow>
            run_text_generation_experiment ((model_key, model_info) # rest) hf_handlers
              groq_generate_func judge_model_id traits_definitions questions w
            = Inl (UnboundLocalError ''status''))
       \<and> (bfi44_questions = (c # cs, question_set # items) # others
            \<and> map_of (generation traits_definitions) [upper_char c] = Some trait_info \<longrightarrow>
            run_questionnaire_experiment ((model_key, model_info) # rest) hf_handlers
              groq_generate_func bfi44_questions bfi44_scores_dict traits_definitions w
            = Inl (UnboundLocalError ''status'')))"
proof (intro conjI impI; (elim conjE)?)
  show "\<exists>s'. run_text_generation_experiment models_to_test hf_handlers groq_generate_func
                  judge_model_id traits_definitions questions w = Inr s'"
    if "\<forall>(model_key, model_info) \<in> set models_to_test. servable hf_handlers model_key model_info"
      and "\<forall>(trait_key, trait_gen_info) \<in> set (generation traits_definitions).
            map_of (classification traits_definitions) trait_key \<noteq> None"
    using that by (rule generation_sweep_total)
  show "\<exists>s'. run_questionnaire_experiment models_to_test hf_handlers groq_generate_func
                  bfi44_questions bfi44_scores_dict traits_definitions w = Inr s'"
    if "\<forall>(model_key, model_info) \<in> set models_to_test. servable hf_handlers model_key model_info"
      and "\<forall>(trait_key_long, items) \<in> set bfi44_questions.
            trait_key_long \<noteq> []
            \<and> map_of (generation traits_definitions) [upper_char (hd trait_key_long)] \<noteq> None"
    using that by (rule questionnaire_sweep_total)
qed (simp_all add: dispatch_unrecognised generation_iteration_unbound
        generation_iteration_stale questionnaire_iteration_unrecognised
        generation_sweep_unbound questionnaire_sweep_unbound)

text \<open>
  A roster of a hosted model followed by a model of kind \<open>openai\<close>, one questionnaire
  trait with one item, and a client that answers twice: the two rows of the unknown model
  repeat the last answer given for the hosted model. With the unknown model alone, the
  generation sweep raises; with the hosted model alone, it ends.
\<close>

theorem unrecognised_handler_kind_witness:
  "run_text_generation_experiment [(''Mystery'', mystery_model)] Map.empty
     (judge_says ''{}'') ''judge'' demo_traits [''What is your dream career?''] ()
   = Inl (UnboundLocalError ''status'')
   \<and> (\<exists>s'. run_text_generation_experiment [(''Llama'', demo_model)] Map.empty
         (judge_says ''{}'') ''judge'' demo_traits [''What is your dream career?''] () = Inr s')
   \<and> questionnaire_iteration (judge_says ''{}'') Map.empty ''Mystery'' mystery_model ''Openness''
        ''high'' ''Act as a person'' demo_item
        \<lparr> rows = [], bound = Some (''agree a little with the statement'', ''ok''),
          warnings = [], world = () \<rparr>
      = Inr \<lparr> rows = [\<lparr> ans_model_key = ''Mystery'', ans_trait = ''Openness'',
                        ans_prompted_level = ''high'', ans_Q_type = ''direct'',
                        ans_Answer = ''agree a little with the statement'' \<rparr>],
              bound = Some (''agree a little with the statement'', ''ok''),
              warnings = [], world = () \<rparr>
   \<and> map_sum id (map (\<lambda>row. (ans_model_key row, ans_prompted_level row, ans_Answer row)) \<circ> rows)
       (run_questionnaire_experiment [(''Llama'', demo_model), (''Mystery'', mystery_model)]
          Map.empty (groq_backend scripted_api) [(''openness'', [demo_item])] BFI44_SCORES_DICT
          demo_traits
          [Inr ''agree strongly with the statement'', Inr ''agree a little with the statement''])
     = Inr [(''Llama'', ''high'', ''agree strongly with the statement''),
            (''Llama'', ''low'', ''agree a little with the statement''),
            (''Mystery'', ''high'', ''agree a little with the statement''),
            (''Mystery'', ''low'', ''agree a little with the statement'')]"
proof -
  let ?q = "\<lparr> rows = [] :: questionnaire_record list,
             bound = Some (''agree a little with the statement'', ''ok''),
             warnings = [], world = () \<rparr>"
  have k: "handler mystery_model \<noteq> ''groq'' \<and> handler mystery_model \<noteq> ''hf''"
    by (simp add: mystery_model_def)
  have n: "generation demo_traits \<noteq> [] \<and> [''What is your dream career?''] \<noteq> []"
    by (simp add: demo_traits_def)
  have a: "\<forall>(model_key, model_info) \<in> set [(''Llama'', demo_model)].
             servable (Map.empty :: string \<rightharpoonup> unit hf_handler) model_key model_info"
    by (simp add: servable_def demo_model_def)
  have b: "\<forall>(trait_key, trait_gen_info) \<in> set (generation demo_traits).
             map_of (classification demo_traits) trait_key \<noteq> None"
    by (simp add: demo_traits_def)
  note t = unrecognised_handler_kind[where model_info = mystery_model and model_key = "''Mystery''"
      and models_to_test = "[(''Llama'', demo_model)]"
      and hf_handlers = "Map.empty :: string \<rightharpoonup> unit hf_handler"
      and groq_generate_func = "judge_says ''{}''" and judge_model_id = "''judge''"
      and traits_definitions = demo_traits and questions = "[''What is your dream career?'']"
      and w = "()" and rest = "[]" and q = ?q and trait_name = "''Openness''"
      and level = "''high''" and system_prompt = "''Act as a person''"
      and question_set = demo_item]
  have 1: "run_text_generation_experiment [(''Mystery'', mystery_model)] Map.empty
     (judge_says ''{}'') ''judge'' demo_traits [''What is your dream career?''] ()
   = Inl (UnboundLocalError ''status'')"
    using t k n by blast
  have 2: "\<exists>s'. run_text_generation_experiment [(''Llama'', demo_model)] Map.empty
         (judge_says ''{}'') ''judge'' demo_traits [''What is your dream career?''] () = Inr s'"
    using t a b by blast
  have 3: "questionnaire_iteration (judge_says ''{}'') Map.empty ''Mystery'' mystery_model ''Openness''
        ''high'' ''Act as a person'' demo_item ?q
      = Inr (?q\<lparr> rows := rows ?q @ [\<lparr> ans_model_key = ''Mystery'', ans_trait = ''Openness'',
                        ans_prompted_level = ''high'', ans_Q_type = q_type demo_item,
                        ans_Answer = ''agree a little with the statement'' \<rparr>] \<rparr>)"
    using t k by simp
  have 4: "map_sum id (map (\<lambda>row. (ans_model_key row, ans_prompted_level row, ans_Answer row)) \<circ> rows)
       (run_questionnaire_experiment [(''Llama'', demo_model), (''Mystery'', mystery_model)]
          Map.empty (groq_backend scripted_api) [(''openness'', [demo_item])] BFI44_SCORES_DICT
          demo_traits
          [Inr ''agree strongly with the statement'', Inr ''agree a little with the statement''])
     = Inr [(''Llama'', ''high'', ''agree strongly with the statement''),
            (''Llama'', ''low'', ''agree a little with the statement''),
            (''Mystery'', ''high'', ''agree a little with the statement''),
            (''Mystery'', ''low'', ''agree a little with the statement'')]"
    by code_simp
  from 1 2 3 4 show ?thesis by (simp add: demo_item_def)
qed

section \<open>Loading the local models\<close>

lemma preload_aborts:
  assumes "(model_key, model_info) \<in> set models_to_test" and "handler model_info = ''hf''"
    and "new_handler lib (model_id model_info) = Inl e"
  shows "\<exists>k. preload lib models_to_test loaded = Inl k"
  using assms(1)
proof (induction models_to_test arbitrary: loaded)
  case Nil
  then show ?case by simp
next
  case (Cons x xs)
  obtain k mi where x: "x = (k, mi)" by (cases x)
  show ?case
  proof (cases "x = (model_key, model_info)")
    case True
    with x assms(2,3) show ?thesis by simp
  next
    case False
    with Cons.prems have "(model_key, model_info) \<in> set xs" by simp
    from Cons.IH[OF this] show ?thesis
      by (auto simp: x split: sum.splits)
  qed
qed

lemma new_handler_fails:
  assumes "tokenizer_from_pretrained lib name_or_path = Inl e
           \<or> model_from_pretrained lib name_or_path = Inl e"
  shows "\<exists>e'. new_handler lib name_or_path = Inl e'"
  using assms by (auto simp: new_handler_def load_model_def split: sum.splits)

text \<open>
  C6. When the roster has a model of kind \<open>hf\<close> whose tokenizer or weights fail to load,
  the constructor of its handler raises, and \<open>main\<close> returns at the first such model, before
  the sweeps: the outcome is an abort, whatever the backends would answer, and holds no
  generation or questionnaire table.
\<close>

theorem load_failure_aborts:
  assumes "(model_key, model_info) \<in> set models_to_test" and "handler model_info = ''hf''"
    and "tokenizer_from_pretrained lib (model_id model_info) = Inl e
         \<or> model_from_pretrained lib (model_id model_info) = Inl e"
  shows "(\<exists>e'. new_handler lib (model_id model_info) = Inl e')
       \<and> (\<exists>k. main api lib models_to_test judge_model_id traits_definitions questions
                bfi44_questions bfi44_scores_dict w = Aborted k)"
proof -
  from new_handler_fails[OF assms(3)] obtain e' where e': "new_handler lib (model_id model_info) = Inl e'"
    by blast
  from preload_aborts[OF assms(1,2) e'] obtain k where "preload lib models_to_test Map.empty = Inl k"
    by blast
  with e' show ?thesis by (auto simp: main_def)
qed

text \<open>
  The configured roster with a library whose weights do not load: the run is aborted at
  the local model, the first of the roster.
\<close>

theorem load_failure_aborts_witness:
  "(''Gemma-7B (Hugging Face)'', \<lparr> handler = ''hf'', model_id = ''google/gemma-7b-it'' \<rparr>) \<in> set MODELS_TO_TEST
   \<and> model_from_pretrained broken_lib ''google/gemma-7b-it'' = Inl ''CUDA out of memory''
   \<and> new_handler broken_lib ''google/gemma-7b-it'' = Inl ''CUDA out of memory''
   \<and> main silent_api broken_lib MODELS_TO_TEST JUDGE_MODEL_ID TRAITS_DEFINITIONS QUESTIONS
        BFI44_QUESTIONS BFI44_SCORES_DICT () = Aborted ''Gemma-7B (Hugging Face)''"
proof -
  let ?mi = "\<lparr> handler = ''hf'', model_id = ''google/gemma-7b-it'' \<rparr>"
  have a: "(''Gemma-7B (Hugging Face)'', ?mi) \<in> set MODELS_TO_TEST"
    by (simp add: MODELS_TO_TEST_def)
  have b: "handler ?mi = ''hf''" by simp
  have c: "tokenizer_from_pretrained broken_lib (model_id ?mi) = Inl ''CUDA out of memory''
         \<or> model_from_pretrained broken_lib (model_id ?mi) = Inl ''CUDA out of memory''"
    by (simp add: broken_lib_def)
  have d: "preload broken_lib MODELS_TO_TEST Map.empty = Inl ''Gemma-7B (Hugging Face)''"
    by (simp add: MODELS_TO_TEST_def broken_lib_def new_handler_def load_model_def)
  from load_failure_aborts[where api = silent_api and judge_model_id = JUDGE_MODEL_ID
      and traits_definitions = TRAITS_DEFINITIONS and questions = QUESTIONS
      and bfi44_questions = BFI44_QUESTIONS and bfi44_scores_dict = BFI44_SCORES_DICT
      and w = "()", OF a b c] a d
  show ?thesis
    by (auto simp: main_def broken_lib_def new_handler_def load_model_def)
qed

section \<open>Similarity on insufficient vocabulary\<close>

text \<open>
  The texts of a table provide insufficient vocabulary when no term of any text, stop
  words apart, occurs in two of the texts. This covers the table without rows, the
  table with one row, and texts that are empty or made of stop words only.
\<close>

definition insufficient_vocabulary :: "string list \<Rightarrow> string list \<Rightarrow> bool" where
  "insufficient_vocabulary stop_words texts =
     (let docs = map (analyze stop_words) texts
      in list_all (\<lambda>term. document_frequency docs term < 2) (concat docs))"

lemma document_frequency_le: "document_frequency docs term \<le> length docs"
  by (simp add: document_frequency_def)

lemma fit_transform_raises:
  "(\<exists>value_error. fit_transform lib texts = Inl value_error)
     \<longleftrightarrow> insufficient_vocabulary (ENGLISH_STOP_WORDS lib) texts"
proof -
  let ?docs = "map (analyze (ENGLISH_STOP_WORDS lib)) texts"
  let ?kept = "filter (\<lambda>term. 2 \<le> document_frequency ?docs term) (remdups (concat ?docs))"
  have k: "?kept = [] \<longleftrightarrow> list_all (\<lambda>term. document_frequency ?docs term < 2) (concat ?docs)"
    by (auto simp: filter_empty_conv list_all_iff not_le)
  show ?thesis
  proof (cases "remdups (concat ?docs) = []")
    case True
    then have "concat ?docs = []" by simp
    then have "list_all (\<lambda>term. document_frequency ?docs term < 2) (concat ?docs)"
      by (simp only: list.pred_inject(1))
    with True show ?thesis
      by (simp add: fit_transform_def insufficient_vocabulary_def Let_def)
  next
    case v: False
    show ?thesis
    proof (cases "length texts < 2")
      case True
      have "document_frequency ?docs tm < 2" for tm
        using document_frequency_le[of ?docs tm] True by simp
      then have "list_all (\<lambda>term. document_frequency ?docs term < 2) (concat ?docs)"
        by (simp add: list_all_iff)
      with v True show ?thesis
        by (simp add: fit_transform_def insufficient_vocabulary_def Let_def)
    next
      case False
      with v k show ?thesis
        by (auto simp: fit_transform_def insufficient_vocabulary_def Let_def)
    qed
  qed
qed

text \<open>
  The table of an empty list of rows has no column of texts: there the computation
  raises \<^verbatim>\<open>KeyError\<close>. Both callers select the columns first and pass non-empty parts of
  the table only.
\<close>

lemma similarity_without_columns:
  "calculate_similarity_matrix lib (DataFrame []) = Inl (KeyError ''generated_text'')"
  by (simp add: calculate_similarity_matrix_def DataFrame_def)

text \<open>
  C9. For a table with the column of generated texts: when the texts provide
  insufficient vocabulary, the similarity computation raises nothing and returns the 5
  by 5 matrix of zeros. The vectorizer raises on exactly these texts, and its error is
  never propagated: the only exception the computation can raise on such a table is
  \<^verbatim>\<open>KeyError\<close> for a missing column of prompted scores, and only when the vocabulary
  suffices.
\<close>

theorem similarity_degrades:
  assumes "''generated_text'' \<in> set (columns df)"
  shows "(insufficient_vocabulary (ENGLISH_STOP_WORDS lib) (map gen_generated_text (records df))
            \<longrightarrow> calculate_similarity_matrix lib df =
                  Inr [[0, 0, 0, 0, 0], [0, 0, 0, 0, 0], [0, 0, 0, 0, 0], [0, 0, 0, 0, 0],
                       [0, 0, 0, 0, 0]])
       \<and> ((\<exists>value_error. fit_transform lib (map gen_generated_text (records df)) = Inl value_error)
            \<longleftrightarrow> insufficient_vocabulary (ENGLISH_STOP_WORDS lib)
                  (map gen_generated_text (records df)))
       \<and> (\<forall>e. calculate_similarity_matrix lib df = Inl e
              \<longrightarrow> e = KeyError ''prompted_score'' \<and> ''prompted_score'' \<notin> set (columns df)
                  \<and> \<not> insufficient_vocabulary (ENGLISH_STOP_WORDS lib)
                        (map gen_generated_text (records df)))"
proof (intro conjI impI allI)
  assume "insufficient_vocabulary (ENGLISH_STOP_WORDS lib) (map gen_generated_text (records df))"
  with fit_transform_raises[of lib "map gen_generated_text (records df)"]
  obtain value_error where
    "fit_transform lib (map gen_generated_text (records df)) = Inl value_error" by blast
  with assms show "calculate_similarity_matrix lib df =
                  Inr [[0, 0, 0, 0, 0], [0, 0, 0, 0, 0], [0, 0, 0, 0, 0], [0, 0, 0, 0, 0],
                       [0, 0, 0, 0, 0]]"
    by (simp add: calculate_similarity_matrix_def numeral_eq_Suc)
next
  show "(\<exists>value_error. fit_transform lib (map gen_generated_text (records df)) = Inl value_error)
            \<longleftrightarrow> insufficient_vocabulary (ENGLISH_STOP_WORDS lib)
                  (map gen_generated_text (records df))"
    by (rule fit_transform_raises)
next
  fix e
  assume e: "calculate_similarity_matrix lib df = Inl e"
  show "e = KeyError ''prompted_score''"
    using e assms
    by (auto simp: calculate_similarity_matrix_def Let_def split: sum.splits if_splits)
  show "''prompted_score'' \<notin> set (columns df)"
    using e assms
    by (auto simp: calculate_similarity_matrix_def Let_def split: sum.splits if_splits)
  from e assms have "\<exists>m. fit_transform lib (map gen_generated_text (records df)) = Inr m"
    by (auto simp: calculate_similarity_matrix_def Let_def split: sum.splits if_splits)
  with fit_transform_raises[of lib "map gen_generated_text (records df)"]
  show "\<not> insufficient_vocabulary (ENGLISH_STOP_WORDS lib) (map gen_generated_text (records df))"
    by auto
qed

text \<open>
  The table \<open>three_texts\<close> has the column of texts and three rows. Its texts have six
  terms, none of them in two texts, so the vectorizer finds a vocabulary, has enough
  documents, and keeps no term: the matrix is the matrix of zeros.
\<close>

theorem similarity_degrades_witness:
  "''generated_text'' \<in> set (columns three_texts)
   \<and> length (records three_texts) = 3
   \<and> map (analyze (ENGLISH_STOP_WORDS toy_sklearn)) (map gen_generated_text (records three_texts))
       = [[''sea'', ''calm''], [''paint'', ''mountains''], [''music'', ''dance'', ''two'', ''them'']]
   \<and> insufficient_vocabulary (ENGLISH_STOP_WORDS toy_sklearn)
        (map gen_generated_text (records three_texts))
   \<and> fit_transform toy_sklearn (map gen_generated_text (records three_texts)) = Inl NoTermsRemain
   \<and> calculate_similarity_matrix toy_sklearn three_texts =
        Inr [[0, 0, 0, 0, 0], [0, 0, 0, 0, 0], [0, 0, 0, 0, 0], [0, 0, 0, 0, 0], [0, 0, 0, 0, 0]]"
proof -
  have c: "''generated_text'' \<in> set (columns three_texts)"
    by (simp add: three_texts_def DataFrame_def)
  have l: "length (records three_texts) = 3"
    by (simp add: three_texts_def DataFrame_def)
  have t: "map (analyze (ENGLISH_STOP_WORDS toy_sklearn))
             (map gen_generated_text (records three_texts))
       = [[''sea'', ''calm''], [''paint'', ''mountains''], [''music'', ''dance'', ''two'', ''them'']]"
    by code_simp
  have i: "insufficient_vocabulary (ENGLISH_STOP_WORDS toy_sklearn)
        (map gen_generated_text (records three_texts))"
    unfolding insufficient_vocabulary_def Let_def t by (simp add: document_frequency_def)
  have f: "fit_transform toy_sklearn (map gen_generated_text (records three_texts))
             = Inl NoTermsRemain"
    by code_simp
  from similarity_degrades[OF c, of toy_sklearn] c l t i f show ?thesis by simp
qed

section \<open>Determinism and order of the questionnaire table\<close>

text \<open>
  Backends are deterministic when the text and status they return do not depend on the
  world: the same request gets the same answer, whatever has happened before.
\<close>

definition deterministic :: "'w groq_generate_func \<Rightarrow> (string \<rightharpoonup> 'w hf_handler) \<Rightarrow> bool" where
  "deterministic groq_generate_func hf_handlers =
     ((\<forall>model_name system_prompt user_prompt temperature w w'.
         fst (groq_generate_func model_name system_prompt user_prompt temperature w)
         = fst (groq_generate_func model_name system_prompt user_prompt temperature w'))
      \<and> (\<forall>model_key h system_prompt user_prompt w w'.
            hf_handlers model_key = Some h
            \<longrightarrow> fst (h system_prompt user_prompt w) = fst (h system_prompt user_prompt w')))"

text \<open>
  Two loop states with the same table may differ in the world only.
\<close>

definition same_table :: "('r, 'w) sweep_state \<Rightarrow> ('r, 'w) sweep_state \<Rightarrow> bool" where
  "same_table s t = (rows s = rows t \<and> bound s = bound t \<and> warnings s = warnings t)"

lemma for_each_rel:
  assumes "\<And>x t u. x \<in> set xs \<Longrightarrow> R t u \<Longrightarrow> rel_sum (=) R (body x t) (body x u)"
    and "R s s'"
  shows "rel_sum (=) R (for_each body xs s) (for_each body xs s')"
  using assms
proof (induction xs arbitrary: s s')
  case Nil
  then show ?case by simp
next
  case (Cons x xs)
  from Cons.prems(1)[of x s s'] Cons.prems(2)
  have r: "rel_sum (=) R (body x s) (body x s')" by simp
  show ?case
  proof (cases "body x s")
    case (Inl e)
    with r show ?thesis by (cases "body x s'") auto
  next
    case (Inr t)
    with r obtain u where u: "body x s' = Inr u" and tu: "R t u"
      by (cases "body x s'") auto
    have "rel_sum (=) R (for_each body xs t) (for_each body xs u)"
      by (rule Cons.IH[OF _ tu]) (use Cons.prems(1) in auto)
    with Inr u show ?thesis by simp
  qed
qed

lemma dispatch_rel:
  assumes "deterministic groq hf_handlers" and "same_table t u"
  shows "rel_sum (=) same_table
           (dispatch groq hf_handlers model_key model_info sp up temperature t)
           (dispatch groq hf_handlers model_key model_info sp up temperature u)"
proof (cases "handler model_info = ''groq''")
  case True
  from assms(1) have "fst (groq (model_id model_info) sp up temperature (world t))
     = fst (groq (model_id model_info) sp up temperature (world u))"
    unfolding deterministic_def by blast
  with True assms(2) show ?thesis
    by (auto simp: dispatch_def same_table_def split: prod.splits)
next
  case ng: False
  show ?thesis
  proof (cases "handler model_info = ''hf''")
    case False
    with ng assms(2) show ?thesis by (simp add: dispatch_def)
  next
    case True
    show ?thesis
    proof (cases "hf_handlers model_key")
      case None
      with ng True show ?thesis by (simp add: dispatch_def)
    next
      case (Some h)
      with assms(1) have "fst (h sp up (world t)) = fst (h sp up (world u))"
        unfolding deterministic_def by blast
      with ng True Some assms(2) show ?thesis
        by (auto simp: dispatch_def same_table_def split: prod.splits)
    qed
  qed
qed

lemma questionnaire_iteration_rel:
  assumes "deterministic groq hf_handlers" and "same_table t u"
  shows "rel_sum (=) same_table
           (questionnaire_iteration groq hf_handlers model_key model_info trait_name level
              system_prompt question_set t)
           (questionnaire_iteration groq hf_handlers model_key model_info trait_name level
              system_prompt question_set u)"
proof -
  from dispatch_rel[OF assms, of model_key model_info system_prompt
      "questionnaire_user_prompt question_set" "Some 0.7"]
  show ?thesis
    unfolding questionnaire_iteration_def
    by (auto simp: rel_sum.simps same_table_def split: option.splits prod.splits)
qed

lemma questionnaire_sweep_rel:
  assumes "deterministic groq hf_handlers"
  shows "rel_sum (=) same_table
           (run_questionnaire_experiment models_to_test hf_handlers groq bfi44_questions
              bfi44_scores_dict traits_definitions w)
           (run_questionnaire_experiment models_to_test hf_handlers groq bfi44_questions
              bfi44_scores_dict traits_definitions w')"
  unfolding run_questionnaire_experiment_def
proof (rule for_each_rel[where R = same_table], goal_cases)
  case 2
  show ?case by (simp add: same_table_def)
next
  case (1 x t u)
  obtain model_key model_info where x: "x = (model_key, model_info)" by (cases x)
  note outer = 1(2)
  show ?case unfolding x prod.case
  proof (rule for_each_rel[where R = same_table], goal_cases)
    case 2
    show ?case by (rule outer)
  next
    case (1 y t u)
    obtain trait_key_long questions where y: "y = (trait_key_long, questions)" by (cases y)
    show ?case
    proof (cases trait_key_long)
      case Nil
      then show ?thesis by (simp add: y)
    next
      case (Cons c cs)
      show ?thesis
      proof (cases "map_of (generation traits_definitions) [upper_char c]")
        case None
        with Cons show ?thesis by (simp add: y)
      next
        case (Some trait_info)
        have "rel_sum (=) same_table
           (for_each (\<lambda>level.
                     for_each (\<lambda>question_set.
                       questionnaire_iteration groq hf_handlers model_key model_info
                         (name trait_info) level
                         (questionnaire_system_prompt level (name trait_info) trait_info bfi44_scores_dict)
                         question_set)
                     questions)
                   [''high'', ''low''] t)
           (for_each (\<lambda>level.
                     for_each (\<lambda>question_set.
                       questionnaire_iteration groq hf_handlers model_key model_info
                         (name trait_info) level
                         (questionnaire_system_prompt level (name trait_info) trait_info bfi44_scores_dict)
                         question_set)
                     questions)
                   [''high'', ''low''] u)"
          by (intro for_each_rel questionnaire_iteration_rel assms) (assumption | rule 1(2))+
        with Cons Some show ?thesis by (simp add: y Let_def)
      qed
    qed
  qed
qed


text \<open>
  The table as the specification describes it: for every model, every trait, the levels
  high and low and every item of the trait, in this order, one record when the status of
  the answer is ok. \<open>response\<close> is the answer of the backend that serves a model, asked
  in a world \<open>w\<close>.
\<close>

definition response ::
  "'w groq_generate_func \<Rightarrow> (string \<rightharpoonup> 'w hf_handler) \<Rightarrow> string \<Rightarrow> model_info \<Rightarrow> string \<Rightarrow> string
    \<Rightarrow> 'w \<Rightarrow> (string \<times> string) option"
where
  "response groq_generate_func hf_handlers model_key model_info system_prompt user_prompt w =
     (if handler model_info = ''groq'' then
        Some (fst (groq_generate_func (model_id model_info) system_prompt user_prompt (Some 0.7) w))
      else if handler model_info = ''hf'' then
        map_option (\<lambda>h. fst (h system_prompt user_prompt w)) (hf_handlers model_key)
      else None)"

definition questionnaire_table ::
  "'w groq_generate_func \<Rightarrow> (string \<rightharpoonup> 'w hf_handler) \<Rightarrow> (string \<times> model_info) list
    \<Rightarrow> (string \<times> question_set list) list \<Rightarrow> (string \<times> int) list \<Rightarrow> traits_definitions \<Rightarrow> 'w
    \<Rightarrow> questionnaire_record list"
where
  "questionnaire_table groq_generate_func hf_handlers models_to_test bfi44_questions
      bfi44_scores_dict traits_definitions w =
     concat (map (\<lambda>(model_key, model_info).
       concat (map (\<lambda>(trait_key_long, questions).
         case map_of (generation traits_definitions) [upper_char (hd trait_key_long)] of
           None \<Rightarrow> []
         | Some trait_info \<Rightarrow>
             concat (map (\<lambda>level.
               concat (map (\<lambda>question_set.
                 case response groq_generate_func hf_handlers model_key model_info
                        (questionnaire_system_prompt level (name trait_info) trait_info
                           bfi44_scores_dict)
                        (questionnaire_user_prompt question_set) w of
                   Some (answer, status) \<Rightarrow>
                     if status = ''ok'' then
                       [\<lparr> ans_model_key = model_key, ans_trait = name trait_info,
                          ans_prompted_level = level, ans_Q_type = q_type question_set,
                          ans_Answer = answer \<rparr>]
                     else []
                 | None \<Rightarrow> [])
               questions))
             [''high'', ''low'']))
       bfi44_questions))
     models_to_test)"

lemma for_each_rows_concat:
  assumes "\<And>x t. x \<in> set xs \<Longrightarrow> \<exists>t'. body x t = Inr t' \<and> rows t' = rows t @ g x"
  shows "\<exists>s'. for_each body xs s = Inr s' \<and> rows s' = rows s @ concat (map g xs)"
  using assms
proof (induction xs arbitrary: s)
  case Nil
  then show ?case by simp
next
  case (Cons x xs)
  from Cons.prems[of x s] obtain t where t: "body x s = Inr t" "rows t = rows s @ g x" by auto
  have "\<exists>s'. for_each body xs t = Inr s' \<and> rows s' = rows t @ concat (map g xs)"
    by (rule Cons.IH) (use Cons.prems in auto)
  with t show ?case by auto
qed

lemma questionnaire_iteration_table:
  assumes det: "deterministic groq hf_handlers"
    and k: "servable hf_handlers model_key model_info"
  shows "\<exists>t'. questionnaire_iteration groq hf_handlers model_key model_info trait_name level
              system_prompt question_set t = Inr t'
           \<and> rows t' = rows t @
               (case response groq hf_handlers model_key model_info system_prompt
                       (questionnaire_user_prompt question_set) w0 of
                  Some (answer, status) \<Rightarrow>
                    if status = ''ok'' then
                      [\<lparr> ans_model_key = model_key, ans_trait = trait_name,
                         ans_prompted_level = level, ans_Q_type = q_type question_set,
                         ans_Answer = answer \<rparr>]
                    else []
                | None \<Rightarrow> [])"
proof (cases "handler model_info = ''groq''")
  case True
  from det have e: "fst (groq (model_id model_info) system_prompt (questionnaire_user_prompt question_set) (Some 0.7) (world t))
     = fst (groq (model_id model_info) system_prompt (questionnaire_user_prompt question_set) (Some 0.7) w0)"
    unfolding deterministic_def by blast
  obtain a st w' where g: "groq (model_id model_info) system_prompt (questionnaire_user_prompt question_set) (Some 0.7) (world t) = ((a, st), w')"
    by (metis prod.exhaust)
  with e have "fst (groq (model_id model_info) system_prompt (questionnaire_user_prompt question_set) (Some 0.7) w0) = (a, st)"
    by simp
  with True g show ?thesis
    by (simp add: questionnaire_iteration_def dispatch_def response_def)
next
  case False
  with k obtain h where hf: "handler model_info = ''hf''" and h: "hf_handlers model_key = Some h"
    by (auto simp: servable_def)
  from det h have e: "fst (h system_prompt (questionnaire_user_prompt question_set) (world t))
     = fst (h system_prompt (questionnaire_user_prompt question_set) w0)"
    unfolding deterministic_def by blast
  obtain a st w' where g: "h system_prompt (questionnaire_user_prompt question_set) (world t) = ((a, st), w')"
    by (metis prod.exhaust)
  with e have "fst (h system_prompt (questionnaire_user_prompt question_set) w0) = (a, st)"
    by simp
  with False hf h g show ?thesis
    by (simp add: questionnaire_iteration_def dispatch_def response_def)
qed

lemma questionnaire_sweep_table:
  assumes det: "deterministic groq hf_handlers"
    and k: "\<forall>(model_key, model_info) \<in> set models_to_test. servable hf_handlers model_key model_info"
    and c: "\<forall>(trait_key_long, questions) \<in> set bfi44_questions.
               trait_key_long \<noteq> [] \<and> map_of (generation traits_definitions) [upper_char (hd trait_key_long)] \<noteq> None"
  shows "\<exists>s'. run_questionnaire_experiment models_to_test hf_handlers groq bfi44_questions
             bfi44_scores_dict traits_definitions w = Inr s'
           \<and> rows s' = questionnaire_table groq hf_handlers models_to_test bfi44_questions
                          bfi44_scores_dict traits_definitions w0"
proof -
  have "\<exists>s'. run_questionnaire_experiment models_to_test hf_handlers groq bfi44_questions
             bfi44_scores_dict traits_definitions w = Inr s'
           \<and> rows s' = rows \<lparr> rows = [] :: questionnaire_record list, bound = None, warnings = [], world = w \<rparr>
               @ questionnaire_table groq hf_handlers models_to_test bfi44_questions
                          bfi44_scores_dict traits_definitions w0"
    unfolding run_questionnaire_experiment_def questionnaire_table_def
  proof (rule for_each_rows_concat, goal_cases)
    case (1 x t)
    obtain model_key model_info where x: "x = (model_key, model_info)" by (cases x)
    with 1 k have kk: "servable hf_handlers model_key model_info" by auto
    show ?case unfolding x prod.case
    proof (rule for_each_rows_concat, goal_cases)
      case (1 y u)
      obtain trait_key_long questions where y: "y = (trait_key_long, questions)" by (cases y)
      with 1 c obtain ch cs ti where tk: "trait_key_long = ch # cs"
        and ti: "map_of (generation traits_definitions) [upper_char ch] = Some ti"
        by (cases trait_key_long) auto
      have "\<exists>t'. for_each (\<lambda>level.
                     for_each (\<lambda>question_set.
                       questionnaire_iteration groq hf_handlers model_key model_info
                         (name ti) level
                         (questionnaire_system_prompt level (name ti) ti bfi44_scores_dict)
                         question_set)
                     questions)
                   [''high'', ''low''] u = Inr t'
               \<and> rows t' = rows u @
             concat (map (\<lambda>level.
               concat (map (\<lambda>question_set.
                 case response groq hf_handlers model_key model_info
                        (questionnaire_system_prompt level (name ti) ti bfi44_scores_dict)
                        (questionnaire_user_prompt question_set) w0 of
                   Some (answer, status) \<Rightarrow>
                     if status = ''ok'' then
                       [\<lparr> ans_model_key = model_key, ans_trait = name ti,
                          ans_prompted_level = level, ans_Q_type = q_type question_set,
                          ans_Answer = answer \<rparr>]
                     else []
                 | None \<Rightarrow> [])
               questions))
             [''high'', ''low''])"
        by (intro for_each_rows_concat questionnaire_iteration_table det kk)
      then show ?case by (simp add: y tk ti Let_def)
    qed
  qed
  then show ?thesis by simp
qed

text \<open>
  C8. With deterministic backends, two runs of the questionnaire sweep on the same
  configuration give the same result, table or exception, in whatever worlds they start.
  When moreover every model is servable and every trait key resolves, the sweep ends and
  its table is the list of the records of the answers with status ok in the order of the
  loops over models, traits, levels and items.
\<close>

theorem questionnaire_deterministic:
  assumes "deterministic groq_generate_func hf_handlers"
  shows "map_sum id rows
           (run_questionnaire_experiment models_to_test hf_handlers groq_generate_func
              bfi44_questions bfi44_scores_dict traits_definitions w)
         = map_sum id rows
           (run_questionnaire_experiment models_to_test hf_handlers groq_generate_func
              bfi44_questions bfi44_scores_dict traits_definitions w')
       \<and> ((\<forall>(model_key, model_info) \<in> set models_to_test.
              servable hf_handlers model_key model_info)
           \<and> (\<forall>(trait_key_long, items) \<in> set bfi44_questions.
                trait_key_long \<noteq> []
                \<and> map_of (generation traits_definitions) [upper_char (hd trait_key_long)] \<noteq> None)
           \<longrightarrow> (\<exists>s'. run_questionnaire_experiment models_to_test hf_handlers groq_generate_func
                       bfi44_questions bfi44_scores_dict traits_definitions w = Inr s'
                    \<and> rows s' = questionnaire_table groq_generate_func hf_handlers models_to_test
                                  bfi44_questions bfi44_scores_dict traits_definitions w0))"
proof (intro conjI impI; (elim conjE)?)
  from questionnaire_sweep_rel[OF assms, of models_to_test bfi44_questions bfi44_scores_dict
      traits_definitions w w']
  show "map_sum id rows
           (run_questionnaire_experiment models_to_test hf_handlers groq_generate_func
              bfi44_questions bfi44_scores_dict traits_definitions w)
         = map_sum id rows
           (run_questionnaire_experiment models_to_test hf_handlers groq_generate_func
              bfi44_questions bfi44_scores_dict traits_definitions w')"
    by (auto simp: rel_sum.simps same_table_def)
  show "\<exists>s'. run_questionnaire_experiment models_to_test hf_handlers groq_generate_func
                       bfi44_questions bfi44_scores_dict traits_definitions w = Inr s'
                    \<and> rows s' = questionnaire_table groq_generate_func hf_handlers models_to_test
                                  bfi44_questions bfi44_scores_dict traits_definitions w0"
    if "\<forall>(model_key, model_info) \<in> set models_to_test. servable hf_handlers model_key model_info"
      and "\<forall>(trait_key_long, items) \<in> set bfi44_questions.
                trait_key_long \<noteq> []
                \<and> map_of (generation traits_definitions) [upper_char (hd trait_key_long)] \<noteq> None"
    using assms that by (rule questionnaire_sweep_table)
qed

lemma upper_initials:
  "upper_char CHR ''o'' = CHR ''O''" "upper_char CHR ''c'' = CHR ''C''"
  "upper_char CHR ''e'' = CHR ''E''" "upper_char CHR ''a'' = CHR ''A''"
  "upper_char CHR ''n'' = CHR ''N''"
  by code_simp+

text \<open>
  The configured roster, item bank and traits, with backends that always give the same
  answer and count their calls in the world: the sweep ends, and a second run, started in
  the world the first has left, gives the same table.
\<close>

theorem questionnaire_deterministic_witness:
  "deterministic (counting_backend ''agree a little with the statement'')
     [''Gemma-7B (Hugging Face)'' \<mapsto> counting_handler ''agree strongly with the statement'']
   \<and> (\<exists>s t. run_questionnaire_experiment MODELS_TO_TEST
               [''Gemma-7B (Hugging Face)'' \<mapsto> counting_handler ''agree strongly with the statement'']
               (counting_backend ''agree a little with the statement'')
               BFI44_QUESTIONS BFI44_SCORES_DICT TRAITS_DEFINITIONS 0 = Inr s
           \<and> run_questionnaire_experiment MODELS_TO_TEST
               [''Gemma-7B (Hugging Face)'' \<mapsto> counting_handler ''agree strongly with the statement'']
               (counting_backend ''agree a little with the statement'')
               BFI44_QUESTIONS BFI44_SCORES_DICT TRAITS_DEFINITIONS (world s) = Inr t
           \<and> rows s = rows t
           \<and> rows s = questionnaire_table (counting_backend ''agree a little with the statement'')
               [''Gemma-7B (Hugging Face)'' \<mapsto> counting_handler ''agree strongly with the statement'']
               MODELS_TO_TEST BFI44_QUESTIONS BFI44_SCORES_DICT TRAITS_DEFINITIONS 0)"
proof -
  let ?g = "counting_backend ''agree a little with the statement''"
  let ?h = "[''Gemma-7B (Hugging Face)'' \<mapsto> counting_handler ''agree strongly with the statement'']"
  have det: "deterministic ?g ?h"
    by (auto simp: deterministic_def counting_backend_def counting_handler_def)
  have k: "\<forall>(model_key, model_info) \<in> set MODELS_TO_TEST. servable ?h model_key model_info"
    by (simp add: MODELS_TO_TEST_def servable_def)
  have c: "\<forall>(trait_key_long, items) \<in> set BFI44_QUESTIONS.
             trait_key_long \<noteq> []
             \<and> map_of (generation TRAITS_DEFINITIONS) [upper_char (hd trait_key_long)] \<noteq> None"
    by (simp add: BFI44_QUESTIONS_def TRAITS_DEFINITIONS_def upper_initials)
  note t = questionnaire_deterministic[OF det, where models_to_test = MODELS_TO_TEST
      and bfi44_questions = BFI44_QUESTIONS and bfi44_scores_dict = BFI44_SCORES_DICT
      and traits_definitions = TRAITS_DEFINITIONS and ?w0.0 = 0]
  from t[of 0] k c obtain s where
    s: "run_questionnaire_experiment MODELS_TO_TEST ?h ?g
          BFI44_QUESTIONS BFI44_SCORES_DICT TRAITS_DEFINITIONS 0 = Inr s"
       "rows s = questionnaire_table ?g ?h MODELS_TO_TEST BFI44_QUESTIONS BFI44_SCORES_DICT
                   TRAITS_DEFINITIONS 0"
    by blast
  from t[of "world s"] k c obtain u where
    u: "run_questionnaire_experiment MODELS_TO_TEST ?h ?g
          BFI44_QUESTIONS BFI44_SCORES_DICT TRAITS_DEFINITIONS (world s) = Inr u"
       "rows u = questionnaire_table ?g ?h MODELS_TO_TEST BFI44_QUESTIONS BFI44_SCORES_DICT
                   TRAITS_DEFINITIONS 0"
    by blast
  from det s u show ?thesis by auto
qed

end
